theory Spec2Isabelle
  imports Complex_Main "HOL-Library.AList"
begin

section \<open>Python values, errors and the HTTP transport\<close>

text \<open>
  Every operation of the repository is one Python function: it validates its arguments
  (raising \<open>ValueError\<close>), builds headers and a JSON body or a query dictionary, calls
  \<open>requests.get/post/patch/delete\<close> once inside \<open>try\<close>, and turns a
  \<open>requests.exceptions.RequestException\<close> into a dictionary.

  Python objects that end up in a dictionary are values of \<open>pyval\<close>. A dictionary is an
  association list in insertion order; \<open>d[k] = v\<close> is \<open>AList.update k v d\<close>.
  A parameter is typed by its annotation; it is an \<open>option\<close> (\<open>None\<close> for Python's
  \<open>None\<close>) when the annotation is \<open>Optional\<close>, when its default is \<open>None\<close>, or when the
  code tests it for presence with \<open>not x\<close>. A \<open>float\<close> is the real number it denotes (no
  NaN, no infinity). A \<open>str\<close> is a \<open>string\<close>; the string functions below are those of
  Python on ASCII text.
\<close>

datatype pyval =
    PNone
  | PBool bool
  | PInt int
  | PFloat real
  | PStr string
  | PList "pyval list"
  | PDict "(string \<times> pyval) list"

type_synonym pydict = "(string \<times> pyval) list"

text \<open>Python's truth value of an object, as \<open>if x\<close> and \<open>not x\<close> test it.\<close>

fun truthy :: "pyval \<Rightarrow> bool" where
  "truthy PNone = False"
| "truthy (PBool b) = b"
| "truthy (PInt n) = (n \<noteq> 0)"
| "truthy (PFloat r) = (r \<noteq> 0)"
| "truthy (PStr s) = (s \<noteq> [])"
| "truthy (PList xs) = (xs \<noteq> [])"
| "truthy (PDict d) = (d \<noteq> [])"

definition py_str :: "string option \<Rightarrow> pyval" where
  "py_str x = (case x of None \<Rightarrow> PNone | Some s \<Rightarrow> PStr s)"

definition py_int :: "int option \<Rightarrow> pyval" where
  "py_int x = (case x of None \<Rightarrow> PNone | Some n \<Rightarrow> PInt n)"

definition py_float :: "real option \<Rightarrow> pyval" where
  "py_float x = (case x of None \<Rightarrow> PNone | Some r \<Rightarrow> PFloat r)"

definition py_bool :: "bool option \<Rightarrow> pyval" where
  "py_bool x = (case x of None \<Rightarrow> PNone | Some b \<Rightarrow> PBool b)"

definition py_strs :: "string list option \<Rightarrow> pyval" where
  "py_strs x = (case x of None \<Rightarrow> PNone | Some xs \<Rightarrow> PList (map PStr xs))"

text \<open>
  The exceptions an operation can leave to its caller. \<open>FormatError\<close> is the
  \<open>KeyError\<close> or \<open>ValueError\<close> of \<open>str.format\<close>. \<open>Propagated\<close> is an exception of
  the transport that is not a \<open>RequestException\<close>: the \<open>except\<close> clause does not catch it.
\<close>

datatype error =
    ValueError string
  | TypeError string
  | RuntimeError string
  | KeyError string
  | AttributeError string
  | FormatError
  | Propagated string

datatype outcome = Raised error | Returned pyval

datatype http_method = GET | POST | PATCH | DELETE

record request =
  req_method :: http_method
  req_url :: string
  req_headers :: pydict
  req_json :: "pydict option"
  req_params :: "pydict option"

text \<open>
  What \<open>requests.<method>(...)\<close>, \<open>response.raise_for_status()\<close> and \<open>response.json()\<close>
  do together for one request: raise a \<open>RequestException\<close> \<open>e\<close> (the string is
  \<open>str(e)\<close>), raise something else, or give the decoded body. The library is not part of
  the repository, so the transport is a parameter of every operation.
\<close>

datatype transport_outcome =
    RequestException string
  | OtherException string
  | Response pyval

type_synonym transport = "request \<Rightarrow> transport_outcome"

text \<open>
  An operation yields its outcome and the list of requests it handed to the transport.
\<close>

type_synonym result = "outcome \<times> request list"

definition raise :: "error \<Rightarrow> result" where
  "raise e = (Raised e, [])"

definition error_value :: "string \<Rightarrow> pydict" where
  "error_value m = [(''status'', PStr ''error''), (''message'', PStr m)]"

text \<open>
  The \<open>try\<close> block of an operation:
  \<^verbatim>\<open>
    try:
        response = requests.post(URL, headers=headers, json=payload)
        response.raise_for_status()
        return response.json()
    except requests.exceptions.RequestException as e:
        return {"status": "error", "message": str(e)}
  \<close>
  \<open>try_request tr rq on_error on_response\<close> hands \<open>rq\<close> to the transport; \<open>on_error\<close>
  builds the dictionary returned by the \<open>except\<close> clause from \<open>str(e)\<close>, and
  \<open>on_response\<close> is what the \<open>try\<close> body does with the decoded response. All operations
  but two have exactly the block above, which is \<open>perform\<close>: the method, the URL
  expression and the keyword arguments vary. The URL expression is evaluated first; where
  it is a \<open>str.format\<close> call that fails (\<open>None\<close>), its exception is not a
  \<open>RequestException\<close> and nothing is sent.
\<close>

definition try_request ::
  "transport \<Rightarrow> request \<Rightarrow> (string \<Rightarrow> pydict) \<Rightarrow> (pyval \<Rightarrow> outcome) \<Rightarrow> result" where
  "try_request tr rq on_error on_response =
     (case tr rq of
        RequestException e \<Rightarrow> (Returned (PDict (on_error e)), [rq])
      | OtherException e \<Rightarrow> (Raised (Propagated e), [rq])
      | Response v \<Rightarrow> (on_response v, [rq]))"

definition perform ::
  "transport \<Rightarrow> http_method \<Rightarrow> string option \<Rightarrow> pydict \<Rightarrow> pydict option \<Rightarrow> pydict option \<Rightarrow> result" where
  "perform tr m url headers json params =
     (case url of
        None \<Rightarrow> raise FormatError
      | Some u \<Rightarrow>
         try_request tr
           \<lparr>req_method = m, req_url = u, req_headers = headers,
             req_json = json, req_params = params\<rparr>
           error_value Returned)"

text \<open>\<open>if c: d[k] = v\<close>, and \<open>d.update(items)\<close> for a dictionary \<open>items\<close>.\<close>

definition set_if :: "bool \<Rightarrow> string \<Rightarrow> pyval \<Rightarrow> pydict \<Rightarrow> pydict" where
  "set_if c k v d = (if c then AList.update k v d else d)"

definition dict_update :: "pydict \<Rightarrow> pydict \<Rightarrow> pydict" where
  "dict_update d items = foldl (\<lambda>acc (k, v). AList.update k v acc) d items"

text \<open>\<open>d.get(k)\<close> (\<open>None\<close> for a missing key) and \<open>isinstance(x, list)\<close>.\<close>

definition dict_get :: "pydict \<Rightarrow> string \<Rightarrow> pyval" where
  "dict_get d k = (case map_of d k of None \<Rightarrow> PNone | Some v \<Rightarrow> v)"

definition isinstance_list :: "pyval \<Rightarrow> bool" where
  "isinstance_list x = (case x of PList xs \<Rightarrow> True | _ \<Rightarrow> False)"

section \<open>String functions\<close>

definition is_digit :: "char \<Rightarrow> bool" where
  "is_digit c = (c \<in> set ''0123456789'')"

text \<open>\<open>re.sub(r'[^\d+]', '', s)\<close>: delete every character that is neither a digit nor \<open>+\<close>.\<close>

definition clean_phone :: "string \<Rightarrow> string" where
  "clean_phone s = filter (\<lambda>c. is_digit c \<or> c = CHR ''+'') s"

text \<open>
  \<open>re.match(r'^\+?\d{10,15}$', s)\<close>: an optional \<open>+\<close>, then the longest run of digits,
  which must have 10 to 15 characters and reach the end of the string (\<open>$\<close> also matches
  before one final newline).
\<close>

definition match_phone :: "string \<Rightarrow> bool" where
  "match_phone s =
     (let r = (case s of [] \<Rightarrow> [] | c # cs \<Rightarrow> if c = CHR ''+'' then cs else c # cs);
          ds = takeWhile is_digit r;
          rest = dropWhile is_digit r
      in 10 \<le> length ds \<and> length ds \<le> 15 \<and> (rest = [] \<or> rest = [CHR 0x0A]))"

text \<open>\<open>s.startswith("+")\<close>, \<open>s[1:]\<close> is \<open>drop 1 s\<close>, and \<open>s.isdigit()\<close> (false on the empty string).\<close>

definition startswith_plus :: "string \<Rightarrow> bool" where
  "startswith_plus s = (case s of [] \<Rightarrow> False | c # cs \<Rightarrow> c = CHR ''+'')"

definition isdigit :: "string \<Rightarrow> bool" where
  "isdigit s = (s \<noteq> [] \<and> list_all is_digit s)"

definition upper_char :: "char \<Rightarrow> char" where
  "upper_char c =
     (case map_of (zip ''abcdefghijklmnopqrstuvwxyz'' ''ABCDEFGHIJKLMNOPQRSTUVWXYZ'') c of
        None \<Rightarrow> c | Some u \<Rightarrow> u)"

definition upper :: "string \<Rightarrow> string" where
  "upper s = map upper_char s"

text \<open>\<open>sep.join(xs)\<close>.\<close>

fun join :: "string \<Rightarrow> string list \<Rightarrow> string" where
  "join sep [] = []"
| "join sep [x] = x"
| "join sep (x # y # ys) = x @ sep @ join sep (y # ys)"

text \<open>
  \<open>template.format(**kw)\<close> for templates whose replacement fields are plain names:
  \<open>{{\<close> and \<open>}}\<close> are literal braces, \<open>{name}\<close> is replaced by the keyword argument
  \<open>name\<close> (a missing name is a \<open>KeyError\<close>, a lone brace a \<open>ValueError\<close>; both are
  \<open>None\<close> here). The second argument is the field name being read, if any.
\<close>

fun format_go :: "(string \<times> string) list \<Rightarrow> string option \<Rightarrow> string \<Rightarrow> string option" where
  "format_go kw None [] = Some []"
| "format_go kw (Some f) [] = None"
| "format_go kw None (c # cs) =
     (if c = CHR ''{'' then
        (case cs of
           [] \<Rightarrow> None
         | d # ds \<Rightarrow> if d = CHR ''{'' then map_option ((#) c) (format_go kw None ds)
                    else format_go kw (Some []) cs)
      else if c = CHR ''}'' then
        (case cs of
           [] \<Rightarrow> None
         | d # ds \<Rightarrow> if d = CHR ''}'' then map_option ((#) c) (format_go kw None ds)
                    else None)
      else map_option ((#) c) (format_go kw None cs))"
| "format_go kw (Some f) (c # cs) =
     (if c = CHR ''}'' then
        (case map_of kw f of
           None \<Rightarrow> None
         | Some v \<Rightarrow> map_option ((@) v) (format_go kw None cs))
      else format_go kw (Some (f @ [c])) cs)"

definition str_format :: "string \<Rightarrow> (string \<times> string) list \<Rightarrow> string option" where
  "str_format template kw = format_go kw None template"

text \<open>How \<open>str.format\<close> renders an argument: \<open>str(None)\<close> is \<open>None\<close>, a string is itself.\<close>

definition format_value :: "string option \<Rightarrow> string" where
  "format_value x = (case x of None \<Rightarrow> ''None'' | Some s \<Rightarrow> s)"

section \<open>config.py and the endpoints defined in the operation modules\<close>

text \<open>
  The endpoints are f-strings over \<open>API_BASE_URL\<close> and \<open>API_VERSION\<close>; a doubled brace
  of the f-string is a single brace of the resulting template.
\<close>

definition API_BASE_URL :: string where "API_BASE_URL = ''https://api.bland.ai''"
definition API_VERSION :: string where "API_VERSION = ''v1''"

definition CALLS_ENDPOINT :: string where
  "CALLS_ENDPOINT = API_BASE_URL @ ''/'' @ API_VERSION @ ''/calls''"
definition ANALYZE_ENDPOINT :: string where
  "ANALYZE_ENDPOINT = CALLS_ENDPOINT @ ''/{call_id}/analyze''"
definition STOP_CALL_ENDPOINT :: string where
  "STOP_CALL_ENDPOINT = CALLS_ENDPOINT @ ''/{call_id}/stop''"
definition STOP_ALL_CALLS_ENDPOINT :: string where
  "STOP_ALL_CALLS_ENDPOINT = CALLS_ENDPOINT @ ''/active/stop''"
definition CALL_DETAILS_ENDPOINT :: string where
  "CALL_DETAILS_ENDPOINT = CALLS_ENDPOINT @ ''/{call_id}''"
definition PATHWAYS_ENDPOINT :: string where
  "PATHWAYS_ENDPOINT = API_BASE_URL @ ''/'' @ API_VERSION @ ''/pathways''"
definition PATHWAY_DETAILS_ENDPOINT :: string where
  "PATHWAY_DETAILS_ENDPOINT = PATHWAYS_ENDPOINT @ ''/{pathway_id}''"
definition CREATE_PATHWAY_ENDPOINT :: string where
  "CREATE_PATHWAY_ENDPOINT = PATHWAYS_ENDPOINT"
definition UPDATE_PATHWAY_ENDPOINT :: string where
  "UPDATE_PATHWAY_ENDPOINT = PATHWAYS_ENDPOINT @ ''/{pathway_id}/update''"
definition DELETE_PATHWAY_ENDPOINT :: string where
  "DELETE_PATHWAY_ENDPOINT = PATHWAYS_ENDPOINT @ ''/{pathway_id}/delete''"
definition PATHWAY_CHAT_CREATE_ENDPOINT :: string where
  "PATHWAY_CHAT_CREATE_ENDPOINT = API_BASE_URL @ ''/'' @ API_VERSION @ ''/pathway/chat/create''"
definition PATHWAY_CHAT_ENDPOINT :: string where
  "PATHWAY_CHAT_ENDPOINT = API_BASE_URL @ ''/'' @ API_VERSION @ ''/pathway/chat/{chat_id}''"
definition PATHWAY_VERSIONS_ENDPOINT :: string where
  "PATHWAY_VERSIONS_ENDPOINT = PATHWAYS_ENDPOINT @ ''/{pathway_id}/versions''"
definition PATHWAY_VERSION_ENDPOINT :: string where
  "PATHWAY_VERSION_ENDPOINT = PATHWAYS_ENDPOINT @ ''/{pathway_id}/versions/{version_id}''"
definition PROMOTE_PATHWAY_VERSION_ENDPOINT :: string where
  "PROMOTE_PATHWAY_VERSION_ENDPOINT =
     PATHWAYS_ENDPOINT @ ''/{pathway_id}/versions/{version_id}/promote''"
definition CREATE_PATHWAY_VERSION_ENDPOINT :: string where
  "CREATE_PATHWAY_VERSION_ENDPOINT = PATHWAYS_ENDPOINT @ ''/{pathway_id}/versions/create''"
definition DELETE_PATHWAY_VERSION_ENDPOINT :: string where
  "DELETE_PATHWAY_VERSION_ENDPOINT =
     PATHWAYS_ENDPOINT @ ''/{pathway_id}/versions/{version_id}/delete''"
definition FOLDERS_ENDPOINT :: string where
  "FOLDERS_ENDPOINT = API_BASE_URL @ ''/'' @ API_VERSION @ ''/folders''"
definition FOLDER_PATHWAYS_ENDPOINT :: string where
  "FOLDER_PATHWAYS_ENDPOINT = FOLDERS_ENDPOINT @ ''/{folder_id}/pathways''"
definition CREATE_FOLDER_ENDPOINT :: string where
  "CREATE_FOLDER_ENDPOINT = FOLDERS_ENDPOINT"
definition DELETE_FOLDER_ENDPOINT :: string where
  "DELETE_FOLDER_ENDPOINT = FOLDERS_ENDPOINT @ ''/{folder_id}/delete''"
definition UPDATE_FOLDER_ENDPOINT :: string where
  "UPDATE_FOLDER_ENDPOINT = FOLDERS_ENDPOINT @ ''/{folder_id}/update''"
definition MOVE_PATHWAY_ENDPOINT :: string where
  "MOVE_PATHWAY_ENDPOINT = PATHWAYS_ENDPOINT @ ''/{pathway_id}/move''"
definition PURCHASE_PHONE_ENDPOINT :: string where
  "PURCHASE_PHONE_ENDPOINT = API_BASE_URL @ ''/'' @ API_VERSION @ ''/phone/purchase''"
definition UPDATE_INBOUND_ENDPOINT :: string where
  "UPDATE_INBOUND_ENDPOINT = API_BASE_URL @ ''/'' @ API_VERSION @ ''/phone/inbound/update''"
definition LIST_INBOUND_ENDPOINT :: string where
  "LIST_INBOUND_ENDPOINT = API_BASE_URL @ ''/'' @ API_VERSION @ ''/phone/inbound''"
definition INBOUND_DETAILS_ENDPOINT :: string where
  "INBOUND_DETAILS_ENDPOINT =
     API_BASE_URL @ ''/'' @ API_VERSION @ ''/phone/inbound/{phone_number}''"
definition LIST_OUTBOUND_ENDPOINT :: string where
  "LIST_OUTBOUND_ENDPOINT = API_BASE_URL @ ''/'' @ API_VERSION @ ''/phone/outbound''"
definition LIST_VOICES_ENDPOINT :: string where
  "LIST_VOICES_ENDPOINT = API_BASE_URL @ ''/'' @ API_VERSION @ ''/voices''"
definition VOICE_DETAILS_ENDPOINT :: string where
  "VOICE_DETAILS_ENDPOINT = API_BASE_URL @ ''/'' @ API_VERSION @ ''/voices/{voice_id}''"
definition PUBLISH_VOICE_ENDPOINT :: string where
  "PUBLISH_VOICE_ENDPOINT = API_BASE_URL @ ''/'' @ API_VERSION @ ''/voices/publish''"
definition GENERATE_AUDIO_ENDPOINT :: string where
  "GENERATE_AUDIO_ENDPOINT = API_BASE_URL @ ''/'' @ API_VERSION @ ''/voices/generate''"
definition CUSTOM_TOOLS_ENDPOINT :: string where
  "CUSTOM_TOOLS_ENDPOINT = API_BASE_URL @ ''/'' @ API_VERSION @ ''/tools''"
definition CUSTOM_TOOL_DETAILS_ENDPOINT :: string where
  "CUSTOM_TOOL_DETAILS_ENDPOINT = CUSTOM_TOOLS_ENDPOINT @ ''/{tool_id}''"
definition UPDATE_CUSTOM_TOOL_ENDPOINT :: string where
  "UPDATE_CUSTOM_TOOL_ENDPOINT = CUSTOM_TOOLS_ENDPOINT @ ''/{tool_id}/update''"
definition DELETE_CUSTOM_TOOL_ENDPOINT :: string where
  "DELETE_CUSTOM_TOOL_ENDPOINT = CUSTOM_TOOLS_ENDPOINT @ ''/{tool_id}/delete''"
definition LIST_CUSTOM_TOOLS_ENDPOINT :: string where
  "LIST_CUSTOM_TOOLS_ENDPOINT = CUSTOM_TOOLS_ENDPOINT @ ''/list''"

text \<open>Endpoints that the operation modules define themselves.\<close>

definition BATCH_CALLS_ENDPOINT :: string where
  "BATCH_CALLS_ENDPOINT = API_BASE_URL @ ''/'' @ API_VERSION @ ''/calls/batch''"
definition BATCHES_ENDPOINT :: string where
  "BATCHES_ENDPOINT = API_BASE_URL @ ''/'' @ API_VERSION @ ''/calls/batch''"
definition ANALYZE_BATCH_ENDPOINT :: string where
  "ANALYZE_BATCH_ENDPOINT =
     API_BASE_URL @ ''/'' @ API_VERSION @ ''/calls/batch/{batch_id}/analyze''"
definition BATCH_ANALYSIS_ENDPOINT :: string where
  "BATCH_ANALYSIS_ENDPOINT =
     API_BASE_URL @ ''/'' @ API_VERSION @ ''/calls/batch/{batch_id}/analysis/{analysis_id}''"
definition BATCH_DETAILS_ENDPOINT :: string where
  "BATCH_DETAILS_ENDPOINT = API_BASE_URL @ ''/'' @ API_VERSION @ ''/calls/batch/{batch_id}''"
definition STOP_BATCH_ENDPOINT :: string where
  "STOP_BATCH_ENDPOINT = API_BASE_URL @ ''/'' @ API_VERSION @ ''/calls/batch/{batch_id}/stop''"
definition WEB_AGENTS_ENDPOINT :: string where
  "WEB_AGENTS_ENDPOINT = API_BASE_URL @ ''/'' @ API_VERSION @ ''/web-agents''"
definition AUTHORIZE_WEB_AGENT_ENDPOINT :: string where
  "AUTHORIZE_WEB_AGENT_ENDPOINT =
     API_BASE_URL @ ''/'' @ API_VERSION @ ''/web-agents/{agent_id}/authorize''"
definition DELETE_WEB_AGENT_ENDPOINT :: string where
  "DELETE_WEB_AGENT_ENDPOINT =
     API_BASE_URL @ ''/'' @ API_VERSION @ ''/web-agents/{agent_id}/delete''"
definition UPDATE_WEB_AGENT_ENDPOINT :: string where
  "UPDATE_WEB_AGENT_ENDPOINT =
     API_BASE_URL @ ''/'' @ API_VERSION @ ''/web-agents/{agent_id}/update''"
definition ENCRYPTED_KEYS_ENDPOINT :: string where
  "ENCRYPTED_KEYS_ENDPOINT = API_BASE_URL @ ''/'' @ API_VERSION @ ''/encrypted-keys''"
definition DELETE_ENCRYPTED_KEY_ENDPOINT :: string where
  "DELETE_ENCRYPTED_KEY_ENDPOINT =
     API_BASE_URL @ ''/'' @ API_VERSION @ ''/encrypted-keys/{key_id}/delete''"
definition DELETE_INBOUND_NUMBER_ENDPOINT :: string where
  "DELETE_INBOUND_NUMBER_ENDPOINT =
     API_BASE_URL @ ''/'' @ API_VERSION @ ''/phone/inbound/{phone_number}/delete''"
definition UPLOAD_INBOUND_NUMBERS_ENDPOINT :: string where
  "UPLOAD_INBOUND_NUMBERS_ENDPOINT =
     API_BASE_URL @ ''/'' @ API_VERSION @ ''/phone/inbound/upload''"

definition DEFAULT_MODEL :: string where "DEFAULT_MODEL = ''enhanced''"
definition DEFAULT_VOICE :: string where "DEFAULT_VOICE = ''mason''"
definition DEFAULT_LANGUAGE :: string where "DEFAULT_LANGUAGE = ''en-US''"
definition DEFAULT_MAX_DURATION :: int where "DEFAULT_MAX_DURATION = 30"
definition DEFAULT_TEMPERATURE :: real where "DEFAULT_TEMPERATURE = 0.7"
definition DEFAULT_INTERRUPTION_THRESHOLD :: int where "DEFAULT_INTERRUPTION_THRESHOLD = 100"
definition DEFAULT_LIMIT :: int where "DEFAULT_LIMIT = 1000"

definition BACKGROUND_TRACKS :: "(string \<times> string) list" where
  "BACKGROUND_TRACKS =
     [(''none'', ''none''), (''office'', ''office''), (''cafe'', ''cafe''),
      (''restaurant'', ''restaurant'')]"

definition ERROR_MISSING_AUTH :: string where
  "ERROR_MISSING_AUTH = ''Missing authorization header''"
definition ERROR_MISSING_PHONE :: string where
  "ERROR_MISSING_PHONE = ''Missing required parameter: phone_number''"
definition ERROR_MISSING_TASK :: string where
  "ERROR_MISSING_TASK = ''Missing required parameter: task''"
definition ERROR_MISSING_PATHWAY :: string where
  "ERROR_MISSING_PATHWAY = ''Missing required parameter: pathway_id''"
definition ERROR_INVALID_PHONE :: string where
  "ERROR_INVALID_PHONE = ''Invalid phone number format''"
definition ERROR_INVALID_MODEL :: string where
  "ERROR_INVALID_MODEL = ''Invalid model. Must be one of: base, turbo, enhanced''"
definition ERROR_MISSING_CALL_ID :: string where
  "ERROR_MISSING_CALL_ID = ''Missing required parameter: call_id''"
definition ERROR_MISSING_GOAL :: string where
  "ERROR_MISSING_GOAL = ''Missing required parameter: goal''"
definition ERROR_MISSING_QUESTIONS :: string where
  "ERROR_MISSING_QUESTIONS = ''Missing required parameter: questions''"
definition ERROR_NO_PATHWAYS :: string where
  "ERROR_NO_PATHWAYS = ''No pathways found''"
definition ERROR_MISSING_PATHWAY_NAME :: string where
  "ERROR_MISSING_PATHWAY_NAME = ''Missing required parameter: name''"
definition ERROR_MISSING_NODES :: string where
  "ERROR_MISSING_NODES = ''Missing required parameter: nodes''"
definition ERROR_MISSING_EDGES :: string where
  "ERROR_MISSING_EDGES = ''Missing required parameter: edges''"

section \<open>The operations\<close>

subsection \<open>analyze_batch.py\<close>

text \<open>Defaults: \<open>filters=None, custom_metrics=None, org_id=None\<close>.\<close>

definition analyze_batch ::
  "transport \<Rightarrow> string option \<Rightarrow> string option \<Rightarrow> string option \<Rightarrow> string list option \<Rightarrow> pyval
      \<Rightarrow> pyval \<Rightarrow> string option \<Rightarrow> result" where
  "analyze_batch tr auth_token batch_id goal questions filters custom_metrics org_id =
     (if \<not> truthy (py_str auth_token) then raise (ValueError ERROR_MISSING_AUTH)
      else if \<not> truthy (py_str batch_id) then raise (ValueError
          ''Missing required parameter: batch_id'')
      else if \<not> truthy (py_str goal) then raise (ValueError ERROR_MISSING_GOAL)
      else if \<not> truthy (py_strs questions) then raise (ValueError ERROR_MISSING_QUESTIONS)
      else
        let headers = [(''authorization'', py_str auth_token),
            (''Content-Type'', PStr ''application/json'')];
            headers = set_if (truthy (py_str org_id)) ''encrypted_key'' (py_str org_id) headers;
            data = [(''goal'', py_str goal), (''questions'', py_strs questions)];
            data = set_if (filters \<noteq> PNone) ''filters'' filters data;
            data = set_if (custom_metrics \<noteq> PNone) ''custom_metrics'' custom_metrics data
        in perform tr POST (str_format ANALYZE_BATCH_ENDPOINT [(''batch_id'', format_value
            batch_id)]) headers (Some data) None)"

subsection \<open>analyze_call.py\<close>

definition analyze_call ::
  "transport \<Rightarrow> string option \<Rightarrow> string option \<Rightarrow> string option \<Rightarrow> pyval \<Rightarrow> result" where
  "analyze_call tr auth_token call_id goal questions =
     (if \<not> truthy (py_str auth_token) then raise (ValueError ERROR_MISSING_AUTH)
      else if \<not> truthy (py_str call_id) then raise (ValueError ERROR_MISSING_CALL_ID)
      else if \<not> truthy (py_str goal) then raise (ValueError ERROR_MISSING_GOAL)
      else if \<not> truthy questions \<or> \<not> isinstance_list questions
          then raise (ValueError ERROR_MISSING_QUESTIONS)
      else
        let headers = [(''authorization'', py_str auth_token),
            (''Content-Type'', PStr ''application/json'')];
            payload = [(''goal'', py_str goal), (''questions'', questions)]
        in perform tr POST (str_format ANALYZE_ENDPOINT [(''call_id'', format_value call_id)])
            headers (Some payload) None)"

subsection \<open>authorize_web_agent.py\<close>

text \<open>Defaults: \<open>parameters=None, context=None, org_id=None\<close>.\<close>

definition authorize_web_agent ::
  "transport \<Rightarrow> string option \<Rightarrow> string option \<Rightarrow> string option \<Rightarrow> string option \<Rightarrow> string option
      \<Rightarrow> pyval \<Rightarrow> pyval \<Rightarrow> string option \<Rightarrow> result" where
  "authorize_web_agent tr auth_token agent_id call_id action target_url parameters context
      org_id =
     (if \<not> truthy (py_str auth_token) then raise (ValueError ERROR_MISSING_AUTH)
      else if \<not> truthy (py_str agent_id) then raise (ValueError
          ''Missing required parameter: agent_id'')
      else if \<not> truthy (py_str call_id) then raise (ValueError
          ''Missing required parameter: call_id'')
      else if \<not> truthy (py_str action) then raise (ValueError
          ''Missing required parameter: action'')
      else if \<not> truthy (py_str target_url) then raise (ValueError
          ''Missing required parameter: target_url'')
      else
        let headers = [(''authorization'', py_str auth_token),
            (''Content-Type'', PStr ''application/json'')];
            headers = set_if (truthy (py_str org_id)) ''encrypted_key'' (py_str org_id) headers;
            data = [(''call_id'', py_str call_id), (''action'', py_str action),
                (''target_url'', py_str target_url)];
            data = set_if (parameters \<noteq> PNone) ''parameters'' parameters data;
            data = set_if (context \<noteq> PNone) ''context'' context data
        in perform tr POST (str_format AUTHORIZE_WEB_AGENT_ENDPOINT [(''agent_id'', format_value
            agent_id)]) headers (Some data) None)"

subsection \<open>call_details.py\<close>

text \<open>Defaults: \<open>org_id=None\<close>.\<close>

definition get_call_details ::
  "transport \<Rightarrow> string option \<Rightarrow> string option \<Rightarrow> string option \<Rightarrow> result" where
  "get_call_details tr auth_token call_id org_id =
     (if \<not> truthy (py_str auth_token) then raise (ValueError ERROR_MISSING_AUTH)
      else if \<not> truthy (py_str call_id) then raise (ValueError ERROR_MISSING_CALL_ID)
      else
        let headers = [(''authorization'', py_str auth_token)];
            headers = set_if (truthy (py_str org_id)) ''encrypted_key'' (py_str org_id) headers
        in perform tr GET (str_format CALL_DETAILS_ENDPOINT [(''call_id'', format_value
            call_id)]) headers None None)"

subsection \<open>create_custom_tool.py\<close>

text \<open>Defaults: \<open>headers=None, authentication=None, response_mapping=None, org_id=None\<close>.\<close>

definition create_custom_tool ::
  "transport \<Rightarrow> string option \<Rightarrow> string option \<Rightarrow> string option \<Rightarrow> string option \<Rightarrow> string option
      \<Rightarrow> pyval \<Rightarrow> pyval \<Rightarrow> pyval \<Rightarrow> pyval \<Rightarrow> string option \<Rightarrow> result" where
  "create_custom_tool tr auth_token name description endpoint method parameters headers
      authentication response_mapping org_id =
     (if \<not> truthy (py_str auth_token) then raise (ValueError ERROR_MISSING_AUTH)
      else if \<not> truthy (py_str name) then raise (ValueError
          ''Missing required parameter: name'')
      else if \<not> truthy (py_str description) then raise (ValueError
          ''Missing required parameter: description'')
      else if \<not> truthy (py_str endpoint) then raise (ValueError
          ''Missing required parameter: endpoint'')
      else if \<not> truthy (py_str method) then raise (ValueError
          ''Missing required parameter: method'')
      else if \<not> truthy parameters then raise (ValueError
          ''Missing required parameter: parameters'')
      else
        let valid_methods = [''GET'', ''POST'', ''PUT'', ''DELETE'']
        in
        if py_str (map_option upper method) \<notin> set (map PStr valid_methods)
        then raise (ValueError (''Invalid method. Must be one of: ''
            @ join '', '' valid_methods))
        else
        let request_headers = [(''authorization'', py_str auth_token),
            (''Content-Type'', PStr ''application/json'')];
            request_headers = set_if (truthy (py_str org_id)) ''encrypted_key'' (py_str org_id)
                request_headers;
            data = [(''name'', py_str name), (''description'', py_str description),
                (''endpoint'', py_str endpoint), (''method'', py_str (map_option upper method)),
                (''parameters'', parameters)];
            data = set_if (truthy headers) ''headers'' headers data;
            data = set_if (truthy authentication) ''authentication'' authentication data;
            data = set_if (truthy response_mapping) ''response_mapping'' response_mapping data
        in perform tr POST (Some CUSTOM_TOOLS_ENDPOINT) request_headers (Some data) None)"

subsection \<open>create_encrypted_key.py\<close>

text \<open>Defaults: \<open>description=None, metadata=None, org_id=None\<close>.\<close>

definition create_encrypted_key ::
  "transport \<Rightarrow> string option \<Rightarrow> string option \<Rightarrow> string option \<Rightarrow> string option \<Rightarrow> string option
      \<Rightarrow> pyval \<Rightarrow> string option \<Rightarrow> result" where
  "create_encrypted_key tr auth_token name key_type value description metadata org_id =
     (if \<not> truthy (py_str auth_token) then raise (ValueError ERROR_MISSING_AUTH)
      else if \<not> truthy (py_str name) then raise (ValueError
          ''Missing required parameter: name'')
      else if \<not> truthy (py_str key_type) then raise (ValueError
          ''Missing required parameter: key_type'')
      else if \<not> truthy (py_str value) then raise (ValueError
          ''Missing required parameter: value'')
      else
        let valid_key_types = [''api_key'', ''password'', ''token'', ''secret'']
        in
        if py_str key_type \<notin> set (map PStr valid_key_types)
        then raise (ValueError (''Invalid key_type. Must be one of: ''
            @ join '', '' valid_key_types))
        else
        let headers = [(''authorization'', py_str auth_token),
            (''Content-Type'', PStr ''application/json'')];
            headers = set_if (truthy (py_str org_id)) ''encrypted_key'' (py_str org_id) headers;
            data = [(''name'', py_str name), (''type'', py_str key_type),
                (''value'', py_str value)];
            data = set_if (py_str description \<noteq> PNone) ''description'' (py_str description)
                data;
            data = set_if (metadata \<noteq> PNone) ''metadata'' metadata data
        in perform tr POST (Some ENCRYPTED_KEYS_ENDPOINT) headers (Some data) None)"

subsection \<open>create_folder.py\<close>

text \<open>Defaults: \<open>description=None, org_id=None\<close>.\<close>

definition create_folder ::
  "transport \<Rightarrow> string option \<Rightarrow> string option \<Rightarrow> string option \<Rightarrow> string option \<Rightarrow> result" where
  "create_folder tr auth_token name description org_id =
     (if \<not> truthy (py_str auth_token) then raise (ValueError ERROR_MISSING_AUTH)
      else if \<not> truthy (py_str name) then raise (ValueError
          ''Missing required parameter: name'')
      else
        let headers = [(''authorization'', py_str auth_token),
            (''Content-Type'', PStr ''application/json'')];
            headers = set_if (truthy (py_str org_id)) ''encrypted_key'' (py_str org_id) headers;
            data = [(''name'', py_str name)];
            data = set_if (truthy (py_str description)) ''description'' (py_str description)
                data
        in perform tr POST (Some CREATE_FOLDER_ENDPOINT) headers (Some data) None)"

subsection \<open>create_pathway.py\<close>

text \<open>Defaults: \<open>description=None, metadata=None, org_id=None\<close>.\<close>

definition create_pathway ::
  "transport \<Rightarrow> string option \<Rightarrow> string option \<Rightarrow> pyval \<Rightarrow> pyval \<Rightarrow> string option \<Rightarrow> pyval
      \<Rightarrow> string option \<Rightarrow> result" where
  "create_pathway tr auth_token name nodes edges description metadata org_id =
     (if \<not> truthy (py_str auth_token) then raise (ValueError ERROR_MISSING_AUTH)
      else if \<not> truthy (py_str name) then raise (ValueError ERROR_MISSING_PATHWAY_NAME)
      else if \<not> truthy nodes then raise (ValueError ERROR_MISSING_NODES)
      else if \<not> truthy edges then raise (ValueError ERROR_MISSING_EDGES)
      else
        let headers = [(''authorization'', py_str auth_token),
            (''Content-Type'', PStr ''application/json'')];
            headers = set_if (truthy (py_str org_id)) ''encrypted_key'' (py_str org_id) headers;
            payload = [(''name'', py_str name), (''nodes'', nodes), (''edges'', edges)];
            payload = set_if (truthy (py_str description)) ''description'' (py_str description)
                payload;
            payload = set_if (truthy metadata) ''metadata'' metadata payload
        in perform tr POST (Some CREATE_PATHWAY_ENDPOINT) headers (Some payload) None)"

subsection \<open>create_pathway_chat.py\<close>

text \<open>Defaults: \<open>start_node_id=None, org_id=None\<close>.\<close>

definition create_pathway_chat ::
  "transport \<Rightarrow> string option \<Rightarrow> string option \<Rightarrow> string option \<Rightarrow> string option \<Rightarrow> result" where
  "create_pathway_chat tr auth_token pathway_id start_node_id org_id =
     (if \<not> truthy (py_str auth_token) then raise (ValueError ERROR_MISSING_AUTH)
      else if \<not> truthy (py_str pathway_id) then raise (ValueError ERROR_MISSING_PATHWAY)
      else
        let headers = [(''authorization'', py_str auth_token),
            (''Content-Type'', PStr ''application/json'')];
            headers = set_if (truthy (py_str org_id)) ''encrypted_key'' (py_str org_id) headers;
            data = [(''pathway_id'', py_str pathway_id)];
            data = set_if (truthy (py_str start_node_id)) ''start_node_id'' (py_str
                start_node_id) data
        in perform tr POST (Some PATHWAY_CHAT_CREATE_ENDPOINT) headers (Some data) None)"

subsection \<open>create_pathway_version.py\<close>

text \<open>Defaults: \<open>description=None, nodes=None, edges=None, org_id=None\<close>.\<close>

definition create_pathway_version ::
  "transport \<Rightarrow> string option \<Rightarrow> string option \<Rightarrow> string option \<Rightarrow> string option \<Rightarrow> pyval \<Rightarrow> pyval
      \<Rightarrow> string option \<Rightarrow> result" where
  "create_pathway_version tr auth_token pathway_id name description nodes edges org_id =
     (if \<not> truthy (py_str auth_token) then raise (ValueError ERROR_MISSING_AUTH)
      else if \<not> truthy (py_str pathway_id) then raise (ValueError ERROR_MISSING_PATHWAY)
      else if \<not> truthy (py_str name) then raise (ValueError
          ''Missing required parameter: name'')
      else
        let headers = [(''authorization'', py_str auth_token),
            (''Content-Type'', PStr ''application/json'')];
            headers = set_if (truthy (py_str org_id)) ''encrypted_key'' (py_str org_id) headers;
            data = [(''name'', py_str name)];
            data = set_if (truthy (py_str description)) ''description'' (py_str description)
                data;
            data = set_if (truthy nodes) ''nodes'' nodes data;
            data = set_if (truthy edges) ''edges'' edges data
        in perform tr POST (str_format CREATE_PATHWAY_VERSION_ENDPOINT [(''pathway_id'',
            format_value pathway_id)]) headers (Some data) None)"

subsection \<open>create_web_agent.py\<close>

text \<open>Defaults: \<open>capabilities=None, authentication=None, custom_headers=None, rate_limit=None,
    max_pages=None, org_id=None\<close>.\<close>

definition create_web_agent ::
  "transport \<Rightarrow> string option \<Rightarrow> string option \<Rightarrow> string option \<Rightarrow> string option
      \<Rightarrow> string list option \<Rightarrow> string list option \<Rightarrow> pyval \<Rightarrow> pyval \<Rightarrow> int option \<Rightarrow> int option
      \<Rightarrow> string option \<Rightarrow> result" where
  "create_web_agent tr auth_token name description website_url allowed_domains capabilities
      authentication custom_headers rate_limit max_pages org_id =
     (if \<not> truthy (py_str auth_token) then raise (ValueError ERROR_MISSING_AUTH)
      else if \<not> truthy (py_str name) then raise (ValueError
          ''Missing required parameter: name'')
      else if \<not> truthy (py_str description) then raise (ValueError
          ''Missing required parameter: description'')
      else if \<not> truthy (py_str website_url) then raise (ValueError
          ''Missing required parameter: website_url'')
      else if \<not> truthy (py_strs allowed_domains)
          then raise (ValueError ''Missing required parameter: allowed_domains'')
      else
        let headers = [(''authorization'', py_str auth_token),
            (''Content-Type'', PStr ''application/json'')];
            headers = set_if (truthy (py_str org_id)) ''encrypted_key'' (py_str org_id) headers;
            data = [(''name'', py_str name), (''description'', py_str description),
                (''website_url'', py_str website_url),
                (''allowed_domains'', py_strs allowed_domains)];
            data = set_if (py_strs capabilities \<noteq> PNone) ''capabilities'' (py_strs capabilities)
                data;
            data = set_if (authentication \<noteq> PNone) ''authentication'' authentication data;
            data = set_if (custom_headers \<noteq> PNone) ''custom_headers'' custom_headers data;
            data = set_if (py_int rate_limit \<noteq> PNone) ''rate_limit'' (py_int rate_limit) data;
            data = set_if (py_int max_pages \<noteq> PNone) ''max_pages'' (py_int max_pages) data
        in perform tr POST (Some WEB_AGENTS_ENDPOINT) headers (Some data) None)"

subsection \<open>delete_custom_tool.py\<close>

text \<open>Defaults: \<open>org_id=None\<close>.\<close>

definition delete_custom_tool ::
  "transport \<Rightarrow> string option \<Rightarrow> string option \<Rightarrow> string option \<Rightarrow> result" where
  "delete_custom_tool tr auth_token tool_id org_id =
     (if \<not> truthy (py_str auth_token) then raise (ValueError ERROR_MISSING_AUTH)
      else if \<not> truthy (py_str tool_id) then raise (ValueError
          ''Missing required parameter: tool_id'')
      else
        let headers = [(''authorization'', py_str auth_token)];
            headers = set_if (truthy (py_str org_id)) ''encrypted_key'' (py_str org_id) headers
        in perform tr DELETE (str_format DELETE_CUSTOM_TOOL_ENDPOINT [(''tool_id'', format_value
            tool_id)]) headers None None)"

subsection \<open>delete_encrypted_key.py\<close>

text \<open>Defaults: \<open>org_id=None\<close>.\<close>

definition delete_encrypted_key ::
  "transport \<Rightarrow> string option \<Rightarrow> string option \<Rightarrow> string option \<Rightarrow> result" where
  "delete_encrypted_key tr auth_token key_id org_id =
     (if \<not> truthy (py_str auth_token) then raise (ValueError ERROR_MISSING_AUTH)
      else if \<not> truthy (py_str key_id) then raise (ValueError
          ''Missing required parameter: key_id'')
      else
        let headers = [(''authorization'', py_str auth_token)];
            headers = set_if (truthy (py_str org_id)) ''encrypted_key'' (py_str org_id) headers
        in perform tr DELETE (str_format DELETE_ENCRYPTED_KEY_ENDPOINT [(''key_id'',
            format_value key_id)]) headers None None)"

subsection \<open>delete_folder.py\<close>

text \<open>Defaults: \<open>org_id=None\<close>.\<close>

definition delete_folder ::
  "transport \<Rightarrow> string option \<Rightarrow> string option \<Rightarrow> string option \<Rightarrow> result" where
  "delete_folder tr auth_token folder_id org_id =
     (if \<not> truthy (py_str auth_token) then raise (ValueError ERROR_MISSING_AUTH)
      else if \<not> truthy (py_str folder_id) then raise (ValueError
          ''Missing required parameter: folder_id'')
      else
        let headers = [(''authorization'', py_str auth_token)];
            headers = set_if (truthy (py_str org_id)) ''encrypted_key'' (py_str org_id) headers
        in perform tr DELETE (str_format DELETE_FOLDER_ENDPOINT [(''folder_id'', format_value
            folder_id)]) headers None None)"

subsection \<open>delete_inbound_number.py\<close>

text \<open>Defaults: \<open>org_id=None\<close>.\<close>

definition delete_inbound_number ::
  "transport \<Rightarrow> string option \<Rightarrow> string option \<Rightarrow> string option \<Rightarrow> result" where
  "delete_inbound_number tr auth_token phone_number org_id =
     (if \<not> truthy (py_str auth_token) then raise (ValueError ERROR_MISSING_AUTH)
      else if \<not> truthy (py_str phone_number) then raise (ValueError ERROR_MISSING_PHONE)
      else
        (case phone_number of
           None \<Rightarrow> raise (AttributeError ''startswith'')
         | Some number \<Rightarrow>
            if \<not> startswith_plus number \<or> \<not> isdigit (drop 1 number)
            then raise (ValueError ERROR_INVALID_PHONE)
            else
              let headers = [(''authorization'', py_str auth_token)];
                  headers = set_if (truthy (py_str org_id)) ''encrypted_key'' (py_str org_id)
                      headers
              in perform tr DELETE
                   (str_format DELETE_INBOUND_NUMBER_ENDPOINT
                      [(''phone_number'', format_value phone_number)])
                   headers None None))"

subsection \<open>delete_pathway.py\<close>

text \<open>Defaults: \<open>org_id=None\<close>.\<close>

definition delete_pathway ::
  "transport \<Rightarrow> string option \<Rightarrow> string option \<Rightarrow> string option \<Rightarrow> result" where
  "delete_pathway tr auth_token pathway_id org_id =
     (if \<not> truthy (py_str auth_token) then raise (ValueError ERROR_MISSING_AUTH)
      else if \<not> truthy (py_str pathway_id) then raise (ValueError ERROR_MISSING_PATHWAY)
      else
        let headers = [(''authorization'', py_str auth_token)];
            headers = set_if (truthy (py_str org_id)) ''encrypted_key'' (py_str org_id) headers
        in perform tr DELETE (str_format DELETE_PATHWAY_ENDPOINT [(''pathway_id'', format_value
            pathway_id)]) headers None None)"

subsection \<open>delete_pathway_version.py\<close>

text \<open>Defaults: \<open>org_id=None\<close>.\<close>

definition delete_pathway_version ::
  "transport \<Rightarrow> string option \<Rightarrow> string option \<Rightarrow> string option \<Rightarrow> string option \<Rightarrow> result" where
  "delete_pathway_version tr auth_token pathway_id version_id org_id =
     (if \<not> truthy (py_str auth_token) then raise (ValueError ERROR_MISSING_AUTH)
      else if \<not> truthy (py_str pathway_id) then raise (ValueError ERROR_MISSING_PATHWAY)
      else if \<not> truthy (py_str version_id) then raise (ValueError
          ''Missing required parameter: version_id'')
      else
        let headers = [(''authorization'', py_str auth_token)];
            headers = set_if (truthy (py_str org_id)) ''encrypted_key'' (py_str org_id) headers
        in perform tr DELETE (str_format DELETE_PATHWAY_VERSION_ENDPOINT [(''pathway_id'',
            format_value pathway_id), (''version_id'', format_value version_id)]) headers None
            None)"

subsection \<open>delete_web_agent.py\<close>

text \<open>Defaults: \<open>org_id=None\<close>.\<close>

definition delete_web_agent ::
  "transport \<Rightarrow> string option \<Rightarrow> string option \<Rightarrow> string option \<Rightarrow> result" where
  "delete_web_agent tr auth_token agent_id org_id =
     (if \<not> truthy (py_str auth_token) then raise (ValueError ERROR_MISSING_AUTH)
      else if \<not> truthy (py_str agent_id) then raise (ValueError
          ''Missing required parameter: agent_id'')
      else
        let headers = [(''authorization'', py_str auth_token)];
            headers = set_if (truthy (py_str org_id)) ''encrypted_key'' (py_str org_id) headers
        in perform tr DELETE (str_format DELETE_WEB_AGENT_ENDPOINT [(''agent_id'', format_value
            agent_id)]) headers None None)"

subsection \<open>generate_audio_sample.py\<close>

text \<open>Defaults: \<open>voice_id=None, language=None, speed=None, pitch=None, format=None,
    org_id=None\<close>.\<close>

definition generate_audio_sample ::
  "transport \<Rightarrow> string option \<Rightarrow> string option \<Rightarrow> string option \<Rightarrow> string option \<Rightarrow> real option
      \<Rightarrow> real option \<Rightarrow> string option \<Rightarrow> string option \<Rightarrow> result" where
  "generate_audio_sample tr auth_token text voice_id language speed pitch format org_id =
     (if \<not> truthy (py_str auth_token) then raise (ValueError ERROR_MISSING_AUTH)
      else if \<not> truthy (py_str text) then raise (ValueError
          ''Missing required parameter: text'')
      else if (case speed of None \<Rightarrow> False | Some x \<Rightarrow> \<not> (0.5 \<le> x \<and> x \<le> 2.0))
          then raise (ValueError ''Speed must be between 0.5 and 2.0'')
      else if (case pitch of None \<Rightarrow> False | Some x \<Rightarrow> \<not> (- 20 \<le> x \<and> x \<le> 20))
          then raise (ValueError ''Pitch must be between -20 and 20'')
      else
        let headers = [(''authorization'', py_str auth_token),
            (''Content-Type'', PStr ''application/json'')];
            headers = set_if (truthy (py_str org_id)) ''encrypted_key'' (py_str org_id) headers;
            data = [(''text'', py_str text)];
            data = set_if (truthy (py_str voice_id)) ''voice_id'' (py_str voice_id) data;
            data = set_if (truthy (py_str language)) ''language'' (py_str language) data;
            data = set_if (py_float speed \<noteq> PNone) ''speed'' (py_float speed) data;
            data = set_if (py_float pitch \<noteq> PNone) ''pitch'' (py_float pitch) data;
            data = set_if (truthy (py_str format)) ''format'' (py_str format) data
        in perform tr POST (Some GENERATE_AUDIO_ENDPOINT) headers (Some data) None)"

subsection \<open>get_all_folders.py\<close>

text \<open>Defaults: \<open>org_id=None\<close>.\<close>

definition get_all_folders ::
  "transport \<Rightarrow> string option \<Rightarrow> string option \<Rightarrow> result" where
  "get_all_folders tr auth_token org_id =
     (if \<not> truthy (py_str auth_token) then raise (ValueError ERROR_MISSING_AUTH)
      else
        let headers = [(''authorization'', py_str auth_token)];
            headers = set_if (truthy (py_str org_id)) ''encrypted_key'' (py_str org_id) headers
        in perform tr GET (Some FOLDERS_ENDPOINT) headers None None)"

subsection \<open>get_all_pathways.py\<close>

text \<open>Defaults: \<open>limit=DEFAULT_LIMIT, offset=0, org_id=None\<close>.\<close>

definition get_all_pathways ::
  "transport \<Rightarrow> string option \<Rightarrow> int \<Rightarrow> int \<Rightarrow> string option \<Rightarrow> result" where
  "get_all_pathways tr auth_token limit offset org_id =
     (if \<not> truthy (py_str auth_token) then raise (ValueError ERROR_MISSING_AUTH)
      else
        let headers = [(''authorization'', py_str auth_token)];
            headers = set_if (truthy (py_str org_id)) ''encrypted_key'' (py_str org_id) headers;
            params = [(''limit'', PInt limit), (''offset'', PInt offset)];
            rq = \<lparr>req_method = GET, req_url = PATHWAYS_ENDPOINT, req_headers = headers,
                   req_json = None, req_params = Some params\<rparr>
        in try_request tr rq error_value
             (\<lambda>data.
                case data of
                  PDict d \<Rightarrow>
                    if \<not> truthy (dict_get d ''pathways'')
                    then Raised (RuntimeError ERROR_NO_PATHWAYS)
                    else Returned data
                | _ \<Rightarrow> Raised (AttributeError ''get'')))"

subsection \<open>get_batch_analysis.py\<close>

text \<open>Defaults: \<open>include_call_details=False, org_id=None\<close>.\<close>

definition get_batch_analysis ::
  "transport \<Rightarrow> string option \<Rightarrow> string option \<Rightarrow> string option \<Rightarrow> bool option \<Rightarrow> string option
      \<Rightarrow> result" where
  "get_batch_analysis tr auth_token batch_id analysis_id include_call_details org_id =
     (if \<not> truthy (py_str auth_token) then raise (ValueError ERROR_MISSING_AUTH)
      else if \<not> truthy (py_str batch_id) then raise (ValueError
          ''Missing required parameter: batch_id'')
      else if \<not> truthy (py_str analysis_id) then raise (ValueError
          ''Missing required parameter: analysis_id'')
      else
        let headers = [(''authorization'', py_str auth_token)];
            headers = set_if (truthy (py_str org_id)) ''encrypted_key'' (py_str org_id) headers;
            params = [];
            params = set_if (truthy (py_bool include_call_details)) ''include_call_details''
                (PStr ''true'') params
        in perform tr GET (str_format BATCH_ANALYSIS_ENDPOINT [(''batch_id'', format_value
            batch_id), (''analysis_id'', format_value analysis_id)]) headers None
            (Some params))"

subsection \<open>get_batch_details.py\<close>

text \<open>Defaults: \<open>include_calls=False, call_status=None, org_id=None\<close>.\<close>

definition get_batch_details ::
  "transport \<Rightarrow> string option \<Rightarrow> string option \<Rightarrow> bool option \<Rightarrow> string option \<Rightarrow> string option
      \<Rightarrow> result" where
  "get_batch_details tr auth_token batch_id include_calls call_status org_id =
     (if \<not> truthy (py_str auth_token) then raise (ValueError ERROR_MISSING_AUTH)
      else if \<not> truthy (py_str batch_id) then raise (ValueError
          ''Missing required parameter: batch_id'')
      else
        let valid_statuses = [''queued'', ''in_progress'', ''completed'', ''failed'',
            ''cancelled'']
        in
        if truthy (py_str call_status) \<and> py_str call_status \<notin> set (map PStr valid_statuses)
        then raise (ValueError
               (''Invalid call_status. Must be one of: '' @ join '', '' valid_statuses))
        else
        let headers = [(''authorization'', py_str auth_token)];
            headers = set_if (truthy (py_str org_id)) ''encrypted_key'' (py_str org_id) headers;
            params = [];
            params = set_if (truthy (py_bool include_calls)) ''include_calls'' (PStr ''true'')
                params;
            params = set_if (truthy (py_bool include_calls) \<and> truthy (py_str call_status))
                       ''call_status'' (py_str call_status) params
        in perform tr GET (str_format BATCH_DETAILS_ENDPOINT [(''batch_id'', format_value
            batch_id)]) headers None (Some params))"

subsection \<open>get_custom_tool_details.py\<close>

text \<open>Defaults: \<open>org_id=None\<close>.\<close>

definition get_custom_tool_details ::
  "transport \<Rightarrow> string option \<Rightarrow> string option \<Rightarrow> string option \<Rightarrow> result" where
  "get_custom_tool_details tr auth_token tool_id org_id =
     (if \<not> truthy (py_str auth_token) then raise (ValueError ERROR_MISSING_AUTH)
      else if \<not> truthy (py_str tool_id) then raise (ValueError
          ''Missing required parameter: tool_id'')
      else
        let request_headers = [(''authorization'', py_str auth_token),
            (''Content-Type'', PStr ''application/json'')];
            request_headers = set_if (truthy (py_str org_id)) ''encrypted_key'' (py_str org_id)
                request_headers
        in perform tr GET (str_format CUSTOM_TOOL_DETAILS_ENDPOINT [(''tool_id'', format_value
            tool_id)]) request_headers None None)"

subsection \<open>get_folder_pathways.py\<close>

text \<open>Defaults: \<open>org_id=None\<close>.\<close>

definition get_folder_pathways ::
  "transport \<Rightarrow> string option \<Rightarrow> string option \<Rightarrow> string option \<Rightarrow> result" where
  "get_folder_pathways tr auth_token folder_id org_id =
     (if \<not> truthy (py_str auth_token) then raise (ValueError ERROR_MISSING_AUTH)
      else if \<not> truthy (py_str folder_id) then raise (ValueError
          ''Missing required parameter: folder_id'')
      else
        let headers = [(''authorization'', py_str auth_token)];
            headers = set_if (truthy (py_str org_id)) ''encrypted_key'' (py_str org_id) headers
        in perform tr GET (str_format FOLDER_PATHWAYS_ENDPOINT [(''folder_id'', format_value
            folder_id)]) headers None None)"

subsection \<open>get_inbound_details.py\<close>

text \<open>Defaults: \<open>org_id=None\<close>.\<close>

definition get_inbound_details ::
  "transport \<Rightarrow> string option \<Rightarrow> string option \<Rightarrow> string option \<Rightarrow> result" where
  "get_inbound_details tr auth_token phone_number org_id =
     (if \<not> truthy (py_str auth_token) then raise (ValueError ERROR_MISSING_AUTH)
      else if \<not> truthy (py_str phone_number) then raise (ValueError ERROR_MISSING_PHONE)
      else
        let headers = [(''authorization'', py_str auth_token)];
            headers = set_if (truthy (py_str org_id)) ''encrypted_key'' (py_str org_id) headers
        in perform tr GET (str_format INBOUND_DETAILS_ENDPOINT [(''phone_number'', format_value
            phone_number)]) headers None None)"

subsection \<open>get_pathway_info.py\<close>

text \<open>Defaults: \<open>org_id=None\<close>.\<close>

definition get_pathway_info ::
  "transport \<Rightarrow> string option \<Rightarrow> string option \<Rightarrow> string option \<Rightarrow> result" where
  "get_pathway_info tr auth_token pathway_id org_id =
     (if \<not> truthy (py_str auth_token) then raise (ValueError ERROR_MISSING_AUTH)
      else if \<not> truthy (py_str pathway_id) then raise (ValueError ERROR_MISSING_PATHWAY)
      else
        let headers = [(''authorization'', py_str auth_token)];
            headers = set_if (truthy (py_str org_id)) ''encrypted_key'' (py_str org_id) headers
        in perform tr GET (str_format PATHWAY_DETAILS_ENDPOINT [(''pathway_id'', format_value
            pathway_id)]) headers None None)"

subsection \<open>get_pathway_version.py\<close>

text \<open>Defaults: \<open>org_id=None\<close>.\<close>

definition get_pathway_version ::
  "transport \<Rightarrow> string option \<Rightarrow> string option \<Rightarrow> string option \<Rightarrow> string option \<Rightarrow> result" where
  "get_pathway_version tr auth_token pathway_id version_id org_id =
     (if \<not> truthy (py_str auth_token) then raise (ValueError ERROR_MISSING_AUTH)
      else if \<not> truthy (py_str pathway_id) then raise (ValueError ERROR_MISSING_PATHWAY)
      else if \<not> truthy (py_str version_id) then raise (ValueError
          ''Missing required parameter: version_id'')
      else
        let headers = [(''authorization'', py_str auth_token)];
            headers = set_if (truthy (py_str org_id)) ''encrypted_key'' (py_str org_id) headers
        in perform tr GET (str_format PATHWAY_VERSION_ENDPOINT [(''pathway_id'', format_value
            pathway_id), (''version_id'', format_value version_id)]) headers None None)"

subsection \<open>get_pathway_versions.py\<close>

text \<open>Defaults: \<open>org_id=None\<close>.\<close>

definition get_pathway_versions ::
  "transport \<Rightarrow> string option \<Rightarrow> string option \<Rightarrow> string option \<Rightarrow> result" where
  "get_pathway_versions tr auth_token pathway_id org_id =
     (if \<not> truthy (py_str auth_token) then raise (ValueError ERROR_MISSING_AUTH)
      else if \<not> truthy (py_str pathway_id) then raise (ValueError ERROR_MISSING_PATHWAY)
      else
        let headers = [(''authorization'', py_str auth_token)];
            headers = set_if (truthy (py_str org_id)) ''encrypted_key'' (py_str org_id) headers
        in perform tr GET (str_format PATHWAY_VERSIONS_ENDPOINT [(''pathway_id'', format_value
            pathway_id)]) headers None None)"

subsection \<open>get_voice_details.py\<close>

text \<open>Defaults: \<open>org_id=None\<close>.\<close>

definition get_voice_details ::
  "transport \<Rightarrow> string option \<Rightarrow> string option \<Rightarrow> string option \<Rightarrow> result" where
  "get_voice_details tr auth_token voice_id org_id =
     (if \<not> truthy (py_str auth_token) then raise (ValueError ERROR_MISSING_AUTH)
      else if \<not> truthy (py_str voice_id) then raise (ValueError
          ''Missing required parameter: voice_id'')
      else
        let headers = [(''authorization'', py_str auth_token)];
            headers = set_if (truthy (py_str org_id)) ''encrypted_key'' (py_str org_id) headers
        in perform tr GET (str_format VOICE_DETAILS_ENDPOINT [(''voice_id'', format_value
            voice_id)]) headers None None)"

subsection \<open>list_batches.py\<close>

text \<open>Defaults: \<open>limit=DEFAULT_LIMIT, offset=0, status=None, date_range=None, sort_by=None,
    sort_order="desc", org_id=None\<close>.\<close>

definition list_batches ::
  "transport \<Rightarrow> string option \<Rightarrow> int option \<Rightarrow> int option \<Rightarrow> string list option \<Rightarrow> pyval
      \<Rightarrow> string option \<Rightarrow> string option \<Rightarrow> string option \<Rightarrow> result" where
  "list_batches tr auth_token limit offset status date_range sort_by sort_order org_id =
     (if \<not> truthy (py_str auth_token) then raise (ValueError ERROR_MISSING_AUTH)
      else if (case limit of None \<Rightarrow> False | Some n \<Rightarrow> n < 1)
          then raise (ValueError ''Limit must be greater than 0'')
      else if (case offset of None \<Rightarrow> False | Some n \<Rightarrow> n < 0)
          then raise (ValueError ''Offset must be greater than or equal to 0'')
      else if truthy (py_str sort_order) \<and> py_str sort_order \<notin> set [PStr ''asc'', PStr ''desc'']
          then raise (ValueError (''Sort order must be either '' @ [CHR 0x27] @ ''asc''
          @ [CHR 0x27] @ '' or '' @ [CHR 0x27] @ ''desc'' @ [CHR 0x27]))
      else
        let headers = [(''authorization'', py_str auth_token)];
            headers = set_if (truthy (py_str org_id)) ''encrypted_key'' (py_str org_id) headers;
            params = [];
            params = set_if (py_int limit \<noteq> PNone) ''limit'' (py_int limit) params;
            params = set_if (py_int offset \<noteq> PNone) ''offset'' (py_int offset) params;
            params = set_if (truthy (py_strs status)) ''status'' (py_strs status) params;
            params = set_if (truthy date_range) ''date_range'' date_range params;
            params = set_if (truthy (py_str sort_by)) ''sort_by'' (py_str sort_by) params;
            params = set_if (truthy (py_str sort_by)) ''sort_order'' (py_str sort_order) params
        in perform tr GET (Some BATCHES_ENDPOINT) headers None (Some params))"

subsection \<open>list_calls.py\<close>

text \<open>Defaults: \<open>from_number=None, to_number=None, from_index=None, to_index=None,
    limit=DEFAULT_LIMIT, ascending=False, start_date=None, end_date=None, created_at=None,
    completed=None, batch_id=None, answered_by=None, inbound=None, duration_gt=None,
    duration_lt=None, campaign_id=None, org_id=None\<close>.\<close>

definition list_calls ::
  "transport \<Rightarrow> string option \<Rightarrow> string option \<Rightarrow> string option \<Rightarrow> int option \<Rightarrow> int option \<Rightarrow> int
      \<Rightarrow> bool \<Rightarrow> string option \<Rightarrow> string option \<Rightarrow> string option \<Rightarrow> bool option \<Rightarrow> string option
      \<Rightarrow> string option \<Rightarrow> bool option \<Rightarrow> real option \<Rightarrow> real option \<Rightarrow> string option \<Rightarrow> string option
      \<Rightarrow> result" where
  "list_calls tr auth_token from_number to_number from_index to_index limit ascending start_date
      end_date created_at completed batch_id answered_by inbound duration_gt duration_lt
      campaign_id org_id =
     (if \<not> truthy (py_str auth_token) then raise (ValueError ERROR_MISSING_AUTH)
      else
        let headers = [(''authorization'', py_str auth_token)];
            headers = set_if (truthy (py_str org_id)) ''encrypted_key'' (py_str org_id) headers;
            params = [(''limit'', PInt limit), (''ascending'', PBool ascending)];
            optional_params = [(''from_number'', py_str from_number),
                (''to_number'', py_str to_number), (''from'', py_int from_index),
                (''to'', py_int to_index), (''start_date'', py_str start_date),
                (''end_date'', py_str end_date), (''created_at'', py_str created_at),
                (''completed'', py_bool completed), (''batch_id'', py_str batch_id),
                (''answered_by'', py_str answered_by), (''inbound'', py_bool inbound),
                (''duration_gt'', py_float duration_gt),
                (''duration_lt'', py_float duration_lt), (''campaign_id'', py_str campaign_id)];
            params = dict_update params (filter (\<lambda>(k, v). v \<noteq> PNone) optional_params)
        in perform tr GET (Some CALLS_ENDPOINT) headers None (Some params))"

subsection \<open>list_custom_tools.py\<close>

text \<open>Defaults: \<open>page=1, limit=10, org_id=None\<close>.\<close>

definition list_custom_tools ::
  "transport \<Rightarrow> string option \<Rightarrow> int option \<Rightarrow> int option \<Rightarrow> string option \<Rightarrow> result" where
  "list_custom_tools tr auth_token page limit org_id =
     (if \<not> truthy (py_str auth_token) then raise (ValueError ERROR_MISSING_AUTH)
      else
        (case page of
           None \<Rightarrow> raise (TypeError ''< not supported between NoneType and int'')
         | Some p \<Rightarrow>
            if p < 1 then raise (ValueError ''Page number must be greater than 0'')
            else
              (case limit of
                 None \<Rightarrow> raise (TypeError ''< not supported between NoneType and int'')
               | Some l \<Rightarrow>
                  if l < 1 then raise (ValueError ''Limit must be greater than 0'')
                  else
                    let request_headers = [(''authorization'', py_str auth_token),
                                           (''Content-Type'', PStr ''application/json'')];
                        request_headers = set_if (truthy (py_str org_id)) ''encrypted_key''
                                            (py_str org_id) request_headers;
                        params = [(''page'', py_int page), (''limit'', py_int limit)];
                        rq = \<lparr>req_method = GET, req_url = LIST_CUSTOM_TOOLS_ENDPOINT,
                               req_headers = request_headers, req_json = None,
                               req_params = Some params\<rparr>
                    in try_request tr rq
                         (\<lambda>e. [(''status'', PStr ''error''), (''message'', PStr e),
                               (''tools'', PList []), (''total'', PInt 0),
                               (''page'', py_int page), (''total_pages'', PInt 0)])
                         Returned)))"

subsection \<open>list_inbound_numbers.py\<close>

text \<open>Defaults: \<open>org_id=None\<close>.\<close>

definition list_inbound_numbers ::
  "transport \<Rightarrow> string option \<Rightarrow> string option \<Rightarrow> result" where
  "list_inbound_numbers tr auth_token org_id =
     (if \<not> truthy (py_str auth_token) then raise (ValueError ERROR_MISSING_AUTH)
      else
        let headers = [(''authorization'', py_str auth_token)];
            headers = set_if (truthy (py_str org_id)) ''encrypted_key'' (py_str org_id) headers
        in perform tr GET (Some LIST_INBOUND_ENDPOINT) headers None None)"

subsection \<open>list_outbound_numbers.py\<close>

text \<open>Defaults: \<open>org_id=None\<close>.\<close>

definition list_outbound_numbers ::
  "transport \<Rightarrow> string option \<Rightarrow> string option \<Rightarrow> result" where
  "list_outbound_numbers tr auth_token org_id =
     (if \<not> truthy (py_str auth_token) then raise (ValueError ERROR_MISSING_AUTH)
      else
        let headers = [(''authorization'', py_str auth_token)];
            headers = set_if (truthy (py_str org_id)) ''encrypted_key'' (py_str org_id) headers
        in perform tr GET (Some LIST_OUTBOUND_ENDPOINT) headers None None)"

subsection \<open>list_voices.py\<close>

text \<open>Defaults: \<open>org_id=None\<close>.\<close>

definition list_voices ::
  "transport \<Rightarrow> string option \<Rightarrow> string option \<Rightarrow> result" where
  "list_voices tr auth_token org_id =
     (if \<not> truthy (py_str auth_token) then raise (ValueError ERROR_MISSING_AUTH)
      else
        let headers = [(''authorization'', py_str auth_token)];
            headers = set_if (truthy (py_str org_id)) ''encrypted_key'' (py_str org_id) headers
        in perform tr GET (Some LIST_VOICES_ENDPOINT) headers None None)"

subsection \<open>list_web_agents.py\<close>

text \<open>Defaults: \<open>limit=DEFAULT_LIMIT, offset=0, org_id=None\<close>.\<close>

definition list_web_agents ::
  "transport \<Rightarrow> string option \<Rightarrow> int option \<Rightarrow> int option \<Rightarrow> string option \<Rightarrow> result" where
  "list_web_agents tr auth_token limit offset org_id =
     (if \<not> truthy (py_str auth_token) then raise (ValueError ERROR_MISSING_AUTH)
      else if (case limit of None \<Rightarrow> False | Some n \<Rightarrow> n < 1)
          then raise (ValueError ''Limit must be greater than 0'')
      else if (case offset of None \<Rightarrow> False | Some n \<Rightarrow> n < 0)
          then raise (ValueError ''Offset must be greater than or equal to 0'')
      else
        let headers = [(''authorization'', py_str auth_token)];
            headers = set_if (truthy (py_str org_id)) ''encrypted_key'' (py_str org_id) headers;
            params = [];
            params = set_if (py_int limit \<noteq> PNone) ''limit'' (py_int limit) params;
            params = set_if (py_int offset \<noteq> PNone) ''offset'' (py_int offset) params
        in perform tr GET (Some WEB_AGENTS_ENDPOINT) headers None (Some params))"

subsection \<open>move_pathway.py\<close>

text \<open>Defaults: \<open>folder_id=None, org_id=None\<close>.\<close>

definition move_pathway ::
  "transport \<Rightarrow> string option \<Rightarrow> string option \<Rightarrow> string option \<Rightarrow> string option \<Rightarrow> result" where
  "move_pathway tr auth_token pathway_id folder_id org_id =
     (if \<not> truthy (py_str auth_token) then raise (ValueError ERROR_MISSING_AUTH)
      else if \<not> truthy (py_str pathway_id) then raise (ValueError ERROR_MISSING_PATHWAY)
      else
        let headers = [(''authorization'', py_str auth_token),
            (''Content-Type'', PStr ''application/json'')];
            headers = set_if (truthy (py_str org_id)) ''encrypted_key'' (py_str org_id) headers;
            data = [];
            data = set_if (truthy (py_str folder_id)) ''folder_id'' (py_str folder_id) data
        in perform tr POST (str_format MOVE_PATHWAY_ENDPOINT [(''pathway_id'', format_value
            pathway_id)]) headers (Some data) None)"

subsection \<open>pathway_chat.py\<close>

text \<open>Defaults: \<open>message=None, org_id=None\<close>.\<close>

definition send_pathway_chat_message ::
  "transport \<Rightarrow> string option \<Rightarrow> string option \<Rightarrow> string option \<Rightarrow> string option \<Rightarrow> result" where
  "send_pathway_chat_message tr auth_token chat_id message org_id =
     (if \<not> truthy (py_str auth_token) then raise (ValueError ERROR_MISSING_AUTH)
      else if \<not> truthy (py_str chat_id) then raise (ValueError
          ''Missing required parameter: chat_id'')
      else
        let headers = [(''authorization'', py_str auth_token),
            (''Content-Type'', PStr ''application/json'')];
            headers = set_if (truthy (py_str org_id)) ''encrypted_key'' (py_str org_id) headers;
            data = [];
            data = set_if (truthy (py_str message)) ''message'' (py_str message) data
        in perform tr POST (str_format PATHWAY_CHAT_ENDPOINT [(''chat_id'', format_value
            chat_id)]) headers (Some data) None)"

text \<open>Defaults: \<open>org_id=None\<close>.\<close>

definition get_pathway_chat_history ::
  "transport \<Rightarrow> string option \<Rightarrow> string option \<Rightarrow> string option \<Rightarrow> result" where
  "get_pathway_chat_history tr auth_token chat_id org_id =
     (if \<not> truthy (py_str auth_token) then raise (ValueError ERROR_MISSING_AUTH)
      else if \<not> truthy (py_str chat_id) then raise (ValueError
          ''Missing required parameter: chat_id'')
      else
        let headers = [(''authorization'', py_str auth_token)];
            headers = set_if (truthy (py_str org_id)) ''encrypted_key'' (py_str org_id) headers
        in perform tr GET (str_format PATHWAY_CHAT_ENDPOINT [(''chat_id'', format_value
            chat_id)]) headers None None)"

subsection \<open>promote_pathway_version.py\<close>

text \<open>Defaults: \<open>org_id=None\<close>.\<close>

definition promote_pathway_version ::
  "transport \<Rightarrow> string option \<Rightarrow> string option \<Rightarrow> string option \<Rightarrow> string option \<Rightarrow> result" where
  "promote_pathway_version tr auth_token pathway_id version_id org_id =
     (if \<not> truthy (py_str auth_token) then raise (ValueError ERROR_MISSING_AUTH)
      else if \<not> truthy (py_str pathway_id) then raise (ValueError ERROR_MISSING_PATHWAY)
      else if \<not> truthy (py_str version_id) then raise (ValueError
          ''Missing required parameter: version_id'')
      else
        let headers = [(''authorization'', py_str auth_token),
            (''Content-Type'', PStr ''application/json'')];
            headers = set_if (truthy (py_str org_id)) ''encrypted_key'' (py_str org_id) headers
        in perform tr POST (str_format PROMOTE_PATHWAY_VERSION_ENDPOINT [(''pathway_id'',
            format_value pathway_id), (''version_id'', format_value version_id)]) headers None
            None)"

subsection \<open>publish_cloned_voice.py\<close>

text \<open>Defaults: \<open>language=None, gender=None, org_id=None\<close>.\<close>

definition publish_cloned_voice ::
  "transport \<Rightarrow> string option \<Rightarrow> string option \<Rightarrow> string option \<Rightarrow> string list option
      \<Rightarrow> string option \<Rightarrow> string option \<Rightarrow> string option \<Rightarrow> result" where
  "publish_cloned_voice tr auth_token name description audio_files language gender org_id =
     (if \<not> truthy (py_str auth_token) then raise (ValueError ERROR_MISSING_AUTH)
      else if \<not> truthy (py_str name) then raise (ValueError
          ''Missing required parameter: name'')
      else if \<not> truthy (py_str description) then raise (ValueError
          ''Missing required parameter: description'')
      else if \<not> truthy (py_strs audio_files)
          then raise (ValueError ''Missing required parameter: audio_files'')
      else
        let headers = [(''authorization'', py_str auth_token),
            (''Content-Type'', PStr ''application/json'')];
            headers = set_if (truthy (py_str org_id)) ''encrypted_key'' (py_str org_id) headers;
            data = [(''name'', py_str name), (''description'', py_str description),
                (''audio_files'', py_strs audio_files)];
            data = set_if (truthy (py_str language)) ''language'' (py_str language) data;
            data = set_if (truthy (py_str gender)) ''gender'' (py_str gender) data
        in perform tr POST (Some PUBLISH_VOICE_ENDPOINT) headers (Some data) None)"

subsection \<open>purchase_phone_number.py\<close>

text \<open>Defaults: \<open>area_code=None, country=None, org_id=None\<close>.\<close>

definition purchase_phone_number ::
  "transport \<Rightarrow> string option \<Rightarrow> string option \<Rightarrow> string option \<Rightarrow> string option \<Rightarrow> result" where
  "purchase_phone_number tr auth_token area_code country org_id =
     (if \<not> truthy (py_str auth_token) then raise (ValueError ERROR_MISSING_AUTH)
      else
        let headers = [(''authorization'', py_str auth_token),
            (''Content-Type'', PStr ''application/json'')];
            headers = set_if (truthy (py_str org_id)) ''encrypted_key'' (py_str org_id) headers;
            data = [];
            data = set_if (truthy (py_str area_code)) ''area_code'' (py_str area_code) data;
            data = set_if (truthy (py_str country)) ''country'' (py_str country) data
        in perform tr POST (Some PURCHASE_PHONE_ENDPOINT) headers (Some data) None)"

subsection \<open>send_batch_calls.py\<close>

text \<open>Defaults: \<open>pathway_id=None, task=None, model=DEFAULT_MODEL, voice=DEFAULT_VOICE,
    language=DEFAULT_LANGUAGE, temperature=DEFAULT_TEMPERATURE,
    max_duration=DEFAULT_MAX_DURATION, schedule_time=None, retry_config=None, metadata=None,
    org_id=None\<close>.\<close>

definition send_batch_calls ::
  "transport \<Rightarrow> string option \<Rightarrow> string list option \<Rightarrow> string option \<Rightarrow> string option
      \<Rightarrow> string option \<Rightarrow> string option \<Rightarrow> string option \<Rightarrow> real option \<Rightarrow> int option \<Rightarrow> string option
      \<Rightarrow> pyval \<Rightarrow> pyval \<Rightarrow> string option \<Rightarrow> result" where
  "send_batch_calls tr auth_token phone_numbers pathway_id task model voice language temperature
      max_duration schedule_time retry_config metadata org_id =
     (if \<not> truthy (py_str auth_token) then raise (ValueError ERROR_MISSING_AUTH)
      else if \<not> truthy (py_strs phone_numbers) then raise (ValueError ERROR_MISSING_PHONE)
      else if \<not> truthy (py_str pathway_id) \<and> \<not> truthy (py_str task)
          then raise (ValueError ''Either pathway_id or task must be provided'')
      else
      (case phone_numbers of
         None \<Rightarrow> raise (TypeError ''NoneType object is not iterable'')
       | Some numbers \<Rightarrow>
      (case find (\<lambda>number. \<not> startswith_plus number \<or> \<not> isdigit (drop 1 number)) numbers of
         Some number \<Rightarrow> raise (ValueError (ERROR_INVALID_PHONE @ '': '' @ number))
       | None \<Rightarrow>
      if truthy (py_str model) \<and> py_str model \<notin> set [PStr ''base'', PStr ''turbo'', PStr
          ''enhanced''] then raise (ValueError
          ''Invalid model. Must be one of: base, turbo, enhanced'')
      else if (case temperature of None \<Rightarrow> False | Some t \<Rightarrow> \<not> (0.0 \<le> t \<and> t \<le> 1.0))
          then raise (ValueError ''Temperature must be between 0.0 and 1.0'')
      else
        let headers = [(''authorization'', py_str auth_token),
            (''Content-Type'', PStr ''application/json'')];
            headers = set_if (truthy (py_str org_id)) ''encrypted_key'' (py_str org_id) headers;
            data = [(''phone_numbers'', py_strs phone_numbers)];
            data = set_if (py_str pathway_id \<noteq> PNone) ''pathway_id'' (py_str pathway_id) data;
            data = set_if (py_str task \<noteq> PNone) ''task'' (py_str task) data;
            data = set_if (py_str model \<noteq> PNone) ''model'' (py_str model) data;
            data = set_if (py_str voice \<noteq> PNone) ''voice'' (py_str voice) data;
            data = set_if (py_str language \<noteq> PNone) ''language'' (py_str language) data;
            data = set_if (py_float temperature \<noteq> PNone) ''temperature'' (py_float temperature)
                data;
            data = set_if (py_int max_duration \<noteq> PNone) ''max_duration'' (py_int max_duration)
                data;
            data = set_if (py_str schedule_time \<noteq> PNone) ''schedule_time'' (py_str
                schedule_time) data;
            data = set_if (retry_config \<noteq> PNone) ''retry_config'' retry_config data;
            data = set_if (metadata \<noteq> PNone) ''metadata'' metadata data
        in perform tr POST (Some BATCH_CALLS_ENDPOINT) headers (Some data) None)))"

subsection \<open>send_call.py\<close>

text \<open>
  The keyword parameters of \<open>send_call\<close> are the fields of a record (\<open>o_\<close> before the
  parameter's name); \<open>send_call_defaults\<close> holds the defaults of the signature, so that a
  caller who omits a parameter passes the value found there.
\<close>

record send_call_opts =
  o_task :: "string option"
  o_pathway_id :: "string option"
  o_start_node_id :: "string option"
  o_voice :: string
  o_background_track :: "string option"
  o_first_sentence :: "string option"
  o_wait_for_greeting :: bool
  o_block_interruptions :: bool
  o_interruption_threshold :: int
  o_model :: string
  o_temperature :: real
  o_keywords :: "string list option"
  o_pronunciation_guide :: pyval
  o_transfer_phone_number :: "string option"
  o_transfer_list :: pyval
  o_language :: string
  o_timezone :: "string option"
  o_request_data :: pyval
  o_tools :: pyval
  o_dynamic_data :: pyval
  o_start_time :: "string option"
  o_voicemail_message :: "string option"
  o_voicemail_action :: pyval
  o_retry :: pyval
  o_max_duration :: int
  o_record :: bool
  o_from_number :: "string option"
  o_webhook :: "string option"
  o_webhook_events :: "string list option"
  o_metadata :: pyval
  o_summary_prompt :: "string option"
  o_analysis_prompt :: "string option"
  o_analysis_schema :: pyval
  o_answered_by_enabled :: bool
  o_org_id :: "string option"

definition send_call_defaults :: send_call_opts where
  "send_call_defaults =
     \<lparr>o_task = None,
      o_pathway_id = None,
      o_start_node_id = None,
      o_voice = DEFAULT_VOICE,
      o_background_track = None,
      o_first_sentence = None,
      o_wait_for_greeting = False,
      o_block_interruptions = False,
      o_interruption_threshold = DEFAULT_INTERRUPTION_THRESHOLD,
      o_model = DEFAULT_MODEL,
      o_temperature = DEFAULT_TEMPERATURE,
      o_keywords = None,
      o_pronunciation_guide = PNone,
      o_transfer_phone_number = None,
      o_transfer_list = PNone,
      o_language = DEFAULT_LANGUAGE,
      o_timezone = None,
      o_request_data = PNone,
      o_tools = PNone,
      o_dynamic_data = PNone,
      o_start_time = None,
      o_voicemail_message = None,
      o_voicemail_action = PNone,
      o_retry = PNone,
      o_max_duration = DEFAULT_MAX_DURATION,
      o_record = False,
      o_from_number = None,
      o_webhook = None,
      o_webhook_events = None,
      o_metadata = PNone,
      o_summary_prompt = None,
      o_analysis_prompt = None,
      o_analysis_schema = PNone,
      o_answered_by_enabled = False,
      o_org_id = None\<rparr>"

text \<open>The dictionary \<open>optional_params\<close> that \<open>send_call\<close> builds from its parameters.\<close>

definition optional_params :: "send_call_opts \<Rightarrow> pydict" where
  "optional_params opts =
     [(''task'', py_str (o_task opts)),
      (''pathway_id'', py_str (o_pathway_id opts)),
      (''start_node_id'', py_str (o_start_node_id opts)),
      (''voice'', PStr (o_voice opts)),
      (''background_track'', py_str (o_background_track opts)),
      (''first_sentence'', py_str (o_first_sentence opts)),
      (''wait_for_greeting'', PBool (o_wait_for_greeting opts)),
      (''block_interruptions'', PBool (o_block_interruptions opts)),
      (''interruption_threshold'', PInt (o_interruption_threshold opts)),
      (''model'', PStr (o_model opts)),
      (''temperature'', PFloat (o_temperature opts)),
      (''keywords'', py_strs (o_keywords opts)),
      (''pronunciation_guide'', o_pronunciation_guide opts),
      (''transfer_phone_number'', py_str (o_transfer_phone_number opts)),
      (''transfer_list'', o_transfer_list opts),
      (''language'', PStr (o_language opts)),
      (''timezone'', py_str (o_timezone opts)),
      (''request_data'', o_request_data opts),
      (''tools'', o_tools opts),
      (''dynamic_data'', o_dynamic_data opts),
      (''start_time'', py_str (o_start_time opts)),
      (''voicemail_message'', py_str (o_voicemail_message opts)),
      (''voicemail_action'', o_voicemail_action opts),
      (''retry'', o_retry opts),
      (''max_duration'', PInt (o_max_duration opts)),
      (''record'', PBool (o_record opts)),
      (''from'', py_str (o_from_number opts)),
      (''webhook'', py_str (o_webhook opts)),
      (''webhook_events'', py_strs (o_webhook_events opts)),
      (''metadata'', o_metadata opts),
      (''summary_prompt'', py_str (o_summary_prompt opts)),
      (''analysis_prompt'', py_str (o_analysis_prompt opts)),
      (''analysis_schema'', o_analysis_schema opts),
      (''answered_by_enabled'', PBool (o_answered_by_enabled opts))]"

definition send_call ::
  "transport \<Rightarrow> string option \<Rightarrow> string option \<Rightarrow> send_call_opts \<Rightarrow> result" where
  "send_call tr auth_token phone_number opts =
     (if \<not> truthy (py_str auth_token) then raise (ValueError ERROR_MISSING_AUTH)
      else if \<not> truthy (py_str phone_number) then raise (ValueError ERROR_MISSING_PHONE)
      else if \<not> truthy (py_str (o_task opts)) \<and> \<not> truthy (py_str (o_pathway_id opts))
        then raise (ValueError ''Either task or pathway_id must be provided'')
      else
      (case phone_number of
         None \<Rightarrow> raise (TypeError ''expected string or bytes-like object'')
       | Some s \<Rightarrow>
        let phone_number = clean_phone s in
        if \<not> match_phone phone_number then raise (ValueError ERROR_INVALID_PHONE)
        else if o_model opts \<notin> set [''base'', ''turbo'', ''enhanced'']
          then raise (ValueError ERROR_INVALID_MODEL)
        else if truthy (py_str (o_background_track opts)) \<and>
                py_str (o_background_track opts) \<notin> set (map (PStr \<circ> fst) BACKGROUND_TRACKS)
          then raise (ValueError (''Invalid background track. Must be one of: '' @
                        join '', '' (map fst BACKGROUND_TRACKS)))
        else
        let headers = [(''authorization'', py_str auth_token),
                       (''Content-Type'', PStr ''application/json'')];
            headers = set_if (truthy (py_str (o_org_id opts))) ''organization''
                        (py_str (o_org_id opts)) headers;
            payload = [(''phone_number'', PStr phone_number)];
            payload = dict_update payload
                        (filter (\<lambda>(k, v). v \<noteq> PNone) (optional_params opts))
        in perform tr POST (Some CALLS_ENDPOINT) headers (Some payload) None))"

subsection \<open>send_call_pathway_simple.py\<close>

text \<open>Defaults: \<open>org_id=None\<close>.\<close>

definition send_call_pathway_simple ::
  "transport \<Rightarrow> string option \<Rightarrow> string option \<Rightarrow> string option \<Rightarrow> string option \<Rightarrow> result" where
  "send_call_pathway_simple tr auth_token phone_number pathway_id org_id =
     (if \<not> truthy (py_str auth_token) then raise (ValueError ERROR_MISSING_AUTH)
      else if \<not> truthy (py_str phone_number) then raise (ValueError ERROR_MISSING_PHONE)
      else if \<not> truthy (py_str pathway_id) then raise (ValueError
          ''Missing required parameter: pathway_id'')
      else
      (case phone_number of
         None \<Rightarrow> raise (TypeError ''expected string or bytes-like object'')
       | Some s \<Rightarrow>
        let phone_number = clean_phone s in
        if \<not> match_phone phone_number then raise (ValueError ERROR_INVALID_PHONE)
        else
        let headers = [(''authorization'', py_str auth_token),
            (''Content-Type'', PStr ''application/json'')];
            headers = set_if (truthy (py_str org_id)) ''organization'' (py_str org_id) headers;
            payload = [(''phone_number'', PStr phone_number),
                (''pathway_id'', py_str pathway_id)]
        in perform tr POST (Some CALLS_ENDPOINT) headers (Some payload) None))"

subsection \<open>send_call_simple.py\<close>

text \<open>Defaults: \<open>org_id=None\<close>.\<close>

definition send_call_simple ::
  "transport \<Rightarrow> string option \<Rightarrow> string option \<Rightarrow> string option \<Rightarrow> string option \<Rightarrow> result" where
  "send_call_simple tr auth_token phone_number task org_id =
     (if \<not> truthy (py_str auth_token) then raise (ValueError ERROR_MISSING_AUTH)
      else if \<not> truthy (py_str phone_number) then raise (ValueError ERROR_MISSING_PHONE)
      else if \<not> truthy (py_str task) then raise (ValueError ERROR_MISSING_TASK)
      else
      (case phone_number of
         None \<Rightarrow> raise (TypeError ''expected string or bytes-like object'')
       | Some s \<Rightarrow>
        let phone_number = clean_phone s in
        if \<not> match_phone phone_number then raise (ValueError ERROR_INVALID_PHONE)
        else
        let headers = [(''authorization'', py_str auth_token),
            (''Content-Type'', PStr ''application/json'')];
            headers = set_if (truthy (py_str org_id)) ''organization'' (py_str org_id) headers;
            payload = [(''phone_number'', PStr phone_number), (''task'', py_str task)]
        in perform tr POST (Some CALLS_ENDPOINT) headers (Some payload) None))"

subsection \<open>stop_active_batch.py\<close>

text \<open>Defaults: \<open>stop_reason=None, org_id=None\<close>.\<close>

definition stop_active_batch ::
  "transport \<Rightarrow> string option \<Rightarrow> string option \<Rightarrow> string option \<Rightarrow> string option \<Rightarrow> result" where
  "stop_active_batch tr auth_token batch_id stop_reason org_id =
     (if \<not> truthy (py_str auth_token) then raise (ValueError ERROR_MISSING_AUTH)
      else if \<not> truthy (py_str batch_id) then raise (ValueError
          ''Missing required parameter: batch_id'')
      else
        let headers = [(''authorization'', py_str auth_token),
            (''Content-Type'', PStr ''application/json'')];
            headers = set_if (truthy (py_str org_id)) ''encrypted_key'' (py_str org_id) headers;
            data = [];
            data = set_if (py_str stop_reason \<noteq> PNone) ''reason'' (py_str stop_reason) data
        in perform tr POST (str_format STOP_BATCH_ENDPOINT [(''batch_id'', format_value
            batch_id)]) headers (Some data) None)"

subsection \<open>stop_active_call.py\<close>

definition stop_active_call ::
  "transport \<Rightarrow> string option \<Rightarrow> string option \<Rightarrow> result" where
  "stop_active_call tr auth_token call_id =
     (if \<not> truthy (py_str auth_token) then raise (ValueError ERROR_MISSING_AUTH)
      else if \<not> truthy (py_str call_id) then raise (ValueError ERROR_MISSING_CALL_ID)
      else
        let headers = [(''authorization'', py_str auth_token)]
        in perform tr POST (str_format STOP_CALL_ENDPOINT [(''call_id'', format_value call_id)])
            headers None None)"

subsection \<open>stop_all_active_calls.py\<close>

definition stop_all_active_calls ::
  "transport \<Rightarrow> string option \<Rightarrow> result" where
  "stop_all_active_calls tr auth_token =
     (if \<not> truthy (py_str auth_token) then raise (ValueError ERROR_MISSING_AUTH)
      else
        let headers = [(''authorization'', py_str auth_token)]
        in perform tr POST (Some STOP_ALL_CALLS_ENDPOINT) headers None None)"

subsection \<open>update_custom_tool.py\<close>

text \<open>Defaults: \<open>name=None, description=None, endpoint=None, method=None, parameters=None,
    headers=None, authentication=None, response_mapping=None, org_id=None\<close>.\<close>

definition update_custom_tool ::
  "transport \<Rightarrow> string option \<Rightarrow> string option \<Rightarrow> string option \<Rightarrow> string option \<Rightarrow> string option
      \<Rightarrow> string option \<Rightarrow> pyval \<Rightarrow> pyval \<Rightarrow> pyval \<Rightarrow> pyval \<Rightarrow> string option \<Rightarrow> result" where
  "update_custom_tool tr auth_token tool_id name description endpoint method parameters headers
      authentication response_mapping org_id =
     (if \<not> truthy (py_str auth_token) then raise (ValueError ERROR_MISSING_AUTH)
      else if \<not> truthy (py_str tool_id) then raise (ValueError
          ''Missing required parameter: tool_id'')
      else if truthy (py_str method) \<and>
              py_str (map_option upper method) \<notin> set (map PStr [''GET'', ''POST'', ''PUT'',
                  ''DELETE''])
        then raise (ValueError
               (''Invalid method. Must be one of: '' @ join '', '' [''GET'', ''POST'', ''PUT'',
                   ''DELETE'']))
      else
        let request_headers = [(''authorization'', py_str auth_token),
            (''Content-Type'', PStr ''application/json'')];
            request_headers = set_if (truthy (py_str org_id)) ''encrypted_key'' (py_str org_id)
                request_headers;
            data = [];
            data = set_if (py_str name \<noteq> PNone) ''name'' (py_str name) data;
            data = set_if (py_str description \<noteq> PNone) ''description'' (py_str description)
                data;
            data = set_if (py_str endpoint \<noteq> PNone) ''endpoint'' (py_str endpoint) data;
            data = set_if (py_str method \<noteq> PNone) ''method'' (py_str (map_option upper method))
                data;
            data = set_if (parameters \<noteq> PNone) ''parameters'' parameters data;
            data = set_if (headers \<noteq> PNone) ''headers'' headers data;
            data = set_if (authentication \<noteq> PNone) ''authentication'' authentication data;
            data = set_if (response_mapping \<noteq> PNone) ''response_mapping'' response_mapping data
        in perform tr POST (str_format UPDATE_CUSTOM_TOOL_ENDPOINT [(''tool_id'', format_value
            tool_id)]) request_headers (Some data) None)"

subsection \<open>update_folder.py\<close>

text \<open>Defaults: \<open>name=None, description=None, org_id=None\<close>.\<close>

definition update_folder ::
  "transport \<Rightarrow> string option \<Rightarrow> string option \<Rightarrow> string option \<Rightarrow> string option \<Rightarrow> string option
      \<Rightarrow> result" where
  "update_folder tr auth_token folder_id name description org_id =
     (if \<not> truthy (py_str auth_token) then raise (ValueError ERROR_MISSING_AUTH)
      else if \<not> truthy (py_str folder_id) then raise (ValueError
          ''Missing required parameter: folder_id'')
      else if \<not> truthy (py_str name) \<and> \<not> truthy (py_str description)
          then raise (ValueError
          ''At least one update field (name or description) must be provided'')
      else
        let headers = [(''authorization'', py_str auth_token),
            (''Content-Type'', PStr ''application/json'')];
            headers = set_if (truthy (py_str org_id)) ''encrypted_key'' (py_str org_id) headers;
            data = [];
            data = set_if (truthy (py_str name)) ''name'' (py_str name) data;
            data = set_if (truthy (py_str description)) ''description'' (py_str description)
                data
        in perform tr PATCH (str_format UPDATE_FOLDER_ENDPOINT [(''folder_id'', format_value
            folder_id)]) headers (Some data) None)"

subsection \<open>update_inbound_details.py\<close>

text \<open>Defaults: \<open>pathway_id=None, task=None, model=None, voice=None, language=None,
    temperature=None, max_duration=None, org_id=None\<close>.\<close>

definition update_inbound_details ::
  "transport \<Rightarrow> string option \<Rightarrow> string option \<Rightarrow> string option \<Rightarrow> string option \<Rightarrow> string option
      \<Rightarrow> string option \<Rightarrow> string option \<Rightarrow> real option \<Rightarrow> int option \<Rightarrow> string option \<Rightarrow> result" where
  "update_inbound_details tr auth_token phone_number pathway_id task model voice language
      temperature max_duration org_id =
     (if \<not> truthy (py_str auth_token) then raise (ValueError ERROR_MISSING_AUTH)
      else if \<not> truthy (py_str phone_number) then raise (ValueError ERROR_MISSING_PHONE)
      else
        let headers = [(''authorization'', py_str auth_token),
            (''Content-Type'', PStr ''application/json'')];
            headers = set_if (truthy (py_str org_id)) ''encrypted_key'' (py_str org_id) headers;
            data = [(''phone_number'', py_str phone_number)];
            data = set_if (truthy (py_str pathway_id)) ''pathway_id'' (py_str pathway_id) data;
            data = set_if (truthy (py_str task)) ''task'' (py_str task) data;
            data = set_if (truthy (py_str model)) ''model'' (py_str model) data;
            data = set_if (truthy (py_str voice)) ''voice'' (py_str voice) data;
            data = set_if (truthy (py_str language)) ''language'' (py_str language) data;
            data = set_if (py_float temperature \<noteq> PNone) ''temperature'' (py_float temperature)
                data;
            data = set_if (truthy (py_int max_duration)) ''max_duration'' (py_int max_duration)
                data
        in perform tr POST (Some UPDATE_INBOUND_ENDPOINT) headers (Some data) None)"

subsection \<open>update_pathway.py\<close>

text \<open>Defaults: \<open>name=None, nodes=None, edges=None, description=None, metadata=None,
    org_id=None\<close>.\<close>

definition update_pathway ::
  "transport \<Rightarrow> string option \<Rightarrow> string option \<Rightarrow> string option \<Rightarrow> pyval \<Rightarrow> pyval \<Rightarrow> string option
      \<Rightarrow> pyval \<Rightarrow> string option \<Rightarrow> result" where
  "update_pathway tr auth_token pathway_id name nodes edges description metadata org_id =
     (if \<not> truthy (py_str auth_token) then raise (ValueError ERROR_MISSING_AUTH)
      else if \<not> truthy (py_str pathway_id) then raise (ValueError ERROR_MISSING_PATHWAY)
      else if \<not> list_ex truthy [py_str name, nodes, edges, py_str description, metadata]
          then raise (ValueError ''At least one update parameter must be provided'')
      else
        let headers = [(''authorization'', py_str auth_token),
            (''Content-Type'', PStr ''application/json'')];
            headers = set_if (truthy (py_str org_id)) ''encrypted_key'' (py_str org_id) headers;
            payload = [];
            payload = set_if (truthy (py_str name)) ''name'' (py_str name) payload;
            payload = set_if (truthy nodes) ''nodes'' nodes payload;
            payload = set_if (truthy edges) ''edges'' edges payload;
            payload = set_if (truthy (py_str description)) ''description'' (py_str description)
                payload;
            payload = set_if (truthy metadata) ''metadata'' metadata payload
        in perform tr POST (str_format UPDATE_PATHWAY_ENDPOINT [(''pathway_id'', format_value
            pathway_id)]) headers (Some payload) None)"

subsection \<open>update_web_agent.py\<close>

text \<open>Defaults: \<open>name=None, description=None, website_url=None, allowed_domains=None,
    capabilities=None, authentication=None, custom_headers=None, rate_limit=None,
    max_pages=None, org_id=None\<close>.\<close>

definition update_web_agent ::
  "transport \<Rightarrow> string option \<Rightarrow> string option \<Rightarrow> string option \<Rightarrow> string option \<Rightarrow> string option
      \<Rightarrow> string list option \<Rightarrow> string list option \<Rightarrow> pyval \<Rightarrow> pyval \<Rightarrow> int option \<Rightarrow> int option
      \<Rightarrow> string option \<Rightarrow> result" where
  "update_web_agent tr auth_token agent_id name description website_url allowed_domains
      capabilities authentication custom_headers rate_limit max_pages org_id =
     (if \<not> truthy (py_str auth_token) then raise (ValueError ERROR_MISSING_AUTH)
      else if \<not> truthy (py_str agent_id) then raise (ValueError
          ''Missing required parameter: agent_id'')
      else
        let headers = [(''authorization'', py_str auth_token),
            (''Content-Type'', PStr ''application/json'')];
            headers = set_if (truthy (py_str org_id)) ''encrypted_key'' (py_str org_id) headers;
            data = [];
            data = set_if (py_str name \<noteq> PNone) ''name'' (py_str name) data;
            data = set_if (py_str description \<noteq> PNone) ''description'' (py_str description)
                data;
            data = set_if (py_str website_url \<noteq> PNone) ''website_url'' (py_str website_url)
                data;
            data = set_if (py_strs allowed_domains \<noteq> PNone) ''allowed_domains'' (py_strs
                allowed_domains) data;
            data = set_if (py_strs capabilities \<noteq> PNone) ''capabilities'' (py_strs capabilities)
                data;
            data = set_if (authentication \<noteq> PNone) ''authentication'' authentication data;
            data = set_if (custom_headers \<noteq> PNone) ''custom_headers'' custom_headers data;
            data = set_if (py_int rate_limit \<noteq> PNone) ''rate_limit'' (py_int rate_limit) data;
            data = set_if (py_int max_pages \<noteq> PNone) ''max_pages'' (py_int max_pages) data
        in perform tr POST (str_format UPDATE_WEB_AGENT_ENDPOINT [(''agent_id'', format_value
            agent_id)]) headers (Some data) None)"

subsection \<open>upload_inbound_numbers.py\<close>

text \<open>Defaults: \<open>pathway_id=None, task=None, model=None, voice=None, language=None,
    temperature=None, max_duration=None, org_id=None\<close>.\<close>

definition upload_inbound_numbers ::
  "transport \<Rightarrow> string option \<Rightarrow> string list option \<Rightarrow> string option \<Rightarrow> string option
      \<Rightarrow> string option \<Rightarrow> string option \<Rightarrow> string option \<Rightarrow> real option \<Rightarrow> int option \<Rightarrow> string option
      \<Rightarrow> result" where
  "upload_inbound_numbers tr auth_token phone_numbers pathway_id task model voice language
      temperature max_duration org_id =
     (if \<not> truthy (py_str auth_token) then raise (ValueError ERROR_MISSING_AUTH)
      else if \<not> truthy (py_strs phone_numbers) then raise (ValueError ERROR_MISSING_PHONE)
      else
      (case phone_numbers of
         None \<Rightarrow> raise (TypeError ''NoneType object is not iterable'')
       | Some numbers \<Rightarrow>
      (case find (\<lambda>number. \<not> startswith_plus number \<or> \<not> isdigit (drop 1 number)) numbers of
         Some number \<Rightarrow> raise (ValueError (ERROR_INVALID_PHONE @ '': '' @ number))
       | None \<Rightarrow>
      if truthy (py_str model) \<and> py_str model \<notin> set [PStr ''base'', PStr ''turbo'', PStr
          ''enhanced''] then raise (ValueError
          ''Invalid model. Must be one of: base, turbo, enhanced'')
      else if (case temperature of None \<Rightarrow> False | Some t \<Rightarrow> \<not> (0.0 \<le> t \<and> t \<le> 1.0))
          then raise (ValueError ''Temperature must be between 0.0 and 1.0'')
      else
        let headers = [(''authorization'', py_str auth_token),
            (''Content-Type'', PStr ''application/json'')];
            headers = set_if (truthy (py_str org_id)) ''encrypted_key'' (py_str org_id) headers;
            data = [(''phone_numbers'', py_strs phone_numbers)];
            data = set_if (py_str pathway_id \<noteq> PNone) ''pathway_id'' (py_str pathway_id) data;
            data = set_if (py_str task \<noteq> PNone) ''task'' (py_str task) data;
            data = set_if (py_str model \<noteq> PNone) ''model'' (py_str model) data;
            data = set_if (py_str voice \<noteq> PNone) ''voice'' (py_str voice) data;
            data = set_if (py_str language \<noteq> PNone) ''language'' (py_str language) data;
            data = set_if (py_float temperature \<noteq> PNone) ''temperature'' (py_float temperature)
                data;
            data = set_if (py_int max_duration \<noteq> PNone) ''max_duration'' (py_int max_duration)
                data
        in perform tr POST (Some UPLOAD_INBOUND_NUMBERS_ENDPOINT) headers (Some data) None)))"

section \<open>The public operations as one family\<close>

text \<open>
  \<open>invocation name auth_token org_id call\<close>: \<open>call\<close> is a call of the public operation
  \<open>name\<close> with the given auth token and organization id, waiting for the transport.
  There is one rule for each of the 56 operations of the repository, with arbitrary values for
  the other arguments; \<open>org_id\<close> is \<open>None\<close> for the three operations that have no such
  parameter.
\<close>

inductive invocation ::
  "string \<Rightarrow> string option \<Rightarrow> string option \<Rightarrow> (transport \<Rightarrow> result) \<Rightarrow> bool" where
  analyze_batch:
    "invocation ''analyze_batch'' auth_token org_id
       (\<lambda>tr. analyze_batch tr auth_token batch_id goal questions filters custom_metrics org_id)"
| analyze_call:
    "invocation ''analyze_call'' auth_token None
       (\<lambda>tr. analyze_call tr auth_token call_id goal questions)"
| authorize_web_agent:
    "invocation ''authorize_web_agent'' auth_token org_id
       (\<lambda>tr. authorize_web_agent tr auth_token agent_id call_id action target_url parameters
           context org_id)"
| get_call_details:
    "invocation ''get_call_details'' auth_token org_id
       (\<lambda>tr. get_call_details tr auth_token call_id org_id)"
| create_custom_tool:
    "invocation ''create_custom_tool'' auth_token org_id
       (\<lambda>tr. create_custom_tool tr auth_token name description endpoint method parameters
           headers authentication response_mapping org_id)"
| create_encrypted_key:
    "invocation ''create_encrypted_key'' auth_token org_id
       (\<lambda>tr. create_encrypted_key tr auth_token name key_type value description metadata
           org_id)"
| create_folder:
    "invocation ''create_folder'' auth_token org_id
       (\<lambda>tr. create_folder tr auth_token name description org_id)"
| create_pathway:
    "invocation ''create_pathway'' auth_token org_id
       (\<lambda>tr. create_pathway tr auth_token name nodes edges description metadata org_id)"
| create_pathway_chat:
    "invocation ''create_pathway_chat'' auth_token org_id
       (\<lambda>tr. create_pathway_chat tr auth_token pathway_id start_node_id org_id)"
| create_pathway_version:
    "invocation ''create_pathway_version'' auth_token org_id
       (\<lambda>tr. create_pathway_version tr auth_token pathway_id name description nodes edges
           org_id)"
| create_web_agent:
    "invocation ''create_web_agent'' auth_token org_id
       (\<lambda>tr. create_web_agent tr auth_token name description website_url allowed_domains
           capabilities authentication custom_headers rate_limit max_pages org_id)"
| delete_custom_tool:
    "invocation ''delete_custom_tool'' auth_token org_id
       (\<lambda>tr. delete_custom_tool tr auth_token tool_id org_id)"
| delete_encrypted_key:
    "invocation ''delete_encrypted_key'' auth_token org_id
       (\<lambda>tr. delete_encrypted_key tr auth_token key_id org_id)"
| delete_folder:
    "invocation ''delete_folder'' auth_token org_id
       (\<lambda>tr. delete_folder tr auth_token folder_id org_id)"
| delete_inbound_number:
    "invocation ''delete_inbound_number'' auth_token org_id
       (\<lambda>tr. delete_inbound_number tr auth_token phone_number org_id)"
| delete_pathway:
    "invocation ''delete_pathway'' auth_token org_id
       (\<lambda>tr. delete_pathway tr auth_token pathway_id org_id)"
| delete_pathway_version:
    "invocation ''delete_pathway_version'' auth_token org_id
       (\<lambda>tr. delete_pathway_version tr auth_token pathway_id version_id org_id)"
| delete_web_agent:
    "invocation ''delete_web_agent'' auth_token org_id
       (\<lambda>tr. delete_web_agent tr auth_token agent_id org_id)"
| generate_audio_sample:
    "invocation ''generate_audio_sample'' auth_token org_id
       (\<lambda>tr. generate_audio_sample tr auth_token text voice_id language speed pitch format
           org_id)"
| get_all_folders:
    "invocation ''get_all_folders'' auth_token org_id
       (\<lambda>tr. get_all_folders tr auth_token org_id)"
| get_all_pathways:
    "invocation ''get_all_pathways'' auth_token org_id
       (\<lambda>tr. get_all_pathways tr auth_token limit offset org_id)"
| get_batch_analysis:
    "invocation ''get_batch_analysis'' auth_token org_id
       (\<lambda>tr. get_batch_analysis tr auth_token batch_id analysis_id include_call_details org_id)"
| get_batch_details:
    "invocation ''get_batch_details'' auth_token org_id
       (\<lambda>tr. get_batch_details tr auth_token batch_id include_calls call_status org_id)"
| get_custom_tool_details:
    "invocation ''get_custom_tool_details'' auth_token org_id
       (\<lambda>tr. get_custom_tool_details tr auth_token tool_id org_id)"
| get_folder_pathways:
    "invocation ''get_folder_pathways'' auth_token org_id
       (\<lambda>tr. get_folder_pathways tr auth_token folder_id org_id)"
| get_inbound_details:
    "invocation ''get_inbound_details'' auth_token org_id
       (\<lambda>tr. get_inbound_details tr auth_token phone_number org_id)"
| get_pathway_info:
    "invocation ''get_pathway_info'' auth_token org_id
       (\<lambda>tr. get_pathway_info tr auth_token pathway_id org_id)"
| get_pathway_version:
    "invocation ''get_pathway_version'' auth_token org_id
       (\<lambda>tr. get_pathway_version tr auth_token pathway_id version_id org_id)"
| get_pathway_versions:
    "invocation ''get_pathway_versions'' auth_token org_id
       (\<lambda>tr. get_pathway_versions tr auth_token pathway_id org_id)"
| get_voice_details:
    "invocation ''get_voice_details'' auth_token org_id
       (\<lambda>tr. get_voice_details tr auth_token voice_id org_id)"
| list_batches:
    "invocation ''list_batches'' auth_token org_id
       (\<lambda>tr. list_batches tr auth_token limit offset status date_range sort_by sort_order
           org_id)"
| list_calls:
    "invocation ''list_calls'' auth_token org_id
       (\<lambda>tr. list_calls tr auth_token from_number to_number from_index to_index limit ascending
           start_date end_date created_at completed batch_id answered_by inbound duration_gt
           duration_lt campaign_id org_id)"
| list_custom_tools:
    "invocation ''list_custom_tools'' auth_token org_id
       (\<lambda>tr. list_custom_tools tr auth_token page limit org_id)"
| list_inbound_numbers:
    "invocation ''list_inbound_numbers'' auth_token org_id
       (\<lambda>tr. list_inbound_numbers tr auth_token org_id)"
| list_outbound_numbers:
    "invocation ''list_outbound_numbers'' auth_token org_id
       (\<lambda>tr. list_outbound_numbers tr auth_token org_id)"
| list_voices:
    "invocation ''list_voices'' auth_token org_id
       (\<lambda>tr. list_voices tr auth_token org_id)"
| list_web_agents:
    "invocation ''list_web_agents'' auth_token org_id
       (\<lambda>tr. list_web_agents tr auth_token limit offset org_id)"
| move_pathway:
    "invocation ''move_pathway'' auth_token org_id
       (\<lambda>tr. move_pathway tr auth_token pathway_id folder_id org_id)"
| send_pathway_chat_message:
    "invocation ''send_pathway_chat_message'' auth_token org_id
       (\<lambda>tr. send_pathway_chat_message tr auth_token chat_id message org_id)"
| get_pathway_chat_history:
    "invocation ''get_pathway_chat_history'' auth_token org_id
       (\<lambda>tr. get_pathway_chat_history tr auth_token chat_id org_id)"
| promote_pathway_version:
    "invocation ''promote_pathway_version'' auth_token org_id
       (\<lambda>tr. promote_pathway_version tr auth_token pathway_id version_id org_id)"
| publish_cloned_voice:
    "invocation ''publish_cloned_voice'' auth_token org_id
       (\<lambda>tr. publish_cloned_voice tr auth_token name description audio_files language gender
           org_id)"
| purchase_phone_number:
    "invocation ''purchase_phone_number'' auth_token org_id
       (\<lambda>tr. purchase_phone_number tr auth_token area_code country org_id)"
| send_batch_calls:
    "invocation ''send_batch_calls'' auth_token org_id
       (\<lambda>tr. send_batch_calls tr auth_token phone_numbers pathway_id task model voice language
           temperature max_duration schedule_time retry_config metadata org_id)"
| send_call:
    "invocation ''send_call'' auth_token (o_org_id opts)
       (\<lambda>tr. send_call tr auth_token phone_number opts)"
| send_call_pathway_simple:
    "invocation ''send_call_pathway_simple'' auth_token org_id
       (\<lambda>tr. send_call_pathway_simple tr auth_token phone_number pathway_id org_id)"
| send_call_simple:
    "invocation ''send_call_simple'' auth_token org_id
       (\<lambda>tr. send_call_simple tr auth_token phone_number task org_id)"
| stop_active_batch:
    "invocation ''stop_active_batch'' auth_token org_id
       (\<lambda>tr. stop_active_batch tr auth_token batch_id stop_reason org_id)"
| stop_active_call:
    "invocation ''stop_active_call'' auth_token None
       (\<lambda>tr. stop_active_call tr auth_token call_id)"
| stop_all_active_calls:
    "invocation ''stop_all_active_calls'' auth_token None
       (\<lambda>tr. stop_all_active_calls tr auth_token)"
| update_custom_tool:
    "invocation ''update_custom_tool'' auth_token org_id
       (\<lambda>tr. update_custom_tool tr auth_token tool_id name description endpoint method
           parameters headers authentication response_mapping org_id)"
| update_folder:
    "invocation ''update_folder'' auth_token org_id
       (\<lambda>tr. update_folder tr auth_token folder_id name description org_id)"
| update_inbound_details:
    "invocation ''update_inbound_details'' auth_token org_id
       (\<lambda>tr. update_inbound_details tr auth_token phone_number pathway_id task model voice
           language temperature max_duration org_id)"
| update_pathway:
    "invocation ''update_pathway'' auth_token org_id
       (\<lambda>tr. update_pathway tr auth_token pathway_id name nodes edges description metadata
           org_id)"
| update_web_agent:
    "invocation ''update_web_agent'' auth_token org_id
       (\<lambda>tr. update_web_agent tr auth_token agent_id name description website_url
           allowed_domains capabilities authentication custom_headers rate_limit max_pages
           org_id)"
| upload_inbound_numbers:
    "invocation ''upload_inbound_numbers'' auth_token org_id
       (\<lambda>tr. upload_inbound_numbers tr auth_token phone_numbers pathway_id task model voice
           language temperature max_duration org_id)"

section \<open>Transports for concrete runs\<close>

text \<open>
  Two transports used to run the operations on concrete arguments: one that raises a
  \<open>RequestException\<close> with the given text on every request, and one that answers every
  request with the given decoded body.
\<close>

definition raising :: "string \<Rightarrow> transport" where
  "raising m rq = RequestException m"

definition responding :: "pyval \<Rightarrow> transport" where
  "responding v rq = Response v"

section \<open>Properties shared by the operations\<close>

text \<open>
  \<open>sends tr hdrs on_error r\<close>: the result \<open>r\<close> of an operation is either a raised error
  with nothing sent, or the \<open>try\<close> block run on one request whose headers are \<open>hdrs\<close> and
  whose \<open>except\<close> clause builds its dictionary with \<open>on_error\<close>.
\<close>

definition sends :: "transport \<Rightarrow> pydict \<Rightarrow> (string \<Rightarrow> pydict) \<Rightarrow> result \<Rightarrow> bool" where
  "sends tr hdrs on_error r \<longleftrightarrow>
     (\<exists>e. r = raise e) \<or>
     (\<exists>rq on_response. req_headers rq = hdrs \<and> r = try_request tr rq on_error on_response)"

lemma truthy_py_str: "truthy (py_str x) \<longleftrightarrow> (\<exists>s. x = Some s \<and> s \<noteq> [])"
  by (cases x) (simp_all add: py_str_def)

lemma sends_raise [simp]: "sends tr hdrs on_error (raise e)"
  by (auto simp add: sends_def)

lemma sends_try_request [simp]:
  "req_headers rq = hdrs \<Longrightarrow> sends tr hdrs on_error (try_request tr rq on_error on_response)"
  by (auto simp add: sends_def)

lemma sends_perform [simp]: "sends tr hdrs error_value (perform tr m url hdrs j p)"
  by (cases url) (simp_all add: perform_def)

lemma snd_try_request: "snd (try_request tr rq on_error on_response) = [rq]"
  by (simp add: try_request_def split: transport_outcome.split)

lemma sends_failure:
  assumes "sends tr hdrs on_error r" and "snd r = [rq]" and "tr rq = RequestException m"
  shows "fst r = Returned (PDict (on_error m))"
proof -
  from assms(1) consider e where "r = raise e"
    | rq' ok where "r = try_request tr rq' on_error ok"
    by (auto simp add: sends_def)
  then show ?thesis
  proof cases
    case 1
    with assms(2) show ?thesis by (simp add: raise_def)
  next
    case 2
    with assms(2) have "rq' = rq" by (simp add: snd_try_request)
    with 2 assms(3) show ?thesis by (simp add: try_request_def)
  qed
qed

lemma sends_headers:
  assumes "sends tr hdrs on_error r" and "snd r = [rq]"
  shows "req_headers rq = hdrs"
proof -
  from assms(1) consider e where "r = raise e"
    | rq' ok where "req_headers rq' = hdrs" and "r = try_request tr rq' on_error ok"
    by (auto simp add: sends_def)
  then show ?thesis
  proof cases
    case 1
    with assms(2) show ?thesis by (simp add: raise_def)
  next
    case 2
    with assms(2) have "rq' = rq" by (simp add: snd_try_request)
    with 2 show ?thesis by simp
  qed
qed

subsection \<open>A missing auth token is the first check of every operation\<close>

lemma analyze_batch_no_auth:
  "\<not> truthy (py_str auth_token) \<Longrightarrow>
     analyze_batch tr auth_token batch_id goal questions filters custom_metrics org_id = raise
         (ValueError ERROR_MISSING_AUTH)"
  by (simp add: analyze_batch_def)

lemma analyze_call_no_auth:
  "\<not> truthy (py_str auth_token) \<Longrightarrow>
     analyze_call tr auth_token call_id goal questions = raise (ValueError ERROR_MISSING_AUTH)"
  by (simp add: analyze_call_def)

lemma authorize_web_agent_no_auth:
  "\<not> truthy (py_str auth_token) \<Longrightarrow>
     authorize_web_agent tr auth_token agent_id call_id action target_url parameters context
         org_id = raise (ValueError ERROR_MISSING_AUTH)"
  by (simp add: authorize_web_agent_def)

lemma get_call_details_no_auth:
  "\<not> truthy (py_str auth_token) \<Longrightarrow>
     get_call_details tr auth_token call_id org_id = raise (ValueError ERROR_MISSING_AUTH)"
  by (simp add: get_call_details_def)

lemma create_custom_tool_no_auth:
  "\<not> truthy (py_str auth_token) \<Longrightarrow>
     create_custom_tool tr auth_token name description endpoint method parameters headers
         authentication response_mapping org_id = raise (ValueError ERROR_MISSING_AUTH)"
  by (simp add: create_custom_tool_def)

lemma create_encrypted_key_no_auth:
  "\<not> truthy (py_str auth_token) \<Longrightarrow>
     create_encrypted_key tr auth_token name key_type value description metadata org_id = raise
         (ValueError ERROR_MISSING_AUTH)"
  by (simp add: create_encrypted_key_def)

lemma create_folder_no_auth:
  "\<not> truthy (py_str auth_token) \<Longrightarrow>
     create_folder tr auth_token name description org_id = raise (ValueError
         ERROR_MISSING_AUTH)"
  by (simp add: create_folder_def)

lemma create_pathway_no_auth:
  "\<not> truthy (py_str auth_token) \<Longrightarrow>
     create_pathway tr auth_token name nodes edges description metadata org_id = raise
         (ValueError ERROR_MISSING_AUTH)"
  by (simp add: create_pathway_def)

lemma create_pathway_chat_no_auth:
  "\<not> truthy (py_str auth_token) \<Longrightarrow>
     create_pathway_chat tr auth_token pathway_id start_node_id org_id = raise (ValueError
         ERROR_MISSING_AUTH)"
  by (simp add: create_pathway_chat_def)

lemma create_pathway_version_no_auth:
  "\<not> truthy (py_str auth_token) \<Longrightarrow>
     create_pathway_version tr auth_token pathway_id name description nodes edges org_id = raise
         (ValueError ERROR_MISSING_AUTH)"
  by (simp add: create_pathway_version_def)

lemma create_web_agent_no_auth:
  "\<not> truthy (py_str auth_token) \<Longrightarrow>
     create_web_agent tr auth_token name description website_url allowed_domains capabilities
         authentication custom_headers rate_limit max_pages org_id = raise (ValueError
         ERROR_MISSING_AUTH)"
  by (simp add: create_web_agent_def)

lemma delete_custom_tool_no_auth:
  "\<not> truthy (py_str auth_token) \<Longrightarrow>
     delete_custom_tool tr auth_token tool_id org_id = raise (ValueError ERROR_MISSING_AUTH)"
  by (simp add: delete_custom_tool_def)

lemma delete_encrypted_key_no_auth:
  "\<not> truthy (py_str auth_token) \<Longrightarrow>
     delete_encrypted_key tr auth_token key_id org_id = raise (ValueError ERROR_MISSING_AUTH)"
  by (simp add: delete_encrypted_key_def)

lemma delete_folder_no_auth:
  "\<not> truthy (py_str auth_token) \<Longrightarrow>
     delete_folder tr auth_token folder_id org_id = raise (ValueError ERROR_MISSING_AUTH)"
  by (simp add: delete_folder_def)

lemma delete_inbound_number_no_auth:
  "\<not> truthy (py_str auth_token) \<Longrightarrow>
     delete_inbound_number tr auth_token phone_number org_id = raise (ValueError
         ERROR_MISSING_AUTH)"
  by (simp add: delete_inbound_number_def)

lemma delete_pathway_no_auth:
  "\<not> truthy (py_str auth_token) \<Longrightarrow>
     delete_pathway tr auth_token pathway_id org_id = raise (ValueError ERROR_MISSING_AUTH)"
  by (simp add: delete_pathway_def)

lemma delete_pathway_version_no_auth:
  "\<not> truthy (py_str auth_token) \<Longrightarrow>
     delete_pathway_version tr auth_token pathway_id version_id org_id = raise (ValueError
         ERROR_MISSING_AUTH)"
  by (simp add: delete_pathway_version_def)

lemma delete_web_agent_no_auth:
  "\<not> truthy (py_str auth_token) \<Longrightarrow>
     delete_web_agent tr auth_token agent_id org_id = raise (ValueError ERROR_MISSING_AUTH)"
  by (simp add: delete_web_agent_def)

lemma generate_audio_sample_no_auth:
  "\<not> truthy (py_str auth_token) \<Longrightarrow>
     generate_audio_sample tr auth_token text voice_id language speed pitch format org_id =
         raise (ValueError ERROR_MISSING_AUTH)"
  by (simp add: generate_audio_sample_def)

lemma get_all_folders_no_auth:
  "\<not> truthy (py_str auth_token) \<Longrightarrow>
     get_all_folders tr auth_token org_id = raise (ValueError ERROR_MISSING_AUTH)"
  by (simp add: get_all_folders_def)

lemma get_all_pathways_no_auth:
  "\<not> truthy (py_str auth_token) \<Longrightarrow>
     get_all_pathways tr auth_token limit offset org_id = raise (ValueError ERROR_MISSING_AUTH)"
  by (simp add: get_all_pathways_def)

lemma get_batch_analysis_no_auth:
  "\<not> truthy (py_str auth_token) \<Longrightarrow>
     get_batch_analysis tr auth_token batch_id analysis_id include_call_details org_id = raise
         (ValueError ERROR_MISSING_AUTH)"
  by (simp add: get_batch_analysis_def)

lemma get_batch_details_no_auth:
  "\<not> truthy (py_str auth_token) \<Longrightarrow>
     get_batch_details tr auth_token batch_id include_calls call_status org_id = raise
         (ValueError ERROR_MISSING_AUTH)"
  by (simp add: get_batch_details_def)

lemma get_custom_tool_details_no_auth:
  "\<not> truthy (py_str auth_token) \<Longrightarrow>
     get_custom_tool_details tr auth_token tool_id org_id = raise (ValueError
         ERROR_MISSING_AUTH)"
  by (simp add: get_custom_tool_details_def)

lemma get_folder_pathways_no_auth:
  "\<not> truthy (py_str auth_token) \<Longrightarrow>
     get_folder_pathways tr auth_token folder_id org_id = raise (ValueError ERROR_MISSING_AUTH)"
  by (simp add: get_folder_pathways_def)

lemma get_inbound_details_no_auth:
  "\<not> truthy (py_str auth_token) \<Longrightarrow>
     get_inbound_details tr auth_token phone_number org_id = raise (ValueError
         ERROR_MISSING_AUTH)"
  by (simp add: get_inbound_details_def)

lemma get_pathway_info_no_auth:
  "\<not> truthy (py_str auth_token) \<Longrightarrow>
     get_pathway_info tr auth_token pathway_id org_id = raise (ValueError ERROR_MISSING_AUTH)"
  by (simp add: get_pathway_info_def)

lemma get_pathway_version_no_auth:
  "\<not> truthy (py_str auth_token) \<Longrightarrow>
     get_pathway_version tr auth_token pathway_id version_id org_id = raise (ValueError
         ERROR_MISSING_AUTH)"
  by (simp add: get_pathway_version_def)

lemma get_pathway_versions_no_auth:
  "\<not> truthy (py_str auth_token) \<Longrightarrow>
     get_pathway_versions tr auth_token pathway_id org_id = raise (ValueError
         ERROR_MISSING_AUTH)"
  by (simp add: get_pathway_versions_def)

lemma get_voice_details_no_auth:
  "\<not> truthy (py_str auth_token) \<Longrightarrow>
     get_voice_details tr auth_token voice_id org_id = raise (ValueError ERROR_MISSING_AUTH)"
  by (simp add: get_voice_details_def)

lemma list_batches_no_auth:
  "\<not> truthy (py_str auth_token) \<Longrightarrow>
     list_batches tr auth_token limit offset status date_range sort_by sort_order org_id = raise
         (ValueError ERROR_MISSING_AUTH)"
  by (simp add: list_batches_def)

lemma list_calls_no_auth:
  "\<not> truthy (py_str auth_token) \<Longrightarrow>
     list_calls tr auth_token from_number to_number from_index to_index limit ascending
         start_date end_date created_at completed batch_id answered_by inbound duration_gt
         duration_lt campaign_id org_id = raise (ValueError ERROR_MISSING_AUTH)"
  by (simp add: list_calls_def)

lemma list_custom_tools_no_auth:
  "\<not> truthy (py_str auth_token) \<Longrightarrow>
     list_custom_tools tr auth_token page limit org_id = raise (ValueError ERROR_MISSING_AUTH)"
  by (simp add: list_custom_tools_def)

lemma list_inbound_numbers_no_auth:
  "\<not> truthy (py_str auth_token) \<Longrightarrow>
     list_inbound_numbers tr auth_token org_id = raise (ValueError ERROR_MISSING_AUTH)"
  by (simp add: list_inbound_numbers_def)

lemma list_outbound_numbers_no_auth:
  "\<not> truthy (py_str auth_token) \<Longrightarrow>
     list_outbound_numbers tr auth_token org_id = raise (ValueError ERROR_MISSING_AUTH)"
  by (simp add: list_outbound_numbers_def)

lemma list_voices_no_auth:
  "\<not> truthy (py_str auth_token) \<Longrightarrow>
     list_voices tr auth_token org_id = raise (ValueError ERROR_MISSING_AUTH)"
  by (simp add: list_voices_def)

lemma list_web_agents_no_auth:
  "\<not> truthy (py_str auth_token) \<Longrightarrow>
     list_web_agents tr auth_token limit offset org_id = raise (ValueError ERROR_MISSING_AUTH)"
  by (simp add: list_web_agents_def)

lemma move_pathway_no_auth:
  "\<not> truthy (py_str auth_token) \<Longrightarrow>
     move_pathway tr auth_token pathway_id folder_id org_id = raise (ValueError
         ERROR_MISSING_AUTH)"
  by (simp add: move_pathway_def)

lemma send_pathway_chat_message_no_auth:
  "\<not> truthy (py_str auth_token) \<Longrightarrow>
     send_pathway_chat_message tr auth_token chat_id message org_id = raise (ValueError
         ERROR_MISSING_AUTH)"
  by (simp add: send_pathway_chat_message_def)

lemma get_pathway_chat_history_no_auth:
  "\<not> truthy (py_str auth_token) \<Longrightarrow>
     get_pathway_chat_history tr auth_token chat_id org_id = raise (ValueError
         ERROR_MISSING_AUTH)"
  by (simp add: get_pathway_chat_history_def)

lemma promote_pathway_version_no_auth:
  "\<not> truthy (py_str auth_token) \<Longrightarrow>
     promote_pathway_version tr auth_token pathway_id version_id org_id = raise (ValueError
         ERROR_MISSING_AUTH)"
  by (simp add: promote_pathway_version_def)

lemma publish_cloned_voice_no_auth:
  "\<not> truthy (py_str auth_token) \<Longrightarrow>
     publish_cloned_voice tr auth_token name description audio_files language gender org_id =
         raise (ValueError ERROR_MISSING_AUTH)"
  by (simp add: publish_cloned_voice_def)

lemma purchase_phone_number_no_auth:
  "\<not> truthy (py_str auth_token) \<Longrightarrow>
     purchase_phone_number tr auth_token area_code country org_id = raise (ValueError
         ERROR_MISSING_AUTH)"
  by (simp add: purchase_phone_number_def)

lemma send_batch_calls_no_auth:
  "\<not> truthy (py_str auth_token) \<Longrightarrow>
     send_batch_calls tr auth_token phone_numbers pathway_id task model voice language
         temperature max_duration schedule_time retry_config metadata org_id = raise (ValueError
         ERROR_MISSING_AUTH)"
  by (simp add: send_batch_calls_def)

lemma send_call_no_auth:
  "\<not> truthy (py_str auth_token) \<Longrightarrow>
     send_call tr auth_token phone_number opts = raise (ValueError ERROR_MISSING_AUTH)"
  by (simp add: send_call_def)

lemma send_call_pathway_simple_no_auth:
  "\<not> truthy (py_str auth_token) \<Longrightarrow>
     send_call_pathway_simple tr auth_token phone_number pathway_id org_id = raise (ValueError
         ERROR_MISSING_AUTH)"
  by (simp add: send_call_pathway_simple_def)

lemma send_call_simple_no_auth:
  "\<not> truthy (py_str auth_token) \<Longrightarrow>
     send_call_simple tr auth_token phone_number task org_id = raise (ValueError
         ERROR_MISSING_AUTH)"
  by (simp add: send_call_simple_def)

lemma stop_active_batch_no_auth:
  "\<not> truthy (py_str auth_token) \<Longrightarrow>
     stop_active_batch tr auth_token batch_id stop_reason org_id = raise (ValueError
         ERROR_MISSING_AUTH)"
  by (simp add: stop_active_batch_def)

lemma stop_active_call_no_auth:
  "\<not> truthy (py_str auth_token) \<Longrightarrow>
     stop_active_call tr auth_token call_id = raise (ValueError ERROR_MISSING_AUTH)"
  by (simp add: stop_active_call_def)

lemma stop_all_active_calls_no_auth:
  "\<not> truthy (py_str auth_token) \<Longrightarrow>
     stop_all_active_calls tr auth_token = raise (ValueError ERROR_MISSING_AUTH)"
  by (simp add: stop_all_active_calls_def)

lemma update_custom_tool_no_auth:
  "\<not> truthy (py_str auth_token) \<Longrightarrow>
     update_custom_tool tr auth_token tool_id name description endpoint method parameters
         headers authentication response_mapping org_id = raise (ValueError ERROR_MISSING_AUTH)"
  by (simp add: update_custom_tool_def)

lemma update_folder_no_auth:
  "\<not> truthy (py_str auth_token) \<Longrightarrow>
     update_folder tr auth_token folder_id name description org_id = raise (ValueError
         ERROR_MISSING_AUTH)"
  by (simp add: update_folder_def)

lemma update_inbound_details_no_auth:
  "\<not> truthy (py_str auth_token) \<Longrightarrow>
     update_inbound_details tr auth_token phone_number pathway_id task model voice language
         temperature max_duration org_id = raise (ValueError ERROR_MISSING_AUTH)"
  by (simp add: update_inbound_details_def)

lemma update_pathway_no_auth:
  "\<not> truthy (py_str auth_token) \<Longrightarrow>
     update_pathway tr auth_token pathway_id name nodes edges description metadata org_id =
         raise (ValueError ERROR_MISSING_AUTH)"
  by (simp add: update_pathway_def)

lemma update_web_agent_no_auth:
  "\<not> truthy (py_str auth_token) \<Longrightarrow>
     update_web_agent tr auth_token agent_id name description website_url allowed_domains
         capabilities authentication custom_headers rate_limit max_pages org_id = raise
         (ValueError ERROR_MISSING_AUTH)"
  by (simp add: update_web_agent_def)

lemma upload_inbound_numbers_no_auth:
  "\<not> truthy (py_str auth_token) \<Longrightarrow>
     upload_inbound_numbers tr auth_token phone_numbers pathway_id task model voice language
         temperature max_duration org_id = raise (ValueError ERROR_MISSING_AUTH)"
  by (simp add: upload_inbound_numbers_def)

subsection \<open>Every operation raises before sending, or runs its \<open>try\<close> block on one request\<close>

text \<open>
  For each operation: the headers of the request it sends, and the dictionary its
  \<open>except\<close> clause builds.
\<close>

lemma analyze_batch_sends:
  "sends tr
     (set_if (truthy (py_str org_id)) ''encrypted_key'' (py_str org_id)
        [(''authorization'', py_str auth_token), (''Content-Type'', PStr ''application/json'')])
     error_value
     (analyze_batch tr auth_token batch_id goal questions filters custom_metrics org_id)"
  by (simp add: analyze_batch_def Let_def split: option.split)

lemma analyze_call_sends:
  "sends tr
     [(''authorization'', py_str auth_token), (''Content-Type'', PStr ''application/json'')]
     error_value
     (analyze_call tr auth_token call_id goal questions)"
  by (simp add: analyze_call_def Let_def split: option.split)

lemma authorize_web_agent_sends:
  "sends tr
     (set_if (truthy (py_str org_id)) ''encrypted_key'' (py_str org_id)
        [(''authorization'', py_str auth_token), (''Content-Type'', PStr ''application/json'')])
     error_value
     (authorize_web_agent tr auth_token agent_id call_id action target_url parameters context
         org_id)"
  by (simp add: authorize_web_agent_def Let_def split: option.split)

lemma get_call_details_sends:
  "sends tr
     (set_if (truthy (py_str org_id)) ''encrypted_key'' (py_str org_id)
        [(''authorization'', py_str auth_token)])
     error_value
     (get_call_details tr auth_token call_id org_id)"
  by (simp add: get_call_details_def Let_def split: option.split)

lemma create_custom_tool_sends:
  "sends tr
     (set_if (truthy (py_str org_id)) ''encrypted_key'' (py_str org_id)
        [(''authorization'', py_str auth_token), (''Content-Type'', PStr ''application/json'')])
     error_value
     (create_custom_tool tr auth_token name description endpoint method parameters headers
         authentication response_mapping org_id)"
  by (simp add: create_custom_tool_def Let_def split: option.split)

lemma create_encrypted_key_sends:
  "sends tr
     (set_if (truthy (py_str org_id)) ''encrypted_key'' (py_str org_id)
        [(''authorization'', py_str auth_token), (''Content-Type'', PStr ''application/json'')])
     error_value
     (create_encrypted_key tr auth_token name key_type value description metadata org_id)"
  by (simp add: create_encrypted_key_def Let_def split: option.split)

lemma create_folder_sends:
  "sends tr
     (set_if (truthy (py_str org_id)) ''encrypted_key'' (py_str org_id)
        [(''authorization'', py_str auth_token), (''Content-Type'', PStr ''application/json'')])
     error_value
     (create_folder tr auth_token name description org_id)"
  by (simp add: create_folder_def Let_def split: option.split)

lemma create_pathway_sends:
  "sends tr
     (set_if (truthy (py_str org_id)) ''encrypted_key'' (py_str org_id)
        [(''authorization'', py_str auth_token), (''Content-Type'', PStr ''application/json'')])
     error_value
     (create_pathway tr auth_token name nodes edges description metadata org_id)"
  by (simp add: create_pathway_def Let_def split: option.split)

lemma create_pathway_chat_sends:
  "sends tr
     (set_if (truthy (py_str org_id)) ''encrypted_key'' (py_str org_id)
        [(''authorization'', py_str auth_token), (''Content-Type'', PStr ''application/json'')])
     error_value
     (create_pathway_chat tr auth_token pathway_id start_node_id org_id)"
  by (simp add: create_pathway_chat_def Let_def split: option.split)

lemma create_pathway_version_sends:
  "sends tr
     (set_if (truthy (py_str org_id)) ''encrypted_key'' (py_str org_id)
        [(''authorization'', py_str auth_token), (''Content-Type'', PStr ''application/json'')])
     error_value
     (create_pathway_version tr auth_token pathway_id name description nodes edges org_id)"
  by (simp add: create_pathway_version_def Let_def split: option.split)

lemma create_web_agent_sends:
  "sends tr
     (set_if (truthy (py_str org_id)) ''encrypted_key'' (py_str org_id)
        [(''authorization'', py_str auth_token), (''Content-Type'', PStr ''application/json'')])
     error_value
     (create_web_agent tr auth_token name description website_url allowed_domains capabilities
         authentication custom_headers rate_limit max_pages org_id)"
  by (simp add: create_web_agent_def Let_def split: option.split)

lemma delete_custom_tool_sends:
  "sends tr
     (set_if (truthy (py_str org_id)) ''encrypted_key'' (py_str org_id)
        [(''authorization'', py_str auth_token)])
     error_value
     (delete_custom_tool tr auth_token tool_id org_id)"
  by (simp add: delete_custom_tool_def Let_def split: option.split)

lemma delete_encrypted_key_sends:
  "sends tr
     (set_if (truthy (py_str org_id)) ''encrypted_key'' (py_str org_id)
        [(''authorization'', py_str auth_token)])
     error_value
     (delete_encrypted_key tr auth_token key_id org_id)"
  by (simp add: delete_encrypted_key_def Let_def split: option.split)

lemma delete_folder_sends:
  "sends tr
     (set_if (truthy (py_str org_id)) ''encrypted_key'' (py_str org_id)
        [(''authorization'', py_str auth_token)])
     error_value
     (delete_folder tr auth_token folder_id org_id)"
  by (simp add: delete_folder_def Let_def split: option.split)

lemma delete_inbound_number_sends:
  "sends tr
     (set_if (truthy (py_str org_id)) ''encrypted_key'' (py_str org_id)
        [(''authorization'', py_str auth_token)])
     error_value
     (delete_inbound_number tr auth_token phone_number org_id)"
  by (simp add: delete_inbound_number_def Let_def split: option.split)

lemma delete_pathway_sends:
  "sends tr
     (set_if (truthy (py_str org_id)) ''encrypted_key'' (py_str org_id)
        [(''authorization'', py_str auth_token)])
     error_value
     (delete_pathway tr auth_token pathway_id org_id)"
  by (simp add: delete_pathway_def Let_def split: option.split)

lemma delete_pathway_version_sends:
  "sends tr
     (set_if (truthy (py_str org_id)) ''encrypted_key'' (py_str org_id)
        [(''authorization'', py_str auth_token)])
     error_value
     (delete_pathway_version tr auth_token pathway_id version_id org_id)"
  by (simp add: delete_pathway_version_def Let_def split: option.split)

lemma delete_web_agent_sends:
  "sends tr
     (set_if (truthy (py_str org_id)) ''encrypted_key'' (py_str org_id)
        [(''authorization'', py_str auth_token)])
     error_value
     (delete_web_agent tr auth_token agent_id org_id)"
  by (simp add: delete_web_agent_def Let_def split: option.split)

lemma generate_audio_sample_sends:
  "sends tr
     (set_if (truthy (py_str org_id)) ''encrypted_key'' (py_str org_id)
        [(''authorization'', py_str auth_token), (''Content-Type'', PStr ''application/json'')])
     error_value
     (generate_audio_sample tr auth_token text voice_id language speed pitch format org_id)"
  by (simp add: generate_audio_sample_def Let_def split: option.split)

lemma get_all_folders_sends:
  "sends tr
     (set_if (truthy (py_str org_id)) ''encrypted_key'' (py_str org_id)
        [(''authorization'', py_str auth_token)])
     error_value
     (get_all_folders tr auth_token org_id)"
  by (simp add: get_all_folders_def Let_def split: option.split)

lemma get_all_pathways_sends:
  "sends tr
     (set_if (truthy (py_str org_id)) ''encrypted_key'' (py_str org_id)
        [(''authorization'', py_str auth_token)])
     error_value
     (get_all_pathways tr auth_token limit offset org_id)"
  by (simp add: get_all_pathways_def Let_def split: option.split)

lemma get_batch_analysis_sends:
  "sends tr
     (set_if (truthy (py_str org_id)) ''encrypted_key'' (py_str org_id)
        [(''authorization'', py_str auth_token)])
     error_value
     (get_batch_analysis tr auth_token batch_id analysis_id include_call_details org_id)"
  by (simp add: get_batch_analysis_def Let_def split: option.split)

lemma get_batch_details_sends:
  "sends tr
     (set_if (truthy (py_str org_id)) ''encrypted_key'' (py_str org_id)
        [(''authorization'', py_str auth_token)])
     error_value
     (get_batch_details tr auth_token batch_id include_calls call_status org_id)"
  by (simp add: get_batch_details_def Let_def split: option.split)

lemma get_custom_tool_details_sends:
  "sends tr
     (set_if (truthy (py_str org_id)) ''encrypted_key'' (py_str org_id)
        [(''authorization'', py_str auth_token), (''Content-Type'', PStr ''application/json'')])
     error_value
     (get_custom_tool_details tr auth_token tool_id org_id)"
  by (simp add: get_custom_tool_details_def Let_def split: option.split)

lemma get_folder_pathways_sends:
  "sends tr
     (set_if (truthy (py_str org_id)) ''encrypted_key'' (py_str org_id)
        [(''authorization'', py_str auth_token)])
     error_value
     (get_folder_pathways tr auth_token folder_id org_id)"
  by (simp add: get_folder_pathways_def Let_def split: option.split)

lemma get_inbound_details_sends:
  "sends tr
     (set_if (truthy (py_str org_id)) ''encrypted_key'' (py_str org_id)
        [(''authorization'', py_str auth_token)])
     error_value
     (get_inbound_details tr auth_token phone_number org_id)"
  by (simp add: get_inbound_details_def Let_def split: option.split)

lemma get_pathway_info_sends:
  "sends tr
     (set_if (truthy (py_str org_id)) ''encrypted_key'' (py_str org_id)
        [(''authorization'', py_str auth_token)])
     error_value
     (get_pathway_info tr auth_token pathway_id org_id)"
  by (simp add: get_pathway_info_def Let_def split: option.split)

lemma get_pathway_version_sends:
  "sends tr
     (set_if (truthy (py_str org_id)) ''encrypted_key'' (py_str org_id)
        [(''authorization'', py_str auth_token)])
     error_value
     (get_pathway_version tr auth_token pathway_id version_id org_id)"
  by (simp add: get_pathway_version_def Let_def split: option.split)

lemma get_pathway_versions_sends:
  "sends tr
     (set_if (truthy (py_str org_id)) ''encrypted_key'' (py_str org_id)
        [(''authorization'', py_str auth_token)])
     error_value
     (get_pathway_versions tr auth_token pathway_id org_id)"
  by (simp add: get_pathway_versions_def Let_def split: option.split)

lemma get_voice_details_sends:
  "sends tr
     (set_if (truthy (py_str org_id)) ''encrypted_key'' (py_str org_id)
        [(''authorization'', py_str auth_token)])
     error_value
     (get_voice_details tr auth_token voice_id org_id)"
  by (simp add: get_voice_details_def Let_def split: option.split)

lemma list_batches_sends:
  "sends tr
     (set_if (truthy (py_str org_id)) ''encrypted_key'' (py_str org_id)
        [(''authorization'', py_str auth_token)])
     error_value
     (list_batches tr auth_token limit offset status date_range sort_by sort_order org_id)"
  by (simp add: list_batches_def Let_def split: option.split)

lemma list_calls_sends:
  "sends tr
     (set_if (truthy (py_str org_id)) ''encrypted_key'' (py_str org_id)
        [(''authorization'', py_str auth_token)])
     error_value
     (list_calls tr auth_token from_number to_number from_index to_index limit ascending
         start_date end_date created_at completed batch_id answered_by inbound duration_gt
         duration_lt campaign_id org_id)"
  by (simp add: list_calls_def Let_def split: option.split)

lemma list_custom_tools_sends:
  "sends tr
     (set_if (truthy (py_str org_id)) ''encrypted_key'' (py_str org_id)
        [(''authorization'', py_str auth_token), (''Content-Type'', PStr ''application/json'')])
     (\<lambda>e. [(''status'', PStr ''error''), (''message'', PStr e), (''tools'', PList []),
           (''total'', PInt 0), (''page'', py_int page), (''total_pages'', PInt 0)])
     (list_custom_tools tr auth_token page limit org_id)"
  by (simp add: list_custom_tools_def Let_def split: option.split)

lemma list_inbound_numbers_sends:
  "sends tr
     (set_if (truthy (py_str org_id)) ''encrypted_key'' (py_str org_id)
        [(''authorization'', py_str auth_token)])
     error_value
     (list_inbound_numbers tr auth_token org_id)"
  by (simp add: list_inbound_numbers_def Let_def split: option.split)

lemma list_outbound_numbers_sends:
  "sends tr
     (set_if (truthy (py_str org_id)) ''encrypted_key'' (py_str org_id)
        [(''authorization'', py_str auth_token)])
     error_value
     (list_outbound_numbers tr auth_token org_id)"
  by (simp add: list_outbound_numbers_def Let_def split: option.split)

lemma list_voices_sends:
  "sends tr
     (set_if (truthy (py_str org_id)) ''encrypted_key'' (py_str org_id)
        [(''authorization'', py_str auth_token)])
     error_value
     (list_voices tr auth_token org_id)"
  by (simp add: list_voices_def Let_def split: option.split)

lemma list_web_agents_sends:
  "sends tr
     (set_if (truthy (py_str org_id)) ''encrypted_key'' (py_str org_id)
        [(''authorization'', py_str auth_token)])
     error_value
     (list_web_agents tr auth_token limit offset org_id)"
  by (simp add: list_web_agents_def Let_def split: option.split)

lemma move_pathway_sends:
  "sends tr
     (set_if (truthy (py_str org_id)) ''encrypted_key'' (py_str org_id)
        [(''authorization'', py_str auth_token), (''Content-Type'', PStr ''application/json'')])
     error_value
     (move_pathway tr auth_token pathway_id folder_id org_id)"
  by (simp add: move_pathway_def Let_def split: option.split)

lemma send_pathway_chat_message_sends:
  "sends tr
     (set_if (truthy (py_str org_id)) ''encrypted_key'' (py_str org_id)
        [(''authorization'', py_str auth_token), (''Content-Type'', PStr ''application/json'')])
     error_value
     (send_pathway_chat_message tr auth_token chat_id message org_id)"
  by (simp add: send_pathway_chat_message_def Let_def split: option.split)

lemma get_pathway_chat_history_sends:
  "sends tr
     (set_if (truthy (py_str org_id)) ''encrypted_key'' (py_str org_id)
        [(''authorization'', py_str auth_token)])
     error_value
     (get_pathway_chat_history tr auth_token chat_id org_id)"
  by (simp add: get_pathway_chat_history_def Let_def split: option.split)

lemma promote_pathway_version_sends:
  "sends tr
     (set_if (truthy (py_str org_id)) ''encrypted_key'' (py_str org_id)
        [(''authorization'', py_str auth_token), (''Content-Type'', PStr ''application/json'')])
     error_value
     (promote_pathway_version tr auth_token pathway_id version_id org_id)"
  by (simp add: promote_pathway_version_def Let_def split: option.split)

lemma publish_cloned_voice_sends:
  "sends tr
     (set_if (truthy (py_str org_id)) ''encrypted_key'' (py_str org_id)
        [(''authorization'', py_str auth_token), (''Content-Type'', PStr ''application/json'')])
     error_value
     (publish_cloned_voice tr auth_token name description audio_files language gender org_id)"
  by (simp add: publish_cloned_voice_def Let_def split: option.split)

lemma purchase_phone_number_sends:
  "sends tr
     (set_if (truthy (py_str org_id)) ''encrypted_key'' (py_str org_id)
        [(''authorization'', py_str auth_token), (''Content-Type'', PStr ''application/json'')])
     error_value
     (purchase_phone_number tr auth_token area_code country org_id)"
  by (simp add: purchase_phone_number_def Let_def split: option.split)

lemma send_batch_calls_sends:
  "sends tr
     (set_if (truthy (py_str org_id)) ''encrypted_key'' (py_str org_id)
        [(''authorization'', py_str auth_token), (''Content-Type'', PStr ''application/json'')])
     error_value
     (send_batch_calls tr auth_token phone_numbers pathway_id task model voice language
         temperature max_duration schedule_time retry_config metadata org_id)"
  by (simp add: send_batch_calls_def Let_def split: option.split)

lemma send_call_sends:
  "sends tr
     (set_if (truthy (py_str (o_org_id opts))) ''organization'' (py_str (o_org_id opts))
        [(''authorization'', py_str auth_token), (''Content-Type'', PStr ''application/json'')])
     error_value
     (send_call tr auth_token phone_number opts)"
  by (simp add: send_call_def Let_def split: option.split)

lemma send_call_pathway_simple_sends:
  "sends tr
     (set_if (truthy (py_str org_id)) ''organization'' (py_str org_id)
        [(''authorization'', py_str auth_token), (''Content-Type'', PStr ''application/json'')])
     error_value
     (send_call_pathway_simple tr auth_token phone_number pathway_id org_id)"
  by (simp add: send_call_pathway_simple_def Let_def split: option.split)

lemma send_call_simple_sends:
  "sends tr
     (set_if (truthy (py_str org_id)) ''organization'' (py_str org_id)
        [(''authorization'', py_str auth_token), (''Content-Type'', PStr ''application/json'')])
     error_value
     (send_call_simple tr auth_token phone_number task org_id)"
  by (simp add: send_call_simple_def Let_def split: option.split)

lemma stop_active_batch_sends:
  "sends tr
     (set_if (truthy (py_str org_id)) ''encrypted_key'' (py_str org_id)
        [(''authorization'', py_str auth_token), (''Content-Type'', PStr ''application/json'')])
     error_value
     (stop_active_batch tr auth_token batch_id stop_reason org_id)"
  by (simp add: stop_active_batch_def Let_def split: option.split)

lemma stop_active_call_sends:
  "sends tr
     [(''authorization'', py_str auth_token)]
     error_value
     (stop_active_call tr auth_token call_id)"
  by (simp add: stop_active_call_def Let_def split: option.split)

lemma stop_all_active_calls_sends:
  "sends tr
     [(''authorization'', py_str auth_token)]
     error_value
     (stop_all_active_calls tr auth_token)"
  by (simp add: stop_all_active_calls_def Let_def split: option.split)

lemma update_custom_tool_sends:
  "sends tr
     (set_if (truthy (py_str org_id)) ''encrypted_key'' (py_str org_id)
        [(''authorization'', py_str auth_token), (''Content-Type'', PStr ''application/json'')])
     error_value
     (update_custom_tool tr auth_token tool_id name description endpoint method parameters
         headers authentication response_mapping org_id)"
  by (simp add: update_custom_tool_def Let_def split: option.split)

lemma update_folder_sends:
  "sends tr
     (set_if (truthy (py_str org_id)) ''encrypted_key'' (py_str org_id)
        [(''authorization'', py_str auth_token), (''Content-Type'', PStr ''application/json'')])
     error_value
     (update_folder tr auth_token folder_id name description org_id)"
  by (simp add: update_folder_def Let_def split: option.split)

lemma update_inbound_details_sends:
  "sends tr
     (set_if (truthy (py_str org_id)) ''encrypted_key'' (py_str org_id)
        [(''authorization'', py_str auth_token), (''Content-Type'', PStr ''application/json'')])
     error_value
     (update_inbound_details tr auth_token phone_number pathway_id task model voice language
         temperature max_duration org_id)"
  by (simp add: update_inbound_details_def Let_def split: option.split)

lemma update_pathway_sends:
  "sends tr
     (set_if (truthy (py_str org_id)) ''encrypted_key'' (py_str org_id)
        [(''authorization'', py_str auth_token), (''Content-Type'', PStr ''application/json'')])
     error_value
     (update_pathway tr auth_token pathway_id name nodes edges description metadata org_id)"
  by (simp add: update_pathway_def Let_def split: option.split)

lemma update_web_agent_sends:
  "sends tr
     (set_if (truthy (py_str org_id)) ''encrypted_key'' (py_str org_id)
        [(''authorization'', py_str auth_token), (''Content-Type'', PStr ''application/json'')])
     error_value
     (update_web_agent tr auth_token agent_id name description website_url allowed_domains
         capabilities authentication custom_headers rate_limit max_pages org_id)"
  by (simp add: update_web_agent_def Let_def split: option.split)

lemma upload_inbound_numbers_sends:
  "sends tr
     (set_if (truthy (py_str org_id)) ''encrypted_key'' (py_str org_id)
        [(''authorization'', py_str auth_token), (''Content-Type'', PStr ''application/json'')])
     error_value
     (upload_inbound_numbers tr auth_token phone_numbers pathway_id task model voice language
         temperature max_duration org_id)"
  by (simp add: upload_inbound_numbers_def Let_def split: option.split)

text \<open>The lemmas of the 56 operations, collected.\<close>

lemmas no_auth =
  analyze_batch_no_auth analyze_call_no_auth authorize_web_agent_no_auth
  get_call_details_no_auth create_custom_tool_no_auth create_encrypted_key_no_auth
  create_folder_no_auth create_pathway_no_auth create_pathway_chat_no_auth
  create_pathway_version_no_auth create_web_agent_no_auth delete_custom_tool_no_auth
  delete_encrypted_key_no_auth delete_folder_no_auth delete_inbound_number_no_auth
  delete_pathway_no_auth delete_pathway_version_no_auth delete_web_agent_no_auth
  generate_audio_sample_no_auth get_all_folders_no_auth get_all_pathways_no_auth
  get_batch_analysis_no_auth get_batch_details_no_auth get_custom_tool_details_no_auth
  get_folder_pathways_no_auth get_inbound_details_no_auth get_pathway_info_no_auth
  get_pathway_version_no_auth get_pathway_versions_no_auth get_voice_details_no_auth
  list_batches_no_auth list_calls_no_auth list_custom_tools_no_auth
  list_inbound_numbers_no_auth list_outbound_numbers_no_auth list_voices_no_auth
  list_web_agents_no_auth move_pathway_no_auth send_pathway_chat_message_no_auth
  get_pathway_chat_history_no_auth promote_pathway_version_no_auth
  publish_cloned_voice_no_auth purchase_phone_number_no_auth send_batch_calls_no_auth
  send_call_no_auth send_call_pathway_simple_no_auth send_call_simple_no_auth
  stop_active_batch_no_auth stop_active_call_no_auth stop_all_active_calls_no_auth
  update_custom_tool_no_auth update_folder_no_auth update_inbound_details_no_auth
  update_pathway_no_auth update_web_agent_no_auth upload_inbound_numbers_no_auth

lemmas failures =
  sends_failure [OF analyze_batch_sends] sends_failure [OF analyze_call_sends] sends_failure
  [OF authorize_web_agent_sends] sends_failure [OF get_call_details_sends] sends_failure
  [OF create_custom_tool_sends] sends_failure [OF create_encrypted_key_sends]
  sends_failure [OF create_folder_sends] sends_failure [OF create_pathway_sends]
  sends_failure [OF create_pathway_chat_sends] sends_failure [OF
  create_pathway_version_sends] sends_failure [OF create_web_agent_sends] sends_failure
  [OF delete_custom_tool_sends] sends_failure [OF delete_encrypted_key_sends]
  sends_failure [OF delete_folder_sends] sends_failure [OF delete_inbound_number_sends]
  sends_failure [OF delete_pathway_sends] sends_failure [OF
  delete_pathway_version_sends] sends_failure [OF delete_web_agent_sends] sends_failure
  [OF generate_audio_sample_sends] sends_failure [OF get_all_folders_sends]
  sends_failure [OF get_all_pathways_sends] sends_failure [OF get_batch_analysis_sends]
  sends_failure [OF get_batch_details_sends] sends_failure [OF
  get_custom_tool_details_sends] sends_failure [OF get_folder_pathways_sends]
  sends_failure [OF get_inbound_details_sends] sends_failure [OF get_pathway_info_sends]
  sends_failure [OF get_pathway_version_sends] sends_failure [OF
  get_pathway_versions_sends] sends_failure [OF get_voice_details_sends] sends_failure
  [OF list_batches_sends] sends_failure [OF list_calls_sends] sends_failure [OF
  list_custom_tools_sends] sends_failure [OF list_inbound_numbers_sends] sends_failure
  [OF list_outbound_numbers_sends] sends_failure [OF list_voices_sends] sends_failure
  [OF list_web_agents_sends] sends_failure [OF move_pathway_sends] sends_failure [OF
  send_pathway_chat_message_sends] sends_failure [OF get_pathway_chat_history_sends]
  sends_failure [OF promote_pathway_version_sends] sends_failure [OF
  publish_cloned_voice_sends] sends_failure [OF purchase_phone_number_sends]
  sends_failure [OF send_batch_calls_sends] sends_failure [OF send_call_sends]
  sends_failure [OF send_call_pathway_simple_sends] sends_failure [OF
  send_call_simple_sends] sends_failure [OF stop_active_batch_sends] sends_failure [OF
  stop_active_call_sends] sends_failure [OF stop_all_active_calls_sends] sends_failure
  [OF update_custom_tool_sends] sends_failure [OF update_folder_sends] sends_failure [OF
  update_inbound_details_sends] sends_failure [OF update_pathway_sends] sends_failure
  [OF update_web_agent_sends] sends_failure [OF upload_inbound_numbers_sends]

lemmas sent_headers =
  sends_headers [OF analyze_batch_sends] sends_headers [OF analyze_call_sends] sends_headers
  [OF authorize_web_agent_sends] sends_headers [OF get_call_details_sends] sends_headers
  [OF create_custom_tool_sends] sends_headers [OF create_encrypted_key_sends]
  sends_headers [OF create_folder_sends] sends_headers [OF create_pathway_sends]
  sends_headers [OF create_pathway_chat_sends] sends_headers [OF
  create_pathway_version_sends] sends_headers [OF create_web_agent_sends] sends_headers
  [OF delete_custom_tool_sends] sends_headers [OF delete_encrypted_key_sends]
  sends_headers [OF delete_folder_sends] sends_headers [OF delete_inbound_number_sends]
  sends_headers [OF delete_pathway_sends] sends_headers [OF
  delete_pathway_version_sends] sends_headers [OF delete_web_agent_sends] sends_headers
  [OF generate_audio_sample_sends] sends_headers [OF get_all_folders_sends]
  sends_headers [OF get_all_pathways_sends] sends_headers [OF get_batch_analysis_sends]
  sends_headers [OF get_batch_details_sends] sends_headers [OF
  get_custom_tool_details_sends] sends_headers [OF get_folder_pathways_sends]
  sends_headers [OF get_inbound_details_sends] sends_headers [OF get_pathway_info_sends]
  sends_headers [OF get_pathway_version_sends] sends_headers [OF
  get_pathway_versions_sends] sends_headers [OF get_voice_details_sends] sends_headers
  [OF list_batches_sends] sends_headers [OF list_calls_sends] sends_headers [OF
  list_custom_tools_sends] sends_headers [OF list_inbound_numbers_sends] sends_headers
  [OF list_outbound_numbers_sends] sends_headers [OF list_voices_sends] sends_headers
  [OF list_web_agents_sends] sends_headers [OF move_pathway_sends] sends_headers [OF
  send_pathway_chat_message_sends] sends_headers [OF get_pathway_chat_history_sends]
  sends_headers [OF promote_pathway_version_sends] sends_headers [OF
  publish_cloned_voice_sends] sends_headers [OF purchase_phone_number_sends]
  sends_headers [OF send_batch_calls_sends] sends_headers [OF send_call_sends]
  sends_headers [OF send_call_pathway_simple_sends] sends_headers [OF
  send_call_simple_sends] sends_headers [OF stop_active_batch_sends] sends_headers [OF
  stop_active_call_sends] sends_headers [OF stop_all_active_calls_sends] sends_headers
  [OF update_custom_tool_sends] sends_headers [OF update_folder_sends] sends_headers [OF
  update_inbound_details_sends] sends_headers [OF update_pathway_sends] sends_headers
  [OF update_web_agent_sends] sends_headers [OF upload_inbound_numbers_sends]

lemmas run_defs =
  py_str_def py_int_def py_float_def py_bool_def py_strs_def raise_def perform_def
  try_request_def error_value_def set_if_def dict_update_def Let_def raising_def
  responding_def startswith_plus_def isdigit_def is_digit_def str_format_def
  format_value_def API_BASE_URL_def API_VERSION_def

text \<open>The phone numbers of the examples, cleaned and matched.\<close>

lemma clean_phone_examples:
  "clean_phone ''+12025550101'' = ''+12025550101''"
  "clean_phone ''12025550101'' = ''12025550101''"
  "clean_phone ''+1202555010'' = ''+1202555010''"
  "clean_phone ''+1202555010111111'' = ''+1202555010111111''"
  "clean_phone ''+120255501'' = ''+120255501''"
  "clean_phone ''+1 (202) 555-0101'' = ''+12025550101''"
  by (simp_all add: clean_phone_def is_digit_def)

lemma match_phone_examples:
  "match_phone ''+12025550101''"
  "match_phone ''12025550101''"
  "match_phone ''+1202555010''"
  "\<not> match_phone ''+1202555010111111''"
  "\<not> match_phone ''+120255501''"
  by (simp_all add: match_phone_def is_digit_def)

lemmas phone_examples = clean_phone_examples match_phone_examples

section \<open>Claims about every operation\<close>

subsection \<open>C2: a missing auth token\<close>

text \<open>
  C2. For every operation, a call with an empty or missing auth token (\<open>""\<close> or \<open>None\<close>)
  raises \<open>ValueError("Missing authorization header")\<close>. The conclusion does not depend on
  any other argument, so the check comes before every other validation, and the list of
  requests handed to the transport is empty: there is no network I/O.
\<close>

theorem missing_auth_first:
  assumes "invocation name auth_token org_id call"
    and "auth_token = None \<or> auth_token = Some ''''"
  shows "call tr = (Raised (ValueError ''Missing authorization header''), [])"
proof -
  from assms(2) have "\<not> truthy (py_str auth_token)"
    by (auto simp add: py_str_def)
  with assms(1) have "call tr = raise (ValueError ERROR_MISSING_AUTH)"
    by (cases rule: invocation.cases) (simp_all add: no_auth)
  then show ?thesis
    by (simp add: raise_def ERROR_MISSING_AUTH_def)
qed

theorem missing_auth_first_witness:
  "invocation ''send_call'' (Some '''') (o_org_id send_call_defaults)
     (\<lambda>tr. send_call tr (Some '''') None send_call_defaults) \<and>
   send_call (responding PNone) (Some '''') None send_call_defaults =
     (Raised (ValueError ''Missing authorization header''), [])"
proof -
  have i: "invocation ''send_call'' (Some '''') (o_org_id send_call_defaults)
     (\<lambda>tr. send_call tr (Some '''') None send_call_defaults)"
    by (rule invocation.send_call)
  from missing_auth_first [OF i, of "responding PNone"] i show ?thesis
    by simp
qed

subsection \<open>C1: a request exception of the transport\<close>

text \<open>
  C1, as the code has it. For every operation, if the transport raises a request exception
  \<open>e\<close> on the request that the operation sends, the operation does not raise: it returns a
  dictionary that starts with \<open>"status": "error"\<close> and \<open>"message": str(e)\<close>. The
  message is the text of the exception, whatever it is. \<open>list_custom_tools\<close> adds the keys
  \<open>tools\<close>, \<open>total\<close>, \<open>page\<close> and \<open>total_pages\<close>; every other operation returns these
  two keys only.
\<close>

theorem transport_failure_normalized:
  assumes "invocation name auth_token org_id call"
    and "snd (call tr) = [rq]"
    and "tr rq = RequestException m"
  shows "\<exists>extra.
           fst (call tr) =
             Returned (PDict ([(''status'', PStr ''error''), (''message'', PStr m)] @ extra)) \<and>
           (if name = ''list_custom_tools''
            then map fst extra = [''tools'', ''total'', ''page'', ''total_pages'']
            else extra = [])"
  using assms
  by (cases rule: invocation.cases) (auto simp add: error_value_def dest!: failures)

theorem transport_failure_normalized_witness:
  "snd (get_pathway_info (raising ''timeout'') (Some ''k'') (Some ''p1'') None) =
     [\<lparr>req_method = GET, req_url = ''https://api.bland.ai/v1/pathways/p1'',
        req_headers = [(''authorization'', PStr ''k'')], req_json = None,
        req_params = None\<rparr>] \<and>
   fst (get_pathway_info (raising ''timeout'') (Some ''k'') (Some ''p1'') None) =
     Returned (PDict [(''status'', PStr ''error''), (''message'', PStr ''timeout'')])"
proof -
  let ?rq = "\<lparr>req_method = GET, req_url = ''https://api.bland.ai/v1/pathways/p1'',
        req_headers = [(''authorization'', PStr ''k'')], req_json = None,
        req_params = None\<rparr>"
  have s: "snd (get_pathway_info (raising ''timeout'') (Some ''k'') (Some ''p1'') None) = [?rq]"
    by (simp add: get_pathway_info_def run_defs ERROR_MISSING_AUTH_def
        PATHWAY_DETAILS_ENDPOINT_def PATHWAYS_ENDPOINT_def)
  have e: "raising ''timeout'' ?rq = RequestException ''timeout''"
    by (simp add: raising_def)
  from transport_failure_normalized [OF invocation.get_pathway_info s e] s show ?thesis
    by simp
qed

text \<open>
  C1 as stated fails in two places. \<open>list_custom_tools\<close> returns six keys, not the
  two-key value; and where the exception has no text (\<open>str(e) == ""\<close>, as for
  \<open>requests.exceptions.ConnectionError()\<close>), the message is the empty string.
\<close>

theorem transport_failure_counterexample:
  "fst (list_custom_tools (raising ''timeout'') (Some ''k'') (Some 1) (Some 10) None) =
     Returned (PDict [(''status'', PStr ''error''), (''message'', PStr ''timeout''),
                      (''tools'', PList []), (''total'', PInt 0), (''page'', PInt 1),
                      (''total_pages'', PInt 0)]) \<and>
   fst (send_call_simple (raising '''') (Some ''k'') (Some ''+12025550101'') (Some ''hi'') None) =
     Returned (PDict [(''status'', PStr ''error''), (''message'', PStr '''')])"
  by (simp add: list_custom_tools_def send_call_simple_def run_defs phone_examples
      LIST_CUSTOM_TOOLS_ENDPOINT_def CUSTOM_TOOLS_ENDPOINT_def CALLS_ENDPOINT_def)

subsection \<open>C8: the organization header\<close>

text \<open>
  C8, as the code has it. Whenever a non-empty organization id is supplied, the request
  has exactly one header besides \<open>authorization\<close> and \<open>Content-Type\<close>, and it carries that
  id; with no organization id (\<open>None\<close>, the empty string, or an operation without the
  parameter) there is no such header. The header is \<open>organization\<close> for \<open>send_call\<close>,
  \<open>send_call_simple\<close> and \<open>send_call_pathway_simple\<close>, and \<open>encrypted_key\<close> for every
  other operation, \<open>send_batch_calls\<close> among them.
\<close>

theorem org_header:
  assumes "invocation name auth_token org_id call"
    and "snd (call tr) = [rq]"
  shows "filter (\<lambda>(k, v). k \<noteq> ''authorization'' \<and> k \<noteq> ''Content-Type'') (req_headers rq) =
           (case org_id of
              None \<Rightarrow> []
            | Some org \<Rightarrow>
                if org = [] then []
                else [(if name \<in> {''send_call'', ''send_call_simple'', ''send_call_pathway_simple''}
                       then ''organization'' else ''encrypted_key'', PStr org)])"
  using assms
  by (cases rule: invocation.cases)
     (auto simp add: set_if_def py_str_def dest!: sent_headers split: option.split)

theorem org_header_witness:
  "snd (create_pathway (responding PNone) (Some ''k'') (Some ''n'') (PList [PDict []])
          (PList [PDict []]) None PNone (Some ''org1'')) =
     [\<lparr>req_method = POST, req_url = ''https://api.bland.ai/v1/pathways'',
        req_headers = [(''authorization'', PStr ''k''),
                       (''Content-Type'', PStr ''application/json''),
                       (''encrypted_key'', PStr ''org1'')],
        req_json = Some [(''name'', PStr ''n''), (''nodes'', PList [PDict []]),
                         (''edges'', PList [PDict []])],
        req_params = None\<rparr>] \<and>
   filter (\<lambda>(k, v). k \<noteq> ''authorization'' \<and> k \<noteq> ''Content-Type'')
     [(''authorization'', PStr ''k''), (''Content-Type'', PStr ''application/json''),
      (''encrypted_key'', PStr ''org1'')] =
     [(''encrypted_key'', PStr ''org1'')]"
proof -
  let ?rq = "\<lparr>req_method = POST, req_url = ''https://api.bland.ai/v1/pathways'',
        req_headers = [(''authorization'', PStr ''k''),
                       (''Content-Type'', PStr ''application/json''),
                       (''encrypted_key'', PStr ''org1'')],
        req_json = Some [(''name'', PStr ''n''), (''nodes'', PList [PDict []]),
                         (''edges'', PList [PDict []])],
        req_params = None\<rparr>"
  have s: "snd (create_pathway (responding PNone) (Some ''k'') (Some ''n'') (PList [PDict []])
          (PList [PDict []]) None PNone (Some ''org1'')) = [?rq]"
    by (simp add: create_pathway_def run_defs CREATE_PATHWAY_ENDPOINT_def PATHWAYS_ENDPOINT_def)
  from org_header [OF invocation.create_pathway s] s show ?thesis
    by simp
qed

text \<open>
  C8 as stated says that the call-sending operations use another header name than the
  other operations. \<open>send_batch_calls\<close> sends calls, and it uses \<open>encrypted_key\<close>, the
  name that \<open>create_pathway\<close> uses.
\<close>

theorem org_header_counterexample:
  "snd (send_batch_calls (responding PNone) (Some ''k'') (Some [''+12025550101'']) None
          (Some ''hi'') None None None None None None PNone PNone (Some ''org1'')) =
     [\<lparr>req_method = POST, req_url = ''https://api.bland.ai/v1/calls/batch'',
        req_headers = [(''authorization'', PStr ''k''),
                       (''Content-Type'', PStr ''application/json''),
                       (''encrypted_key'', PStr ''org1'')],
        req_json = Some [(''phone_numbers'', PList [PStr ''+12025550101'']),
                         (''task'', PStr ''hi'')],
        req_params = None\<rparr>] \<and>
   snd (create_pathway (responding PNone) (Some ''k'') (Some ''n'') (PList [PDict []])
          (PList [PDict []]) None PNone (Some ''org1'')) =
     [\<lparr>req_method = POST, req_url = ''https://api.bland.ai/v1/pathways'',
        req_headers = [(''authorization'', PStr ''k''),
                       (''Content-Type'', PStr ''application/json''),
                       (''encrypted_key'', PStr ''org1'')],
        req_json = Some [(''name'', PStr ''n''), (''nodes'', PList [PDict []]),
                         (''edges'', PList [PDict []])],
        req_params = None\<rparr>]"
  by (simp add: send_batch_calls_def create_pathway_def run_defs BATCH_CALLS_ENDPOINT_def
      CREATE_PATHWAY_ENDPOINT_def PATHWAYS_ENDPOINT_def)

section \<open>Dictionaries and requests\<close>

lemma snd_perform:
  "snd (perform tr m (Some u) h j p) =
     [\<lparr>req_method = m, req_url = u, req_headers = h, req_json = j, req_params = p\<rparr>]"
  by (simp add: perform_def snd_try_request)

lemma map_of_set_if:
  "map_of (set_if c k v d) k' = (if c \<and> k = k' then Some v else map_of d k')"
  by (simp add: set_if_def update_conv')

lemma map_of_dict_update:
  "map_of (dict_update d items) k =
     (case map_of (rev items) k of None \<Rightarrow> map_of d k | Some v \<Rightarrow> Some v)"
proof (induction items arbitrary: d)
  case Nil
  then show ?case by (simp add: dict_update_def)
next
  case (Cons x xs)
  have step: "dict_update d (x # xs) = dict_update (AList.update (fst x) (snd x) d) xs"
    by (simp add: dict_update_def case_prod_beta)
  show ?case
    unfolding step Cons.IH
    by (cases x) (auto simp add: update_conv' map_add_def split: option.split)
qed

lemma map_of_rev_distinct:
  "distinct (map fst xs) \<Longrightarrow> map_of (rev xs) k = map_of xs k"
proof (induction xs)
  case Nil
  then show ?case by simp
next
  case (Cons x xs)
  then have "fst x \<notin> fst ` set xs" by simp
  then have none: "map_of xs (fst x) = None"
    by (simp add: map_of_eq_None_iff)
  from Cons have ih: "map_of (rev xs) k = map_of xs k" by simp
  from none show ?case
    by (cases x) (auto simp add: map_add_def ih split: option.split)
qed

lemma map_of_filter_distinct:
  "distinct (map fst xs) \<Longrightarrow>
   map_of (filter P xs) k =
     (case map_of xs k of None \<Rightarrow> None | Some v \<Rightarrow> if P (k, v) then Some v else None)"
proof (induction xs)
  case Nil
  then show ?case by simp
next
  case (Cons x xs)
  then have "fst x \<notin> fst ` set xs" by simp
  then have none: "map_of xs (fst x) = None"
    by (simp add: map_of_eq_None_iff)
  from Cons none show ?case
    by (cases x) (auto split: option.split)
qed

lemma distinct_map_fst_filter:
  "distinct (map fst xs) \<Longrightarrow> distinct (map fst (filter P xs))"
  by (induction xs) auto

text \<open>
  \<open>d.update({k: v for k, v in items if P}\<close> for \<open>items\<close> with distinct keys: a key of
  \<open>items\<close> whose entry passes the filter gets the entry's value, every other key keeps
  what \<open>d\<close> has.
\<close>

lemma map_of_update_filter:
  assumes "distinct (map fst items)"
  shows "map_of (dict_update d (filter P items)) k =
           (case map_of items k of
              None \<Rightarrow> map_of d k
            | Some v \<Rightarrow> if P (k, v) then Some v else map_of d k)"
proof -
  from assms have "distinct (map fst (filter P items))"
    by (rule distinct_map_fst_filter)
  then have "map_of (rev (filter P items)) k = map_of (filter P items) k"
    by (rule map_of_rev_distinct)
  with assms show ?thesis
    by (simp add: map_of_dict_update map_of_filter_distinct split: option.split)
qed

lemma distinct_optional_params: "distinct (map fst (optional_params opts))"
  by (simp add: optional_params_def)

section \<open>What \<open>send_call\<close> and \<open>send_call_simple\<close> do with valid arguments\<close>

lemma send_call_simple_phone:
  assumes "truthy (py_str auth_token)" and "truthy (py_str task)" and "p \<noteq> []"
  shows "send_call_simple tr auth_token (Some p) task org_id =
           (if match_phone (clean_phone p)
            then perform tr POST (Some CALLS_ENDPOINT)
                   (set_if (truthy (py_str org_id)) ''organization'' (py_str org_id)
                      [(''authorization'', py_str auth_token),
                       (''Content-Type'', PStr ''application/json'')])
                   (Some [(''phone_number'', PStr (clean_phone p)), (''task'', py_str task)])
                   None
            else raise (ValueError ERROR_INVALID_PHONE))"
proof -
  have ph: "truthy (py_str (Some p))"
    using assms(3) by (simp add: py_str_def)
  show ?thesis
    using assms(1,2) ph by (simp add: send_call_simple_def Let_def)
qed

lemma send_call_phone:
  assumes "truthy (py_str auth_token)" and "p \<noteq> []"
    and "truthy (py_str (o_task opts)) \<or> truthy (py_str (o_pathway_id opts))"
  shows "send_call tr auth_token (Some p) opts =
           (if \<not> match_phone (clean_phone p) then raise (ValueError ERROR_INVALID_PHONE)
            else if o_model opts \<notin> {''base'', ''turbo'', ''enhanced''}
              then raise (ValueError ERROR_INVALID_MODEL)
            else if o_background_track opts \<notin>
                      {None, Some '''', Some ''none'', Some ''office'', Some ''cafe'',
                       Some ''restaurant''}
              then raise (ValueError
                ''Invalid background track. Must be one of: none, office, cafe, restaurant'')
            else perform tr POST (Some CALLS_ENDPOINT)
                   (set_if (truthy (py_str (o_org_id opts))) ''organization''
                      (py_str (o_org_id opts))
                      [(''authorization'', py_str auth_token),
                       (''Content-Type'', PStr ''application/json'')])
                   (Some (dict_update [(''phone_number'', PStr (clean_phone p))]
                      (filter (\<lambda>(k, v). v \<noteq> PNone) (optional_params opts))))
                   None)"
proof -
  have bt: "(truthy (py_str (o_background_track opts)) \<and>
             py_str (o_background_track opts) \<notin> set (map (PStr \<circ> fst) BACKGROUND_TRACKS)) \<longleftrightarrow>
            o_background_track opts \<notin>
              {None, Some '''', Some ''none'', Some ''office'', Some ''cafe'', Some ''restaurant''}"
    by (cases "o_background_track opts") (auto simp add: py_str_def BACKGROUND_TRACKS_def)
  have msg: "''Invalid background track. Must be one of: '' @ join '', '' (map fst BACKGROUND_TRACKS)
             = ''Invalid background track. Must be one of: none, office, cafe, restaurant''"
    by (simp add: BACKGROUND_TRACKS_def)
  have ph: "truthy (py_str (Some p))"
    using assms(2) by (simp add: py_str_def)
  from assms(3) show ?thesis
  proof
    assume "truthy (py_str (o_task opts))"
    with assms(1) ph show ?thesis
      unfolding send_call_def bt msg by (simp add: Let_def)
  next
    assume "truthy (py_str (o_pathway_id opts))"
    with assms(1) ph show ?thesis
      unfolding send_call_def bt msg by (simp add: Let_def)
  qed
qed

lemma send_call_valid:
  assumes "truthy (py_str auth_token)" and "p \<noteq> []"
    and "truthy (py_str (o_task opts)) \<or> truthy (py_str (o_pathway_id opts))"
    and "match_phone (clean_phone p)"
    and "o_model opts \<in> {''base'', ''turbo'', ''enhanced''}"
    and "o_background_track opts \<in>
           {None, Some '''', Some ''none'', Some ''office'', Some ''cafe'', Some ''restaurant''}"
  shows "send_call tr auth_token (Some p) opts =
           perform tr POST (Some CALLS_ENDPOINT)
             (set_if (truthy (py_str (o_org_id opts))) ''organization''
                (py_str (o_org_id opts))
                [(''authorization'', py_str auth_token),
                 (''Content-Type'', PStr ''application/json'')])
             (Some (dict_update [(''phone_number'', PStr (clean_phone p))]
                (filter (\<lambda>(k, v). v \<noteq> PNone) (optional_params opts))))
             None"
  unfolding send_call_phone [OF assms(1-3)]
  by (simp only: assms(4-6) not_True_eq_False if_False)

lemma send_call_body:
  "map_of (dict_update [(''phone_number'', phone)]
             (filter (\<lambda>(k, v). v \<noteq> PNone) (optional_params opts))) k =
     (case map_of (optional_params opts) k of
        None \<Rightarrow> map_of [(''phone_number'', phone)] k
      | Some v \<Rightarrow> if v \<noteq> PNone then Some v else map_of [(''phone_number'', phone)] k)"
  by (simp add: map_of_update_filter [OF distinct_optional_params] split: option.split)

section \<open>Claims about single operations\<close>

subsection \<open>C3: phone numbers in \<open>send_call\<close> and \<open>send_call_simple\<close>\<close>

text \<open>
  C3, as the code has it. With the earlier checks passed (auth token and task present; for
  \<open>send_call\<close> a task or a pathway id), \<open>send_call\<close> and \<open>send_call_simple\<close> strip every
  character that is neither a digit nor \<open>+\<close> and match the rest against
  \<open>^\+?\d{10,15}$\<close>. \<open>"+12025550101"\<close> is accepted; \<open>"12025550101"\<close> is accepted as well,
  because the plus sign is optional; \<open>"+1202555010"\<close> has ten digits and is accepted;
  \<open>"+1202555010111111"\<close> (16 digits) and the nine-digit \<open>"+120255501"\<close> are rejected with
  \<open>ValueError("Invalid phone number format")\<close> before any request is sent. An accepted
  number is the \<open>phone_number\<close> of the request body (for \<open>send_call\<close> the model and the
  background track must be valid too).
\<close>

theorem phone_number_validation:
  assumes "truthy (py_str auth_token)"
    and "truthy (py_str task)"
    and "truthy (py_str (o_task opts)) \<or> truthy (py_str (o_pathway_id opts))"
    and "o_model opts \<in> {''base'', ''turbo'', ''enhanced''}"
    and "o_background_track opts \<in>
           {None, Some '''', Some ''none'', Some ''office'', Some ''cafe'', Some ''restaurant''}"
  shows "(p \<in> {''+12025550101'', ''12025550101'', ''+1202555010''} \<longrightarrow>
            (\<exists>rq body. snd (send_call_simple tr auth_token (Some p) task org_id) = [rq] \<and>
               req_json rq = Some body \<and> map_of body ''phone_number'' = Some (PStr p)) \<and>
            (\<exists>rq body. snd (send_call tr auth_token (Some p) opts) = [rq] \<and>
               req_json rq = Some body \<and> map_of body ''phone_number'' = Some (PStr p))) \<and>
         (p \<in> {''+1202555010111111'', ''+120255501''} \<longrightarrow>
            send_call_simple tr auth_token (Some p) task org_id =
              (Raised (ValueError ''Invalid phone number format''), []) \<and>
            send_call tr auth_token (Some p) opts =
              (Raised (ValueError ''Invalid phone number format''), []))"
proof (intro conjI impI)
  assume p: "p \<in> {''+12025550101'', ''12025550101'', ''+1202555010''}"
  then have ok: "p \<noteq> []" "clean_phone p = p" "match_phone p"
    by (auto simp add: phone_examples)
  have simple: "send_call_simple tr auth_token (Some p) task org_id =
      perform tr POST (Some CALLS_ENDPOINT)
        (set_if (truthy (py_str org_id)) ''organization'' (py_str org_id)
           [(''authorization'', py_str auth_token), (''Content-Type'', PStr ''application/json'')])
        (Some [(''phone_number'', PStr p), (''task'', py_str task)]) None"
    using send_call_simple_phone [OF assms(1,2) ok(1)] ok by simp
  show "\<exists>rq body. snd (send_call_simple tr auth_token (Some p) task org_id) = [rq] \<and>
          req_json rq = Some body \<and> map_of body ''phone_number'' = Some (PStr p)"
    unfolding simple snd_perform by simp
  have full: "send_call tr auth_token (Some p) opts =
      perform tr POST (Some CALLS_ENDPOINT)
        (set_if (truthy (py_str (o_org_id opts))) ''organization'' (py_str (o_org_id opts))
           [(''authorization'', py_str auth_token), (''Content-Type'', PStr ''application/json'')])
        (Some (dict_update [(''phone_number'', PStr p)]
           (filter (\<lambda>(k, v). v \<noteq> PNone) (optional_params opts)))) None"
    using send_call_valid [OF assms(1) ok(1) assms(3) _ assms(4,5)] ok by simp
  have "map_of (optional_params opts) ''phone_number'' = None"
    by (simp add: optional_params_def)
  then have "map_of (dict_update [(''phone_number'', PStr p)]
               (filter (\<lambda>(k, v). v \<noteq> PNone) (optional_params opts))) ''phone_number'' =
             Some (PStr p)"
    by (simp add: send_call_body)
  then show "\<exists>rq body. snd (send_call tr auth_token (Some p) opts) = [rq] \<and>
          req_json rq = Some body \<and> map_of body ''phone_number'' = Some (PStr p)"
    unfolding full snd_perform by simp
next
  assume p: "p \<in> {''+1202555010111111'', ''+120255501''}"
  then have bad: "p \<noteq> []" "\<not> match_phone (clean_phone p)"
    by (auto simp add: phone_examples)
  show "send_call_simple tr auth_token (Some p) task org_id =
          (Raised (ValueError ''Invalid phone number format''), [])"
    using send_call_simple_phone [OF assms(1,2) bad(1)] bad(2)
    by (simp add: raise_def ERROR_INVALID_PHONE_def)
  show "send_call tr auth_token (Some p) opts =
          (Raised (ValueError ''Invalid phone number format''), [])"
    using send_call_phone [OF assms(1) bad(1) assms(3)] bad(2)
    by (simp add: raise_def ERROR_INVALID_PHONE_def)
qed

theorem phone_number_validation_witness:
  "truthy (py_str (Some ''k'')) \<and> truthy (py_str (Some ''hi'')) \<and>
   truthy (py_str (o_task (send_call_defaults\<lparr>o_task := Some ''hi''\<rparr>))) \<and>
   o_model (send_call_defaults\<lparr>o_task := Some ''hi''\<rparr>) = ''enhanced'' \<and>
   o_background_track (send_call_defaults\<lparr>o_task := Some ''hi''\<rparr>) = None \<and>
   (\<exists>rq body.
      snd (send_call (responding PNone) (Some ''k'') (Some ''12025550101'')
             (send_call_defaults\<lparr>o_task := Some ''hi''\<rparr>)) = [rq] \<and>
      req_json rq = Some body \<and> map_of body ''phone_number'' = Some (PStr ''12025550101''))"
proof -
  let ?opts = "send_call_defaults\<lparr>o_task := Some ''hi''\<rparr>"
  have a: "truthy (py_str (Some ''k''))" and t: "truthy (py_str (Some ''hi''))"
    by (simp_all add: py_str_def)
  have o: "truthy (py_str (o_task ?opts)) \<or> truthy (py_str (o_pathway_id ?opts))"
    by (simp add: py_str_def)
  have m: "o_model ?opts \<in> {''base'', ''turbo'', ''enhanced''}"
    by (simp add: send_call_defaults_def DEFAULT_MODEL_def)
  have b: "o_background_track ?opts \<in>
      {None, Some '''', Some ''none'', Some ''office'', Some ''cafe'', Some ''restaurant''}"
    by (simp add: send_call_defaults_def)
  from phone_number_validation [OF a t o m b, of "''12025550101''" "responding PNone"] a t
  show ?thesis
    by (simp add: send_call_defaults_def DEFAULT_MODEL_def py_str_def)
qed

text \<open>
  C3 as stated says that \<open>"12025550101"\<close> and \<open>"+1202555010"\<close> are rejected. Both are
  sent; the second has ten digits, not nine.
\<close>

theorem phone_number_validation_counterexample:
  "send_call_simple (responding PNone) (Some ''k'') (Some ''12025550101'') (Some ''hi'') None =
     (Returned PNone,
      [\<lparr>req_method = POST, req_url = ''https://api.bland.ai/v1/calls'',
         req_headers = [(''authorization'', PStr ''k''),
                        (''Content-Type'', PStr ''application/json'')],
         req_json = Some [(''phone_number'', PStr ''12025550101''), (''task'', PStr ''hi'')],
         req_params = None\<rparr>]) \<and>
   send_call_simple (responding PNone) (Some ''k'') (Some ''+1202555010'') (Some ''hi'') None =
     (Returned PNone,
      [\<lparr>req_method = POST, req_url = ''https://api.bland.ai/v1/calls'',
         req_headers = [(''authorization'', PStr ''k''),
                        (''Content-Type'', PStr ''application/json'')],
         req_json = Some [(''phone_number'', PStr ''+1202555010''), (''task'', PStr ''hi'')],
         req_params = None\<rparr>]) \<and>
   length (filter is_digit ''+1202555010'') = 10"
  by (simp add: send_call_simple_def run_defs phone_examples CALLS_ENDPOINT_def)

subsection \<open>C9: the URL of \<open>get_pathway_info\<close>\<close>

text \<open>
  C9. With a non-empty auth token, \<open>get_pathway_info\<close> with \<open>pathway_id = "p1"\<close> sends one
  GET request. Its URL is the pathway-details template
  \<open>https://api.bland.ai/v1/pathways/{pathway_id}\<close> with \<open>p1\<close> in the place of
  \<open>{pathway_id}\<close>, as \<open>str.format\<close> computes it, and it contains no brace: no placeholder
  is left.
\<close>

theorem pathway_info_url:
  assumes "truthy (py_str auth_token)"
  shows "\<exists>rq. snd (get_pathway_info tr auth_token (Some ''p1'') org_id) = [rq] \<and>
           req_method rq = GET \<and>
           req_url rq = ''https://api.bland.ai/v1/pathways/p1'' \<and>
           PATHWAY_DETAILS_ENDPOINT = ''https://api.bland.ai/v1/pathways/{pathway_id}'' \<and>
           str_format PATHWAY_DETAILS_ENDPOINT [(''pathway_id'', ''p1'')] = Some (req_url rq) \<and>
           CHR ''{'' \<notin> set (req_url rq) \<and> CHR ''}'' \<notin> set (req_url rq)"
proof -
  have template: "PATHWAY_DETAILS_ENDPOINT = ''https://api.bland.ai/v1/pathways/{pathway_id}''"
    by (simp add: PATHWAY_DETAILS_ENDPOINT_def PATHWAYS_ENDPOINT_def API_BASE_URL_def
        API_VERSION_def)
  have url: "str_format PATHWAY_DETAILS_ENDPOINT [(''pathway_id'', ''p1'')] =
               Some ''https://api.bland.ai/v1/pathways/p1''"
    unfolding template by (simp add: str_format_def)
  have id: "truthy (py_str (Some ''p1''))" "format_value (Some ''p1'') = ''p1''"
    by (simp_all add: py_str_def format_value_def)
  have "get_pathway_info tr auth_token (Some ''p1'') org_id =
          perform tr GET (Some ''https://api.bland.ai/v1/pathways/p1'')
            (set_if (truthy (py_str org_id)) ''encrypted_key'' (py_str org_id)
               [(''authorization'', py_str auth_token)]) None None"
    using assms id(1) by (simp add: get_pathway_info_def Let_def id(2) url)
  then show ?thesis
    using template url by (simp add: snd_perform)
qed

theorem pathway_info_url_witness:
  "truthy (py_str (Some ''k'')) \<and>
   snd (get_pathway_info (responding PNone) (Some ''k'') (Some ''p1'') None) =
     [\<lparr>req_method = GET, req_url = ''https://api.bland.ai/v1/pathways/p1'',
        req_headers = [(''authorization'', PStr ''k'')], req_json = None,
        req_params = None\<rparr>]"
proof -
  have a: "truthy (py_str (Some ''k''))"
    by (simp add: py_str_def)
  from pathway_info_url [OF a, of "responding PNone" None] a show ?thesis
    by (simp add: get_pathway_info_def run_defs PATHWAY_DETAILS_ENDPOINT_def
        PATHWAYS_ENDPOINT_def)
qed

subsection \<open>C5: a task or a pathway id\<close>

lemma fst_perform_not_ValueError: "fst (perform tr m url h j p) \<noteq> Raised (ValueError x)"
  by (cases url)
     (simp_all add: perform_def raise_def try_request_def split: transport_outcome.split)

text \<open>
  C5. In \<open>send_call\<close> and \<open>send_batch_calls\<close>, if neither \<open>task\<close> nor \<open>pathway_id\<close> is
  provided (each is \<open>None\<close> or empty), a \<open>ValueError\<close> is raised and nothing is sent;
  it is the error about the missing pair (\<open>Either task or pathway_id must be
  provided\<close>, in \<open>send_batch_calls\<close> with the two names in the other order) whenever the
  two earlier checks pass, that is, whenever the auth token and the phone number(s) are
  present. If at least one of the two is provided, that error is never raised, whatever
  the other arguments are.
\<close>

theorem task_or_pathway_required:
  "(\<not> truthy (py_str (o_task opts)) \<and> \<not> truthy (py_str (o_pathway_id opts)) \<longrightarrow>
      (\<exists>m. send_call tr auth_token phone_number opts = (Raised (ValueError m), [])) \<and>
      (truthy (py_str auth_token) \<and> truthy (py_str phone_number) \<longrightarrow>
         send_call tr auth_token phone_number opts =
           (Raised (ValueError ''Either task or pathway_id must be provided''), []))) \<and>
   (\<not> truthy (py_str pathway_id) \<and> \<not> truthy (py_str task) \<longrightarrow>
      (\<exists>m. send_batch_calls tr auth_token phone_numbers pathway_id task model voice language
              temperature max_duration schedule_time retry_config metadata org_id =
            (Raised (ValueError m), [])) \<and>
      (truthy (py_str auth_token) \<and> truthy (py_strs phone_numbers) \<longrightarrow>
         send_batch_calls tr auth_token phone_numbers pathway_id task model voice language
           temperature max_duration schedule_time retry_config metadata org_id =
           (Raised (ValueError ''Either pathway_id or task must be provided''), []))) \<and>
   (truthy (py_str (o_task opts)) \<or> truthy (py_str (o_pathway_id opts)) \<longrightarrow>
      fst (send_call tr auth_token phone_number opts) \<noteq>
        Raised (ValueError ''Either task or pathway_id must be provided'')) \<and>
   (truthy (py_str pathway_id) \<or> truthy (py_str task) \<longrightarrow>
      fst (send_batch_calls tr auth_token phone_numbers pathway_id task model voice language
             temperature max_duration schedule_time retry_config metadata org_id) \<noteq>
        Raised (ValueError ''Either pathway_id or task must be provided''))"
proof (intro conjI impI)
  assume "\<not> truthy (py_str (o_task opts)) \<and> \<not> truthy (py_str (o_pathway_id opts))"
  then show "\<exists>m. send_call tr auth_token phone_number opts = (Raised (ValueError m), [])"
    by (simp add: send_call_def raise_def)
next
  assume "\<not> truthy (py_str (o_task opts)) \<and> \<not> truthy (py_str (o_pathway_id opts))"
    and "truthy (py_str auth_token) \<and> truthy (py_str phone_number)"
  then show "send_call tr auth_token phone_number opts =
      (Raised (ValueError ''Either task or pathway_id must be provided''), [])"
    by (simp add: send_call_def raise_def)
next
  assume "\<not> truthy (py_str pathway_id) \<and> \<not> truthy (py_str task)"
  then show "\<exists>m. send_batch_calls tr auth_token phone_numbers pathway_id task model voice
      language temperature max_duration schedule_time retry_config metadata org_id =
      (Raised (ValueError m), [])"
    by (simp add: send_batch_calls_def raise_def)
next
  assume "\<not> truthy (py_str pathway_id) \<and> \<not> truthy (py_str task)"
    and "truthy (py_str auth_token) \<and> truthy (py_strs phone_numbers)"
  then show "send_batch_calls tr auth_token phone_numbers pathway_id task model voice
      language temperature max_duration schedule_time retry_config metadata org_id =
      (Raised (ValueError ''Either pathway_id or task must be provided''), [])"
    by (simp add: send_batch_calls_def raise_def)
next
  assume "truthy (py_str (o_task opts)) \<or> truthy (py_str (o_pathway_id opts))"
  then have one: "(\<not> truthy (py_str (o_task opts)) \<and> \<not> truthy (py_str (o_pathway_id opts))) = False"
    by blast
  show "fst (send_call tr auth_token phone_number opts) \<noteq>
      Raised (ValueError ''Either task or pathway_id must be provided'')"
    unfolding send_call_def one
    by (simp add: raise_def Let_def fst_perform_not_ValueError ERROR_MISSING_AUTH_def
        ERROR_MISSING_PHONE_def ERROR_INVALID_PHONE_def ERROR_INVALID_MODEL_def
        split: option.split)
next
  assume "truthy (py_str pathway_id) \<or> truthy (py_str task)"
  then have one: "(\<not> truthy (py_str pathway_id) \<and> \<not> truthy (py_str task)) = False"
    by blast
  show "fst (send_batch_calls tr auth_token phone_numbers pathway_id task model voice language
      temperature max_duration schedule_time retry_config metadata org_id) \<noteq>
      Raised (ValueError ''Either pathway_id or task must be provided'')"
    unfolding send_batch_calls_def one
    by (simp add: raise_def Let_def fst_perform_not_ValueError ERROR_MISSING_AUTH_def
        ERROR_MISSING_PHONE_def ERROR_INVALID_PHONE_def split: option.split)
qed

theorem task_or_pathway_required_witness:
  "\<not> truthy (py_str (o_task send_call_defaults)) \<and>
   \<not> truthy (py_str (o_pathway_id send_call_defaults)) \<and>
   truthy (py_str (Some ''k'')) \<and> truthy (py_str (Some ''+12025550101'')) \<and>
   truthy (py_strs (Some [''+12025550101''])) \<and>
   send_call (responding PNone) (Some ''k'') (Some ''+12025550101'') send_call_defaults =
     (Raised (ValueError ''Either task or pathway_id must be provided''), []) \<and>
   send_batch_calls (responding PNone) (Some ''k'') (Some [''+12025550101'']) None None
     (Some ''enhanced'') (Some ''mason'') (Some ''en-US'') (Some 0.7) (Some 30) None PNone PNone
     None =
     (Raised (ValueError ''Either pathway_id or task must be provided''), []) \<and>
   truthy (py_str (o_task (send_call_defaults\<lparr>o_task := Some ''hi''\<rparr>))) \<and>
   fst (send_call (responding PNone) (Some ''k'') (Some ''+12025550101'')
          (send_call_defaults\<lparr>o_task := Some ''hi''\<rparr>)) \<noteq>
     Raised (ValueError ''Either task or pathway_id must be provided'') \<and>
   truthy (py_str (Some ''hi'')) \<and>
   fst (send_batch_calls (responding PNone) (Some ''k'') (Some [''+12025550101'']) None
          (Some ''hi'') (Some ''enhanced'') (Some ''mason'') (Some ''en-US'') (Some 0.7)
          (Some 30) None PNone PNone None) \<noteq>
     Raised (ValueError ''Either pathway_id or task must be provided'')"
proof -
  have facts:
    "\<not> truthy (py_str (o_task send_call_defaults))"
    "\<not> truthy (py_str (o_pathway_id send_call_defaults))"
    "truthy (py_str (Some ''k''))" "truthy (py_str (Some ''+12025550101''))"
    "truthy (py_strs (Some [''+12025550101'']))"
    "truthy (py_str (o_task (send_call_defaults\<lparr>o_task := Some ''hi''\<rparr>)))"
    "truthy (py_str (Some ''hi''))" "\<not> truthy (py_str None)"
    by (simp_all add: py_str_def py_strs_def send_call_defaults_def)
  from task_or_pathway_required [of send_call_defaults "responding PNone" "Some ''k''"
      "Some ''+12025550101''" None None "Some [''+12025550101'']" "Some ''enhanced''"
      "Some ''mason''" "Some ''en-US''" "Some 0.7" "Some 30" None PNone PNone None]
    task_or_pathway_required [of "send_call_defaults\<lparr>o_task := Some ''hi''\<rparr>"
      "responding PNone" "Some ''k''" "Some ''+12025550101''" None "Some ''hi''"
      "Some [''+12025550101'']" "Some ''enhanced''" "Some ''mason''" "Some ''en-US''"
      "Some 0.7" "Some 30" None PNone PNone None]
    facts
  show ?thesis by simp
qed

subsection \<open>C6: the method of a custom tool\<close>

text \<open>
  C6. With the earlier checks passed (auth token, name, description, endpoint and
  parameters present), \<open>create_custom_tool\<close> accepts a method whose upper-cased form is
  \<open>GET\<close>, \<open>POST\<close>, \<open>PUT\<close> or \<open>DELETE\<close>, in whatever letter case it is written, and the
  request body has the upper-cased form under \<open>method\<close>. A method whose upper-cased form
  is \<open>PATCH\<close> is rejected with \<open>ValueError("Invalid method. Must be one of: GET, POST,
  PUT, DELETE")\<close> and nothing is sent.
\<close>

theorem custom_tool_method:
  assumes "truthy (py_str auth_token)" and "truthy (py_str name)"
    and "truthy (py_str description)" and "truthy (py_str endpoint)"
    and "truthy parameters"
  shows "(upper m \<in> {''GET'', ''POST'', ''PUT'', ''DELETE''} \<longrightarrow>
            (\<exists>rq body.
               snd (create_custom_tool tr auth_token name description endpoint (Some m)
                      parameters headers authentication response_mapping org_id) = [rq] \<and>
               req_method rq = POST \<and> req_json rq = Some body \<and>
               map_of body ''method'' = Some (PStr (upper m)))) \<and>
         (upper m = ''PATCH'' \<longrightarrow>
            create_custom_tool tr auth_token name description endpoint (Some m) parameters
              headers authentication response_mapping org_id =
              (Raised (ValueError ''Invalid method. Must be one of: GET, POST, PUT, DELETE''),
               []))"
proof -
  have cond:
    "(py_str (map_option upper (Some m)) \<notin> set (map PStr [''GET'', ''POST'', ''PUT'', ''DELETE'']))
       = (upper m \<notin> {''GET'', ''POST'', ''PUT'', ''DELETE''})"
    by (auto simp add: py_str_def)
  have msg: "''Invalid method. Must be one of: '' @ join '', '' [''GET'', ''POST'', ''PUT'', ''DELETE'']
               = ''Invalid method. Must be one of: GET, POST, PUT, DELETE''"
    by simp
  have form: "create_custom_tool tr auth_token name description endpoint (Some m) parameters
          headers authentication response_mapping org_id =
        (if m = [] then raise (ValueError ''Missing required parameter: method'')
         else if upper m \<notin> {''GET'', ''POST'', ''PUT'', ''DELETE''}
           then raise (ValueError ''Invalid method. Must be one of: GET, POST, PUT, DELETE'')
         else perform tr POST (Some CUSTOM_TOOLS_ENDPOINT)
          (set_if (truthy (py_str org_id)) ''encrypted_key'' (py_str org_id)
             [(''authorization'', py_str auth_token),
              (''Content-Type'', PStr ''application/json'')])
          (Some (set_if (truthy response_mapping) ''response_mapping'' response_mapping
             (set_if (truthy authentication) ''authentication'' authentication
                (set_if (truthy headers) ''headers'' headers
                   [(''name'', py_str name), (''description'', py_str description),
                    (''endpoint'', py_str endpoint), (''method'', PStr (upper m)),
                    (''parameters'', parameters)])))) None)"
    unfolding create_custom_tool_def Let_def cond msg
    using assms by (simp add: py_str_def)
  show ?thesis
  proof (intro conjI impI)
    assume ok: "upper m \<in> {''GET'', ''POST'', ''PUT'', ''DELETE''}"
    then have "upper m \<noteq> []" by auto
    then have m: "m \<noteq> []"
      by (auto simp add: upper_def)
    have "create_custom_tool tr auth_token name description endpoint (Some m) parameters
          headers authentication response_mapping org_id =
        perform tr POST (Some CUSTOM_TOOLS_ENDPOINT)
          (set_if (truthy (py_str org_id)) ''encrypted_key'' (py_str org_id)
             [(''authorization'', py_str auth_token),
              (''Content-Type'', PStr ''application/json'')])
          (Some (set_if (truthy response_mapping) ''response_mapping'' response_mapping
             (set_if (truthy authentication) ''authentication'' authentication
                (set_if (truthy headers) ''headers'' headers
                   [(''name'', py_str name), (''description'', py_str description),
                    (''endpoint'', py_str endpoint), (''method'', PStr (upper m)),
                    (''parameters'', parameters)])))) None"
      unfolding form by (simp only: m ok not_True_eq_False if_False)
    then show "\<exists>rq body.
        snd (create_custom_tool tr auth_token name description endpoint (Some m) parameters
               headers authentication response_mapping org_id) = [rq] \<and>
        req_method rq = POST \<and> req_json rq = Some body \<and>
        map_of body ''method'' = Some (PStr (upper m))"
      by (simp add: snd_perform map_of_set_if)
  next
    assume bad: "upper m = ''PATCH''"
    then have "upper m \<noteq> []" by auto
    then have m: "m \<noteq> []"
      by (auto simp add: upper_def)
    from bad have invalid: "upper m \<notin> {''GET'', ''POST'', ''PUT'', ''DELETE''}"
      by simp
    show "create_custom_tool tr auth_token name description endpoint (Some m) parameters
            headers authentication response_mapping org_id =
          (Raised (ValueError ''Invalid method. Must be one of: GET, POST, PUT, DELETE''), [])"
      unfolding form by (simp only: m invalid not_False_eq_True if_True if_False raise_def)
  qed
qed

theorem custom_tool_method_witness:
  "truthy (py_str (Some ''k'')) \<and> truthy (py_str (Some ''n'')) \<and> truthy (py_str (Some ''d'')) \<and>
   truthy (py_str (Some ''https://example.com'')) \<and> truthy (PList [PDict []]) \<and>
   upper ''pOsT'' = ''POST'' \<and> upper ''Patch'' = ''PATCH'' \<and>
   (\<exists>rq body.
      snd (create_custom_tool (responding PNone) (Some ''k'') (Some ''n'') (Some ''d'')
             (Some ''https://example.com'') (Some ''pOsT'') (PList [PDict []]) PNone PNone
             PNone None) = [rq] \<and>
      req_method rq = POST \<and> req_json rq = Some body \<and>
      map_of body ''method'' = Some (PStr ''POST'')) \<and>
   create_custom_tool (responding PNone) (Some ''k'') (Some ''n'') (Some ''d'')
     (Some ''https://example.com'') (Some ''Patch'') (PList [PDict []]) PNone PNone PNone None =
     (Raised (ValueError ''Invalid method. Must be one of: GET, POST, PUT, DELETE''), [])"
proof -
  have h: "truthy (py_str (Some ''k''))" "truthy (py_str (Some ''n''))"
    "truthy (py_str (Some ''d''))" "truthy (py_str (Some ''https://example.com''))"
    "truthy (PList [PDict []])"
    by (simp_all add: py_str_def)
  have u: "upper ''pOsT'' = ''POST''" "upper ''Patch'' = ''PATCH''"
    by (simp_all add: upper_def upper_char_def)
  from custom_tool_method [OF h, of "''pOsT''" "responding PNone" PNone PNone PNone None]
    custom_tool_method [OF h, of "''Patch''" "responding PNone" PNone PNone PNone None]
    h u
  show ?thesis by simp
qed

subsection \<open>C10: the boolean flags of \<open>send_call\<close>\<close>

text \<open>
  C10. When \<open>send_call\<close> sends its request (all checks passed), the body has the keys
  \<open>wait_for_greeting\<close>, \<open>block_interruptions\<close>, \<open>record\<close> and \<open>answered_by_enabled\<close>,
  each with the boolean the caller passed; the default of each is \<open>False\<close>, so a caller who
  omits a flag sends \<open>false\<close> under its key. Only \<open>None\<close> is filtered: every entry of
  \<open>optional_params\<close> is in the body with its value unless that value is \<open>None\<close>, and then
  its key is absent.
\<close>

theorem boolean_flags_always_sent:
  assumes "truthy (py_str auth_token)" and "p \<noteq> []"
    and "truthy (py_str (o_task opts)) \<or> truthy (py_str (o_pathway_id opts))"
    and "match_phone (clean_phone p)"
    and "o_model opts \<in> {''base'', ''turbo'', ''enhanced''}"
    and "o_background_track opts \<in>
           {None, Some '''', Some ''none'', Some ''office'', Some ''cafe'', Some ''restaurant''}"
  shows "\<exists>rq body.
           snd (send_call tr auth_token (Some p) opts) = [rq] \<and> req_json rq = Some body \<and>
           map_of body ''wait_for_greeting'' = Some (PBool (o_wait_for_greeting opts)) \<and>
           map_of body ''block_interruptions'' = Some (PBool (o_block_interruptions opts)) \<and>
           map_of body ''record'' = Some (PBool (o_record opts)) \<and>
           map_of body ''answered_by_enabled'' = Some (PBool (o_answered_by_enabled opts)) \<and>
           (\<forall>k v. map_of (optional_params opts) k = Some v \<longrightarrow>
                  map_of body k = (if v = PNone then None else Some v)) \<and>
           o_wait_for_greeting send_call_defaults = False \<and>
           o_block_interruptions send_call_defaults = False \<and>
           o_record send_call_defaults = False \<and>
           o_answered_by_enabled send_call_defaults = False"
proof -
  let ?body = "dict_update [(''phone_number'', PStr (clean_phone p))]
                 (filter (\<lambda>(k, v). v \<noteq> PNone) (optional_params opts))"
  have sent: "snd (send_call tr auth_token (Some p) opts) =
      [\<lparr>req_method = POST, req_url = CALLS_ENDPOINT,
         req_headers = set_if (truthy (py_str (o_org_id opts))) ''organization''
           (py_str (o_org_id opts))
           [(''authorization'', py_str auth_token), (''Content-Type'', PStr ''application/json'')],
         req_json = Some ?body, req_params = None\<rparr>]"
    unfolding send_call_valid [OF assms] by (rule snd_perform)
  have flags:
    "map_of (optional_params opts) ''wait_for_greeting'' = Some (PBool (o_wait_for_greeting opts))"
    "map_of (optional_params opts) ''block_interruptions'' =
       Some (PBool (o_block_interruptions opts))"
    "map_of (optional_params opts) ''record'' = Some (PBool (o_record opts))"
    "map_of (optional_params opts) ''answered_by_enabled'' =
       Some (PBool (o_answered_by_enabled opts))"
    by (simp_all add: optional_params_def)
  have no_phone: "map_of (optional_params opts) ''phone_number'' = None"
    by (simp add: optional_params_def)
  have only_none: "map_of ?body k = (if v = PNone then None else Some v)"
    if "map_of (optional_params opts) k = Some v" for k v
  proof -
    from that no_phone have "k \<noteq> ''phone_number''" by auto
    with that show ?thesis by (simp add: send_call_body)
  qed
  have defaults: "o_wait_for_greeting send_call_defaults = False"
    "o_block_interruptions send_call_defaults = False"
    "o_record send_call_defaults = False"
    "o_answered_by_enabled send_call_defaults = False"
    by (simp_all add: send_call_defaults_def)
  from sent flags only_none defaults show ?thesis
    by (simp add: send_call_body)
qed

theorem boolean_flags_always_sent_witness:
  "truthy (py_str (Some ''k'')) \<and> match_phone (clean_phone ''+12025550101'') \<and>
   truthy (py_str (o_task (send_call_defaults\<lparr>o_task := Some ''hi''\<rparr>))) \<and>
   o_model (send_call_defaults\<lparr>o_task := Some ''hi''\<rparr>) = ''enhanced'' \<and>
   o_background_track (send_call_defaults\<lparr>o_task := Some ''hi''\<rparr>) = None \<and>
   (\<exists>rq body.
      snd (send_call (responding PNone) (Some ''k'') (Some ''+12025550101'')
             (send_call_defaults\<lparr>o_task := Some ''hi''\<rparr>)) = [rq] \<and>
      req_json rq = Some body \<and>
      map_of body ''wait_for_greeting'' = Some (PBool False) \<and>
      map_of body ''block_interruptions'' = Some (PBool False) \<and>
      map_of body ''record'' = Some (PBool False) \<and>
      map_of body ''answered_by_enabled'' = Some (PBool False) \<and>
      map_of body ''timezone'' = None)"
proof -
  let ?opts = "send_call_defaults\<lparr>o_task := Some ''hi''\<rparr>"
  have a: "truthy (py_str (Some ''k''))"
    by (simp add: py_str_def)
  have n: "''+12025550101'' \<noteq> []" by simp
  have o: "truthy (py_str (o_task ?opts)) \<or> truthy (py_str (o_pathway_id ?opts))"
    by (simp add: py_str_def)
  have ph: "match_phone (clean_phone ''+12025550101'')"
    by (simp add: phone_examples)
  have m: "o_model ?opts \<in> {''base'', ''turbo'', ''enhanced''}"
    by (simp add: send_call_defaults_def DEFAULT_MODEL_def)
  have b: "o_background_track ?opts \<in>
      {None, Some '''', Some ''none'', Some ''office'', Some ''cafe'', Some ''restaurant''}"
    by (simp add: send_call_defaults_def)
  have tz: "map_of (optional_params ?opts) ''timezone'' = Some PNone"
    by (simp add: optional_params_def send_call_defaults_def py_str_def)
  from boolean_flags_always_sent [OF a n o ph m b, of "responding PNone"]
  obtain rq body where r:
    "snd (send_call (responding PNone) (Some ''k'') (Some ''+12025550101'') ?opts) = [rq]"
    "req_json rq = Some body"
    "map_of body ''wait_for_greeting'' = Some (PBool (o_wait_for_greeting ?opts))"
    "map_of body ''block_interruptions'' = Some (PBool (o_block_interruptions ?opts))"
    "map_of body ''record'' = Some (PBool (o_record ?opts))"
    "map_of body ''answered_by_enabled'' = Some (PBool (o_answered_by_enabled ?opts))"
    "\<forall>k v. map_of (optional_params ?opts) k = Some v \<longrightarrow>
       map_of body k = (if v = PNone then None else Some v)"
    by blast
  from r(7) tz have "map_of body ''timezone'' = None" by simp
  with r(1-6) a ph show ?thesis
    by (auto simp add: send_call_defaults_def DEFAULT_MODEL_def py_str_def)
qed

subsection \<open>C4: the temperature of a call\<close>

lemma send_batch_calls_temperature:
  assumes "truthy (py_str auth_token)"
    and "ns \<noteq> []"
    and "\<forall>n \<in> set ns. startswith_plus n \<and> isdigit (drop 1 n)"
    and "truthy (py_str pathway_id) \<or> truthy (py_str task)"
    and "model \<in> {None, Some '''', Some ''base'', Some ''turbo'', Some ''enhanced''}"
  shows "send_batch_calls tr auth_token (Some ns) pathway_id task model voice language
           (Some t) max_duration schedule_time retry_config metadata org_id =
         (if \<not> (0 \<le> t \<and> t \<le> 1)
          then raise (ValueError ''Temperature must be between 0.0 and 1.0'')
          else perform tr POST (Some BATCH_CALLS_ENDPOINT)
            (set_if (truthy (py_str org_id)) ''encrypted_key'' (py_str org_id)
               [(''authorization'', py_str auth_token),
                (''Content-Type'', PStr ''application/json'')])
            (Some
              (set_if (metadata \<noteq> PNone) ''metadata'' metadata
              (set_if (retry_config \<noteq> PNone) ''retry_config'' retry_config
              (set_if (py_str schedule_time \<noteq> PNone) ''schedule_time'' (py_str schedule_time)
              (set_if (py_int max_duration \<noteq> PNone) ''max_duration'' (py_int max_duration)
              (set_if True ''temperature'' (PFloat t)
              (set_if (py_str language \<noteq> PNone) ''language'' (py_str language)
              (set_if (py_str voice \<noteq> PNone) ''voice'' (py_str voice)
              (set_if (py_str model \<noteq> PNone) ''model'' (py_str model)
              (set_if (py_str task \<noteq> PNone) ''task'' (py_str task)
              (set_if (py_str pathway_id \<noteq> PNone) ''pathway_id'' (py_str pathway_id)
                 [(''phone_numbers'', py_strs (Some ns))])))))))))))
            None)"
proof -
  have nums: "truthy (py_strs (Some ns))"
    using assms(2) by (simp add: py_strs_def)
  have one: "(\<not> truthy (py_str pathway_id) \<and> \<not> truthy (py_str task)) = False"
    using assms(4) by blast
  have found: "find (\<lambda>number. \<not> startswith_plus number \<or> \<not> isdigit (drop 1 number)) ns = None"
    using assms(3) by (simp add: find_None_iff)
  have model: "(truthy (py_str model) \<and>
                py_str model \<notin> set [PStr ''base'', PStr ''turbo'', PStr ''enhanced'']) = False"
    using assms(5) by (auto simp add: py_str_def)
  have temp: "py_float (Some t) = PFloat t"
    by (simp add: py_float_def)
  show ?thesis
    unfolding send_batch_calls_def one model
    by (simp only: assms(1) nums not_True_eq_False if_False option.case found temp)
       (simp add: Let_def)
qed

text \<open>
  C4, as the code has it. With its other checks passed, \<open>send_batch_calls\<close> rejects a
  temperature outside \<open>[0.0, 1.0]\<close>, such as 1.5, with \<open>ValueError("Temperature must be
  between 0.0 and 1.0")\<close> before any request is sent, and puts a temperature inside the
  range, such as 0.7, unmodified under \<open>temperature\<close> in the JSON body. \<open>send_call\<close> has
  no range check on the temperature: with its checks passed it puts the temperature it
  is given, 0.7 or 1.5 or any other, unmodified under \<open>temperature\<close> in the JSON body.
\<close>

theorem temperature_range:
  assumes "truthy (py_str auth_token)"
    and "ns \<noteq> []"
    and "\<forall>n \<in> set ns. startswith_plus n \<and> isdigit (drop 1 n)"
    and "truthy (py_str pathway_id) \<or> truthy (py_str task)"
    and "model \<in> {None, Some '''', Some ''base'', Some ''turbo'', Some ''enhanced''}"
    and "p \<noteq> []"
    and "match_phone (clean_phone p)"
    and "truthy (py_str (o_task opts)) \<or> truthy (py_str (o_pathway_id opts))"
    and "o_model opts \<in> {''base'', ''turbo'', ''enhanced''}"
    and "o_background_track opts \<in>
           {None, Some '''', Some ''none'', Some ''office'', Some ''cafe'', Some ''restaurant''}"
  shows "(t < 0 \<or> 1 < t \<longrightarrow>
            send_batch_calls tr auth_token (Some ns) pathway_id task model voice language
              (Some t) max_duration schedule_time retry_config metadata org_id =
              (Raised (ValueError ''Temperature must be between 0.0 and 1.0''), [])) \<and>
         (0 \<le> t \<and> t \<le> 1 \<longrightarrow>
            (\<exists>rq body.
               snd (send_batch_calls tr auth_token (Some ns) pathway_id task model voice
                      language (Some t) max_duration schedule_time retry_config metadata
                      org_id) = [rq] \<and>
               req_json rq = Some body \<and> map_of body ''temperature'' = Some (PFloat t))) \<and>
         (\<exists>rq body.
            snd (send_call tr auth_token (Some p) opts) = [rq] \<and>
            req_json rq = Some body \<and>
            map_of body ''temperature'' = Some (PFloat (o_temperature opts)))"
proof (intro conjI impI)
  assume "t < 0 \<or> 1 < t"
  then have "\<not> (0 \<le> t \<and> t \<le> 1)" by auto
  then show "send_batch_calls tr auth_token (Some ns) pathway_id task model voice language
      (Some t) max_duration schedule_time retry_config metadata org_id =
      (Raised (ValueError ''Temperature must be between 0.0 and 1.0''), [])"
    unfolding send_batch_calls_temperature [OF assms(1-5)]
    by (simp add: raise_def)
next
  assume "0 \<le> t \<and> t \<le> 1"
  then show "\<exists>rq body.
      snd (send_batch_calls tr auth_token (Some ns) pathway_id task model voice language
             (Some t) max_duration schedule_time retry_config metadata org_id) = [rq] \<and>
      req_json rq = Some body \<and> map_of body ''temperature'' = Some (PFloat t)"
    unfolding send_batch_calls_temperature [OF assms(1-5)]
    by (simp add: snd_perform map_of_set_if)
next
  have "map_of (optional_params opts) ''temperature'' = Some (PFloat (o_temperature opts))"
    by (simp add: optional_params_def)
  then show "\<exists>rq body.
      snd (send_call tr auth_token (Some p) opts) = [rq] \<and> req_json rq = Some body \<and>
      map_of body ''temperature'' = Some (PFloat (o_temperature opts))"
    unfolding send_call_valid [OF assms(1,6,8,7,9,10)]
    by (simp add: snd_perform send_call_body)
qed

theorem temperature_range_witness:
  "truthy (py_str (Some ''k'')) \<and> truthy (py_str (Some ''hi'')) \<and>
   startswith_plus ''+12025550101'' \<and> isdigit (drop 1 ''+12025550101'') \<and>
   match_phone (clean_phone ''+12025550101'') \<and>
   send_batch_calls (responding PNone) (Some ''k'') (Some [''+12025550101'']) None
     (Some ''hi'') (Some ''enhanced'') (Some ''mason'') (Some ''en-US'') (Some 1.5) (Some 30)
     None PNone PNone None =
     (Raised (ValueError ''Temperature must be between 0.0 and 1.0''), []) \<and>
   (\<exists>rq body.
      snd (send_batch_calls (responding PNone) (Some ''k'') (Some [''+12025550101'']) None
             (Some ''hi'') (Some ''enhanced'') (Some ''mason'') (Some ''en-US'') (Some 0.7)
             (Some 30) None PNone PNone None) = [rq] \<and>
      req_json rq = Some body \<and> map_of body ''temperature'' = Some (PFloat 0.7)) \<and>
   (\<exists>rq body.
      snd (send_call (responding PNone) (Some ''k'') (Some ''+12025550101'')
             (send_call_defaults\<lparr>o_task := Some ''hi''\<rparr>)) = [rq] \<and>
      req_json rq = Some body \<and> map_of body ''temperature'' = Some (PFloat 0.7))"
proof -
  let ?opts = "send_call_defaults\<lparr>o_task := Some ''hi''\<rparr>"
  have a: "truthy (py_str (Some ''k''))" and t: "truthy (py_str (Some ''hi''))"
    by (simp_all add: py_str_def)
  have ns: "[''+12025550101''] \<noteq> []" by simp
  have num: "startswith_plus ''+12025550101''" "isdigit (drop 1 ''+12025550101'')"
    by (simp_all add: startswith_plus_def isdigit_def is_digit_def)
  then have all: "\<forall>n \<in> set [''+12025550101'']. startswith_plus n \<and> isdigit (drop 1 n)"
    by simp
  have one: "truthy (py_str None) \<or> truthy (py_str (Some ''hi''))"
    using t by simp
  have model: "Some ''enhanced'' \<in>
      {None, Some '''', Some ''base'', Some ''turbo'', Some ''enhanced''}"
    by simp
  have n: "''+12025550101'' \<noteq> []" by simp
  have ph: "match_phone (clean_phone ''+12025550101'')"
    by (simp add: phone_examples)
  have o: "truthy (py_str (o_task ?opts)) \<or> truthy (py_str (o_pathway_id ?opts))"
    by (simp add: py_str_def)
  have m: "o_model ?opts \<in> {''base'', ''turbo'', ''enhanced''}"
    by (simp add: send_call_defaults_def DEFAULT_MODEL_def)
  have b: "o_background_track ?opts \<in>
      {None, Some '''', Some ''none'', Some ''office'', Some ''cafe'', Some ''restaurant''}"
    by (simp add: send_call_defaults_def)
  have d: "o_temperature ?opts = 0.7"
    by (simp add: send_call_defaults_def DEFAULT_TEMPERATURE_def)
  note inst = temperature_range [OF a ns all one model n ph o m b, where tr = "responding PNone"]
  from inst [of "1.5"] inst [of "0.7"] a t num ph d show ?thesis
    by simp
qed

text \<open>
  C4 as stated says that \<open>send_call\<close> rejects the temperature 1.5. It sends it.
\<close>

theorem temperature_range_counterexample:
  "send_call (responding PNone) (Some ''k'') (Some ''+12025550101'')
     (send_call_defaults\<lparr>o_task := Some ''hi'', o_temperature := 1.5\<rparr>) =
     (Returned PNone,
      [\<lparr>req_method = POST, req_url = ''https://api.bland.ai/v1/calls'',
         req_headers = [(''authorization'', PStr ''k''),
                        (''Content-Type'', PStr ''application/json'')],
         req_json = Some [(''phone_number'', PStr ''+12025550101''), (''task'', PStr ''hi''),
                          (''voice'', PStr ''mason''), (''wait_for_greeting'', PBool False),
                          (''block_interruptions'', PBool False),
                          (''interruption_threshold'', PInt 100),
                          (''model'', PStr ''enhanced''), (''temperature'', PFloat 1.5),
                          (''language'', PStr ''en-US''), (''max_duration'', PInt 30),
                          (''record'', PBool False), (''answered_by_enabled'', PBool False)],
         req_params = None\<rparr>])"
  by (simp add: send_call_def optional_params_def send_call_defaults_def run_defs phone_examples
      BACKGROUND_TRACKS_def CALLS_ENDPOINT_def DEFAULT_VOICE_def DEFAULT_MODEL_def
      DEFAULT_LANGUAGE_def DEFAULT_MAX_DURATION_def DEFAULT_INTERRUPTION_THRESHOLD_def)

subsection \<open>C7: pagination parameters\<close>

text \<open>
  C7, as the code has it. Five operations take pagination parameters. With a non-empty
  auth token, \<open>list_batches\<close> and \<open>list_web_agents\<close> reject \<open>limit < 1\<close> and
  \<open>offset < 0\<close>, and \<open>list_custom_tools\<close> rejects \<open>page < 1\<close> and \<open>limit < 1\<close>, each with a
  \<open>ValueError\<close> before any request is sent; values in range are the \<open>limit\<close>, \<open>offset\<close>
  and \<open>page\<close> of the query parameters, unchanged (in \<open>list_batches\<close> the sort order must
  be valid too). \<open>list_calls\<close> and \<open>get_all_pathways\<close> check no range: whatever \<open>limit\<close>
  and \<open>offset\<close> they are given are the query parameters of the request they send.
\<close>

theorem pagination_parameters:
  assumes "truthy (py_str auth_token)"
    and "sort_order \<in> {None, Some '''', Some ''asc'', Some ''desc''}"
  shows
    "(l < 1 \<longrightarrow>
        list_batches tr auth_token (Some l) offset status date_range sort_by sort_order org_id =
          (Raised (ValueError ''Limit must be greater than 0''), []) \<and>
        list_web_agents tr auth_token (Some l) offset org_id =
          (Raised (ValueError ''Limit must be greater than 0''), [])) \<and>
     (1 \<le> l \<and> off < 0 \<longrightarrow>
        list_batches tr auth_token (Some l) (Some off) status date_range sort_by sort_order org_id =
          (Raised (ValueError ''Offset must be greater than or equal to 0''), []) \<and>
        list_web_agents tr auth_token (Some l) (Some off) org_id =
          (Raised (ValueError ''Offset must be greater than or equal to 0''), [])) \<and>
     (1 \<le> l \<and> 0 \<le> off \<longrightarrow>
        (\<exists>rq q. snd (list_batches tr auth_token (Some l) (Some off) status date_range sort_by
                       sort_order org_id) = [rq] \<and>
           req_params rq = Some q \<and> map_of q ''limit'' = Some (PInt l) \<and>
           map_of q ''offset'' = Some (PInt off)) \<and>
        (\<exists>rq q. snd (list_web_agents tr auth_token (Some l) (Some off) org_id) = [rq] \<and>
           req_params rq = Some q \<and> map_of q ''limit'' = Some (PInt l) \<and>
           map_of q ''offset'' = Some (PInt off))) \<and>
     (pg < 1 \<longrightarrow>
        list_custom_tools tr auth_token (Some pg) (Some l) org_id =
          (Raised (ValueError ''Page number must be greater than 0''), [])) \<and>
     (1 \<le> pg \<and> l < 1 \<longrightarrow>
        list_custom_tools tr auth_token (Some pg) (Some l) org_id =
          (Raised (ValueError ''Limit must be greater than 0''), [])) \<and>
     (1 \<le> pg \<and> 1 \<le> l \<longrightarrow>
        (\<exists>rq q. snd (list_custom_tools tr auth_token (Some pg) (Some l) org_id) = [rq] \<and>
           req_params rq = Some q \<and> map_of q ''page'' = Some (PInt pg) \<and>
           map_of q ''limit'' = Some (PInt l))) \<and>
     (\<exists>rq q. snd (list_calls tr auth_token from_number to_number from_index to_index l
                    ascending start_date end_date created_at completed batch_id answered_by
                    inbound duration_gt duration_lt campaign_id org_id) = [rq] \<and>
        req_params rq = Some q \<and> map_of q ''limit'' = Some (PInt l)) \<and>
     (\<exists>rq q. snd (get_all_pathways tr auth_token l off org_id) = [rq] \<and>
        req_params rq = Some q \<and> map_of q ''limit'' = Some (PInt l) \<and>
        map_of q ''offset'' = Some (PInt off))"
proof -
  have so: "(truthy (py_str sort_order) \<and>
             py_str sort_order \<notin> set [PStr ''asc'', PStr ''desc'']) = False"
    using assms(2) by (auto simp add: py_str_def)
  have calls: "\<exists>rq q. snd (list_calls tr auth_token from_number to_number from_index to_index l
                    ascending start_date end_date created_at completed batch_id answered_by
                    inbound duration_gt duration_lt campaign_id org_id) = [rq] \<and>
        req_params rq = Some q \<and> map_of q ''limit'' = Some (PInt l)"
    using assms(1)
    by (simp add: list_calls_def Let_def snd_perform map_of_update_filter del: filter.simps)
  have pathways: "\<exists>rq q. snd (get_all_pathways tr auth_token l off org_id) = [rq] \<and>
        req_params rq = Some q \<and> map_of q ''limit'' = Some (PInt l) \<and>
        map_of q ''offset'' = Some (PInt off)"
    using assms(1)
    by (simp add: get_all_pathways_def Let_def snd_try_request)
  show ?thesis
  proof (intro conjI impI)
    assume "l < 1"
    then show "list_batches tr auth_token (Some l) offset status date_range sort_by sort_order
        org_id = (Raised (ValueError ''Limit must be greater than 0''), [])"
      using assms(1) by (simp add: list_batches_def raise_def)
  next
    assume "l < 1"
    then show "list_web_agents tr auth_token (Some l) offset org_id =
        (Raised (ValueError ''Limit must be greater than 0''), [])"
      using assms(1) by (simp add: list_web_agents_def raise_def)
  next
    assume "1 \<le> l \<and> off < 0"
    then show "list_batches tr auth_token (Some l) (Some off) status date_range sort_by
        sort_order org_id =
        (Raised (ValueError ''Offset must be greater than or equal to 0''), [])"
      using assms(1) by (simp add: list_batches_def raise_def)
  next
    assume "1 \<le> l \<and> off < 0"
    then show "list_web_agents tr auth_token (Some l) (Some off) org_id =
        (Raised (ValueError ''Offset must be greater than or equal to 0''), [])"
      using assms(1) by (simp add: list_web_agents_def raise_def)
  next
    assume "1 \<le> l \<and> 0 \<le> off"
    then show "\<exists>rq q. snd (list_batches tr auth_token (Some l) (Some off) status date_range
        sort_by sort_order org_id) = [rq] \<and>
        req_params rq = Some q \<and> map_of q ''limit'' = Some (PInt l) \<and>
        map_of q ''offset'' = Some (PInt off)"
      unfolding list_batches_def so
      using assms(1) by (simp add: Let_def snd_perform map_of_set_if py_int_def)
  next
    assume "1 \<le> l \<and> 0 \<le> off"
    then show "\<exists>rq q. snd (list_web_agents tr auth_token (Some l) (Some off) org_id) = [rq] \<and>
        req_params rq = Some q \<and> map_of q ''limit'' = Some (PInt l) \<and>
        map_of q ''offset'' = Some (PInt off)"
      using assms(1)
      by (simp add: list_web_agents_def Let_def snd_perform map_of_set_if py_int_def)
  next
    assume "pg < 1"
    then show "list_custom_tools tr auth_token (Some pg) (Some l) org_id =
        (Raised (ValueError ''Page number must be greater than 0''), [])"
      using assms(1) by (simp add: list_custom_tools_def raise_def)
  next
    assume "1 \<le> pg \<and> l < 1"
    then show "list_custom_tools tr auth_token (Some pg) (Some l) org_id =
        (Raised (ValueError ''Limit must be greater than 0''), [])"
      using assms(1) by (simp add: list_custom_tools_def raise_def)
  next
    assume "1 \<le> pg \<and> 1 \<le> l"
    then show "\<exists>rq q. snd (list_custom_tools tr auth_token (Some pg) (Some l) org_id) = [rq] \<and>
        req_params rq = Some q \<and> map_of q ''page'' = Some (PInt pg) \<and>
        map_of q ''limit'' = Some (PInt l)"
      using assms(1)
      by (simp add: list_custom_tools_def Let_def snd_try_request py_int_def)
  next
    show "\<exists>rq q. snd (list_calls tr auth_token from_number to_number from_index to_index l
        ascending start_date end_date created_at completed batch_id answered_by
        inbound duration_gt duration_lt campaign_id org_id) = [rq] \<and>
        req_params rq = Some q \<and> map_of q ''limit'' = Some (PInt l)"
      by (rule calls)
  next
    show "\<exists>rq q. snd (get_all_pathways tr auth_token l off org_id) = [rq] \<and>
        req_params rq = Some q \<and> map_of q ''limit'' = Some (PInt l) \<and>
        map_of q ''offset'' = Some (PInt off)"
      by (rule pathways)
  qed
qed

theorem pagination_parameters_witness:
  "truthy (py_str (Some ''k'')) \<and>
   list_batches (responding PNone) (Some ''k'') (Some 0) (Some 0) None PNone None (Some ''desc'')
     None = (Raised (ValueError ''Limit must be greater than 0''), []) \<and>
   list_batches (responding PNone) (Some ''k'') (Some 5) (Some (- 1)) None PNone None
     (Some ''desc'') None =
     (Raised (ValueError ''Offset must be greater than or equal to 0''), []) \<and>
   list_custom_tools (responding PNone) (Some ''k'') (Some 0) (Some 5) None =
     (Raised (ValueError ''Page number must be greater than 0''), []) \<and>
   (\<exists>rq q. snd (list_web_agents (responding PNone) (Some ''k'') (Some 5) (Some 2) None) = [rq] \<and>
      req_params rq = Some q \<and> map_of q ''limit'' = Some (PInt 5) \<and>
      map_of q ''offset'' = Some (PInt 2)) \<and>
   (\<exists>rq q. snd (list_custom_tools (responding PNone) (Some ''k'') (Some 3) (Some 5) None) = [rq] \<and>
      req_params rq = Some q \<and> map_of q ''page'' = Some (PInt 3) \<and>
      map_of q ''limit'' = Some (PInt 5))"
proof -
  have a: "truthy (py_str (Some ''k''))"
    by (simp add: py_str_def)
  have s: "Some ''desc'' \<in> {None, Some '''', Some ''asc'', Some ''desc''}"
    by simp
  note inst = pagination_parameters [OF a s, where tr = "responding PNone" and org_id = None
      and status = None and date_range = PNone and sort_by = None]
  from inst [of 0 "Some 0" 0 0] inst [of 5 "Some (- 1)" "- 1" 0] inst [of 5 "Some 2" 2 3] a
  show ?thesis by simp
qed

text \<open>
  C7 as stated says that every operation with pagination parameters rejects
  \<open>limit < 1\<close> and \<open>offset < 0\<close>. \<open>list_calls\<close> sends \<open>limit = 0\<close>, and
  \<open>get_all_pathways\<close> sends \<open>limit = 0\<close> and \<open>offset = -1\<close>.
\<close>

theorem pagination_parameters_counterexample:
  "list_calls (responding PNone) (Some ''k'') None None None None 0 False None None None None
     None None None None None None None =
     (Returned PNone,
      [\<lparr>req_method = GET, req_url = ''https://api.bland.ai/v1/calls'',
         req_headers = [(''authorization'', PStr ''k'')], req_json = None,
         req_params = Some [(''limit'', PInt 0), (''ascending'', PBool False)]\<rparr>]) \<and>
   get_all_pathways (responding (PDict [(''pathways'', PList [PDict []])])) (Some ''k'') 0 (- 1)
     None =
     (Returned (PDict [(''pathways'', PList [PDict []])]),
      [\<lparr>req_method = GET, req_url = ''https://api.bland.ai/v1/pathways'',
         req_headers = [(''authorization'', PStr ''k'')], req_json = None,
         req_params = Some [(''limit'', PInt 0), (''offset'', PInt (- 1))]\<rparr>])"
  by (simp add: list_calls_def get_all_pathways_def run_defs dict_get_def CALLS_ENDPOINT_def
      PATHWAYS_ENDPOINT_def)

end
